theory Spec2Isabelle
  imports Main "HOL-Library.Word" "HOL-Library.Log_Nat" "HOL-Library.Monad_Syntax"
begin

unbundle bit_operations_syntax

section \<open>Floating-point values\<close>

text \<open>
  The trainer computes with C \<open>float\<close> and \<open>double\<close>.  A floating-point datum is
  modelled by its value: not-a-number, a signed infinity, or a signed finite magnitude
  (the sign is kept apart so that \<open>-0\<close> and \<open>+0\<close> are different data that compare
  equal).  The sign is \<open>True\<close> for negative.  Every arithmetic operation computes
  the exact rational result and rounds it to the format of the operation
  (round to nearest, ties to even, gradual underflow, overflow to infinity).
\<close>

datatype fval = NaN | Inf bool | Fin bool rat

datatype fmt = Binary32 | Binary64

fun prec :: "fmt \<Rightarrow> int" where
  "prec Binary32 = 24"
| "prec Binary64 = 53"

fun emax :: "fmt \<Rightarrow> int" where
  "emax Binary32 = 127"
| "emax Binary64 = 1023"

definition emin :: "fmt \<Rightarrow> int" where
  "emin f = 1 - emax f"

definition pow2 :: "int \<Rightarrow> rat" where
  "pow2 k = (if 0 \<le> k then 2 ^ nat k else 1 / 2 ^ nat (- k))"

text \<open>The exponent of the leading binary digit of a positive rational.\<close>

definition floor_log2 :: "rat \<Rightarrow> int" where
  "floor_log2 r = (let (p, q) = quotient_of r; d = bitlen p - bitlen q
                   in if pow2 d \<le> r then d else d - 1)"

definition round_half_even :: "rat \<Rightarrow> int" where
  "round_half_even x = (let n = \<lfloor>x\<rfloor>; d = x - of_int n
                        in if d < 1 / 2 then n
                           else if 1 / 2 < d then n + 1
                           else if even n then n else n + 1)"

text \<open>
  \<open>fround f s r\<close> rounds the magnitude \<open>r \<ge> 0\<close> with sign \<open>s\<close> to format \<open>f\<close>:
  the spacing \<open>q\<close> of the format at \<open>r\<close> is \<open>2 ^ (e - (prec - 1))\<close> for the
  exponent \<open>e\<close> of \<open>r\<close>, not below the smallest normal exponent.
\<close>

definition fround :: "fmt \<Rightarrow> bool \<Rightarrow> rat \<Rightarrow> fval" where
  "fround f s r =
     (if r = 0 then Fin s 0
      else let e = max (floor_log2 r) (emin f);
               q = pow2 (e - (prec f - 1));
               v = of_int (round_half_even (r / q)) * q
           in if pow2 (emax f + 1) \<le> v then Inf s else Fin s v)"

definition sval :: "bool \<Rightarrow> rat \<Rightarrow> rat" where
  "sval s m = (if s then - m else m)"

fun fadd :: "fmt \<Rightarrow> fval \<Rightarrow> fval \<Rightarrow> fval" where
  "fadd f NaN y = NaN"
| "fadd f x NaN = NaN"
| "fadd f (Inf s) (Inf t) = (if s = t then Inf s else NaN)"
| "fadd f (Inf s) (Fin t b) = Inf s"
| "fadd f (Fin s a) (Inf t) = Inf t"
| "fadd f (Fin s a) (Fin t b) =
     (let r = sval s a + sval t b
      in if r = 0 then Fin (s \<and> t) 0 else fround f (r < 0) \<bar>r\<bar>)"

fun fneg :: "fval \<Rightarrow> fval" where
  "fneg NaN = NaN"
| "fneg (Inf s) = Inf (\<not> s)"
| "fneg (Fin s a) = Fin (\<not> s) a"

definition fsub :: "fmt \<Rightarrow> fval \<Rightarrow> fval \<Rightarrow> fval" where
  "fsub f x y = fadd f x (fneg y)"

fun fmul :: "fmt \<Rightarrow> fval \<Rightarrow> fval \<Rightarrow> fval" where
  "fmul f NaN y = NaN"
| "fmul f x NaN = NaN"
| "fmul f (Inf s) (Inf t) = Inf (s \<noteq> t)"
| "fmul f (Inf s) (Fin t b) = (if b = 0 then NaN else Inf (s \<noteq> t))"
| "fmul f (Fin s a) (Inf t) = (if a = 0 then NaN else Inf (s \<noteq> t))"
| "fmul f (Fin s a) (Fin t b) = fround f (s \<noteq> t) (a * b)"

fun fdiv :: "fmt \<Rightarrow> fval \<Rightarrow> fval \<Rightarrow> fval" where
  "fdiv f NaN y = NaN"
| "fdiv f x NaN = NaN"
| "fdiv f (Inf s) (Inf t) = NaN"
| "fdiv f (Inf s) (Fin t b) = Inf (s \<noteq> t)"
| "fdiv f (Fin s a) (Inf t) = Fin (s \<noteq> t) 0"
| "fdiv f (Fin s a) (Fin t b) =
     (if b = 0 then (if a = 0 then NaN else Inf (s \<noteq> t))
      else fround f (s \<noteq> t) (a / b))"

fun fabs :: "fval \<Rightarrow> fval" where
  "fabs NaN = NaN"
| "fabs (Inf s) = Inf False"
| "fabs (Fin s a) = Fin False a"

text \<open>
  The comparisons of C: every ordered comparison with a NaN is false, \<open>==\<close> with a
  NaN is false and \<open>!=\<close> is its negation; the two zeros are equal.
\<close>

fun flt :: "fval \<Rightarrow> fval \<Rightarrow> bool" where
  "flt NaN y = False"
| "flt x NaN = False"
| "flt (Inf s) (Inf t) = (s \<and> \<not> t)"
| "flt (Inf s) (Fin t b) = s"
| "flt (Fin s a) (Inf t) = (\<not> t)"
| "flt (Fin s a) (Fin t b) = (sval s a < sval t b)"

fun feq :: "fval \<Rightarrow> fval \<Rightarrow> bool" where
  "feq NaN y = False"
| "feq x NaN = False"
| "feq (Inf s) (Inf t) = (s = t)"
| "feq (Inf s) (Fin t b) = False"
| "feq (Fin s a) (Inf t) = False"
| "feq (Fin s a) (Fin t b) = (sval s a = sval t b)"

definition fle :: "fval \<Rightarrow> fval \<Rightarrow> bool" where
  "fle x y = (flt x y \<or> feq x y)"

definition fgt :: "fval \<Rightarrow> fval \<Rightarrow> bool" where
  "fgt x y = flt y x"

definition fge :: "fval \<Rightarrow> fval \<Rightarrow> bool" where
  "fge x y = fle y x"

definition fne :: "fval \<Rightarrow> fval \<Rightarrow> bool" where
  "fne x y = (\<not> feq x y)"

text \<open>Conversions: an unsigned integer to a format, and a value to a narrower format.\<close>

definition f_of_word :: "fmt \<Rightarrow> 'a::len word \<Rightarrow> fval" where
  "f_of_word f n = fround f False (of_int (uint n))"

fun fcast :: "fmt \<Rightarrow> fval \<Rightarrow> fval" where
  "fcast f NaN = NaN"
| "fcast f (Inf s) = Inf s"
| "fcast f (Fin s a) = fround f s a"

definition fzero :: fval where
  "fzero = Fin False 0"

text \<open>
  A datum of the model is well formed when its magnitude is not negative (the sign is
  kept apart), and representable in a format when, in addition, rounding to the format
  leaves it unchanged.  The third predicate holds of the two zeros and of NaN.
\<close>

definition well_formed :: "fval \<Rightarrow> bool" where
  "well_formed x = (case x of Fin s a \<Rightarrow> 0 \<le> a | _ \<Rightarrow> True)"

definition representable :: "fmt \<Rightarrow> fval \<Rightarrow> bool" where
  "representable f x = (well_formed x \<and> fcast f x = x)"

definition zero_or_nan :: "fval \<Rightarrow> bool" where
  "zero_or_nan x = (case x of NaN \<Rightarrow> True | Inf s \<Rightarrow> False | Fin s a \<Rightarrow> a = 0)"

section \<open>The gather kernel\<close>

text \<open>
  \<^verbatim>\<open>gather(position, in, out, n)\<close> runs its body once for every \<open>i < n\<close> (a grid-stride
  loop: each \<open>i\<close> belongs to exactly one thread).  The body reads \<open>index = position[i]\<close>,
  reads \<open>in[index]\<close> and stores it to \<open>out[index]\<close>.  The iterations only read
  \<open>position\<close> and \<open>in\<close>, and two iterations that store to the same cell store the
  same datum, so the result does not depend on the schedule; the model runs them in
  ascending order.  An access outside a buffer is undefined in C++: the model gives
  \<open>None\<close>.
\<close>

definition gather_body :: "32 word list \<Rightarrow> 'a list \<Rightarrow> nat \<Rightarrow> 'a list \<Rightarrow> 'a list option" where
  "gather_body position inp i out =
     (if i < length position then
        (let index = unat (position ! i)
         in if index < length inp \<and> index < length out
            then Some (out[index := inp ! index]) else None)
      else None)"

fun gather_loop :: "32 word list \<Rightarrow> 'a list \<Rightarrow> nat list \<Rightarrow> 'a list \<Rightarrow> 'a list option" where
  "gather_loop position inp [] out = Some out"
| "gather_loop position inp (i # is) out =
     (case gather_body position inp i out of
        None \<Rightarrow> None
      | Some out' \<Rightarrow> gather_loop position inp is out')"

definition gather :: "32 word list \<Rightarrow> 'a list \<Rightarrow> 'a list \<Rightarrow> nat \<Rightarrow> 'a list option" where
  "gather position inp out n = gather_loop position inp [0..<n] out"

text \<open>
  Its sibling \<^verbatim>\<open>gather_kernel_simple(position, in1, out1, n)\<close>, used for the leaf ids,
  stores \<open>in1[position[i]]\<close> to \<open>out1[i]\<close>.
\<close>

definition gather_kernel_simple_body ::
  "32 word list \<Rightarrow> 'a list \<Rightarrow> nat \<Rightarrow> 'a list \<Rightarrow> 'a list option" where
  "gather_kernel_simple_body position in1 i out1 =
     (if i < length position \<and> i < length out1 \<and> unat (position ! i) < length in1
      then Some (out1[i := in1 ! unat (position ! i)]) else None)"

fun gather_kernel_simple_loop ::
  "32 word list \<Rightarrow> 'a list \<Rightarrow> nat list \<Rightarrow> 'a list \<Rightarrow> 'a list option" where
  "gather_kernel_simple_loop position in1 [] out1 = Some out1"
| "gather_kernel_simple_loop position in1 (i # is) out1 =
     (case gather_kernel_simple_body position in1 i out1 of
        None \<Rightarrow> None
      | Some out' \<Rightarrow> gather_kernel_simple_loop position in1 is out')"

definition gather_kernel_simple ::
  "32 word list \<Rightarrow> 'a list \<Rightarrow> 'a list \<Rightarrow> nat \<Rightarrow> 'a list option" where
  "gather_kernel_simple position in1 out1 n = gather_kernel_simple_loop position in1 [0..<n] out1"

section \<open>Selecting the builder\<close>

text \<open>
  \<^verbatim>\<open>Garden::GrowTree\<close> instantiates, on its first call, the builder template for the
  objective, the depth and the precision.  The three template arguments are recorded as
  data.  The widths are those of the LP64 platform the trainer is built for
  (\<^verbatim>\<open>CHAR_BIT = 8\<close>).  The declaration of \<^verbatim>\<open>param.depth\<close> is in \<^verbatim>\<open>param.h\<close>; the depth
  is taken as a natural number, so \<open>depth + 1\<close> does not wrap.  A value of
  \<^verbatim>\<open>param.objective\<close> outside the three enumerators is \<open>OtherObjective\<close>.
\<close>

datatype objective = LinearRegression | LogisticRegression | SoftMaxOneVsAll | OtherObjective

datatype node_type = UnsignedChar | UnsignedShort | UnsignedInt | UnsignedLongInt

datatype grad_type = Float | Float2

datatype sum_type = SumFloat | SumDouble | SumFloat2 | SumMyDouble2

datatype garden_error =
    UnsupportedDepth
  | UnknownObjective
  | ColsampleBytreeTooSmall
  | ColsampleBylevelTooSmall
  | UndefinedBehaviour
  | LengthError
  | BadAlloc

definition CHAR_BIT :: nat where
  "CHAR_BIT = 8"

fun sizeof :: "node_type \<Rightarrow> nat" where
  "sizeof UnsignedChar = 1"
| "sizeof UnsignedShort = 2"
| "sizeof UnsignedInt = 4"
| "sizeof UnsignedLongInt = 8"

definition new_builder ::
  "objective \<Rightarrow> bool \<Rightarrow> nat \<Rightarrow> garden_error + (node_type \<times> grad_type \<times> sum_type)" where
  "new_builder obj double_precision depth =
     (case obj of
        LinearRegression \<Rightarrow>
          if depth + 1 \<le> sizeof UnsignedChar * CHAR_BIT then
            (if double_precision then Inr (UnsignedChar, Float, SumDouble)
             else Inr (UnsignedChar, Float, SumFloat))
          else if depth + 1 \<le> sizeof UnsignedShort * CHAR_BIT then
            (if double_precision then Inr (UnsignedShort, Float, SumDouble)
             else Inr (UnsignedShort, Float, SumFloat))
          else if depth + 1 \<le> sizeof UnsignedInt * CHAR_BIT then
            (if double_precision then Inr (UnsignedInt, Float, SumDouble)
             else Inr (UnsignedInt, Float, SumFloat))
          else if depth + 1 \<le> sizeof UnsignedLongInt * CHAR_BIT then
            (if double_precision then Inr (UnsignedLongInt, Float, SumDouble)
             else Inr (UnsignedInt, Float, SumFloat))
          else Inl UnsupportedDepth
      | LogisticRegression \<Rightarrow>
          if depth + 1 \<le> sizeof UnsignedChar * CHAR_BIT then
            (if double_precision then Inr (UnsignedChar, Float2, SumMyDouble2)
             else Inr (UnsignedChar, Float2, SumFloat2))
          else if depth + 1 \<le> sizeof UnsignedShort * CHAR_BIT then
            (if double_precision then Inr (UnsignedShort, Float2, SumMyDouble2)
             else Inr (UnsignedShort, Float2, SumFloat2))
          else if depth + 1 \<le> sizeof UnsignedInt * CHAR_BIT then
            (if double_precision then Inr (UnsignedInt, Float2, SumMyDouble2)
             else Inr (UnsignedInt, Float2, SumFloat2))
          else if depth + 1 \<le> sizeof UnsignedLongInt * CHAR_BIT then
            (if double_precision then Inr (UnsignedLongInt, Float2, SumMyDouble2)
             else Inr (UnsignedLongInt, Float2, SumFloat2))
          else Inl UnsupportedDepth
      | SoftMaxOneVsAll \<Rightarrow>
          if depth + 1 \<le> sizeof UnsignedChar * CHAR_BIT then
            (if double_precision then Inr (UnsignedChar, Float2, SumMyDouble2)
             else Inr (UnsignedChar, Float2, SumFloat2))
          else if depth + 1 \<le> sizeof UnsignedShort * CHAR_BIT then
            (if double_precision then Inr (UnsignedShort, Float2, SumMyDouble2)
             else Inr (UnsignedShort, Float2, SumFloat2))
          else if depth + 1 \<le> sizeof UnsignedInt * CHAR_BIT then
            (if double_precision then Inr (UnsignedInt, Float2, SumMyDouble2)
             else Inr (UnsignedInt, Float2, SumFloat2))
          else if depth + 1 \<le> sizeof UnsignedLongInt * CHAR_BIT then
            (if double_precision then Inr (UnsignedLongInt, Float2, SumMyDouble2)
             else Inr (UnsignedLongInt, Float2, SumFloat2))
          else Inl UnsupportedDepth
      | OtherObjective \<Rightarrow> Inl UnknownObjective)"

text \<open>The property asked of the leaf-id type: it fits \<open>depth + 1\<close> bits and no narrower type does.\<close>

definition smallest_fitting :: "nat \<Rightarrow> node_type \<Rightarrow> bool" where
  "smallest_fitting depth t =
     (depth + 1 \<le> sizeof t * CHAR_BIT \<and>
      list_all (\<lambda>u. sizeof u * CHAR_BIT < depth + 1 \<or> sizeof t \<le> sizeof u)
        [UnsignedChar, UnsignedShort, UnsignedInt, UnsignedLongInt])"

section \<open>Constructing the builder\<close>

text \<open>
  The constructor of \<^verbatim>\<open>TaylorApproximationBuilder\<close> asks for storage in the order of its
  member initialisers and its body.  The sizes that depend on the depth are computed in
  \<^verbatim>\<open>int\<close>, as \<^verbatim>\<open>1 << (param.depth - 2)\<close> and \<^verbatim>\<open>1 << param.depth\<close>.

  \<open>shift_left_1 k\<close> is \<^verbatim>\<open>1 << k\<close>: it is undefined for a count that is negative or not
  below the width of \<^verbatim>\<open>int\<close>, and the count \<open>31\<close> moves the \<open>1\<close> into the sign bit and
  gives \<^verbatim>\<open>INT_MIN\<close>.
\<close>

definition shift_left_1 :: "int \<Rightarrow> int option" where
  "shift_left_1 k =
     (if 0 \<le> k \<and> k \<le> 30 then Some (2 ^ nat k)
      else if k = 31 then Some (- 2147483648)
      else None)"

text \<open>
  A request for storage of \<open>n\<close> elements (or bytes), \<open>n\<close> converted to \<^verbatim>\<open>size_t\<close>.  No
  container holds \<open>2 ^ 63\<close> elements: \<^verbatim>\<open>std::vector\<close> throws \<^verbatim>\<open>std::length_error\<close> for such
  a size, and the other containers and the CUDA allocator refuse it.  Whether a smaller
  request is granted is the choice of the platform: \<open>grants k size\<close> tells it for the
  \<open>k\<close>-th request of the constructor.  A refused request ends the constructor, by
  \<^verbatim>\<open>std::bad_alloc\<close> or by the exit of \<^verbatim>\<open>CubDebugExit\<close>.
\<close>

datatype request_kind = StdVector | OtherStorage

definition request :: "(int \<Rightarrow> bool) \<Rightarrow> request_kind \<times> int \<Rightarrow> garden_error + unit" where
  "request granted r =
     (case r of (kind, n) \<Rightarrow>
        let size = n mod 2 ^ 64 in
        if 2 ^ 63 \<le> size then
          Inl (case kind of StdVector \<Rightarrow> LengthError | OtherStorage \<Rightarrow> BadAlloc)
        else if granted size then Inr ()
        else Inl BadAlloc)"

fun requests ::
  "(nat \<Rightarrow> int \<Rightarrow> bool) \<Rightarrow> nat \<Rightarrow> (request_kind \<times> int) list \<Rightarrow> garden_error + unit" where
  "requests grants k [] = Inr ()"
| "requests grants k (r # rs) =
     (case request (grants k) r of
        Inl e \<Rightarrow> Inl e
      | Inr u \<Rightarrow> requests grants (Suc k) rs)"

text \<open>
  The requests of one pipeline slot: the buffers \<^verbatim>\<open>sum\<close>, \<^verbatim>\<open>segments\<close>,
  \<^verbatim>\<open>segments_sorted\<close>, \<^verbatim>\<open>fvalue\<close> (one entry more, for the sentinel), \<^verbatim>\<open>position\<close>,
  \<^verbatim>\<open>position_sorted\<close> and \<^verbatim>\<open>grad_sorted\<close> over the rows, and the result cells on the
  device and on the host, \<^verbatim>\<open>sizeof(my_atomics) * lenght\<close> bytes each.
\<close>

definition slot_requests :: "64 word \<Rightarrow> int \<Rightarrow> (request_kind \<times> int) list" where
  "slot_requests rows lenght =
     [(OtherStorage, uint rows), (OtherStorage, uint rows), (OtherStorage, uint rows),
      (OtherStorage, uint rows + 1),
      (OtherStorage, uint rows), (OtherStorage, uint rows), (OtherStorage, uint rows),
      (OtherStorage, 8 * lenght), (OtherStorage, 8 * lenght)]"

text \<open>
  The constructor, in the order of the source: the twelve arrays of \<^verbatim>\<open>overlap_depth\<close>
  entries of the default member initialisers; the vector of \<^verbatim>\<open>1 << (param.depth - 2)\<close>
  counters, of which \<^verbatim>\<open>sparse_stat\<close> holds one copy for each sparse column;
  \<^verbatim>\<open>grad_d\<close> and \<^verbatim>\<open>active_fids\<close>; then \<^verbatim>\<open>lenght = 1 << param.depth\<close>, \<^verbatim>\<open>row2Node\<close>,
  \<^verbatim>\<open>_rowIndex2Node\<close>, \<^verbatim>\<open>_bestSplit\<close>, \<^verbatim>\<open>_nodeStat\<close> and the four prefix arrays of
  \<^verbatim>\<open>lenght + 1\<close> entries; the requests of each slot; at last the scratch arena of each
  slot, of \<open>scratch\<close> bytes, the largest of the sizes the constructor compares (two of
  them are reported by the sorting and scanning library).  The CUDA calls that ask for no
  storage return a status the constructor does not look at.  The depth is a natural
  number, so \<open>int depth - 2\<close> is negative where \<^verbatim>\<open>param.depth - 2\<close> is negative or wraps.
\<close>

definition TaylorApproximationBuilder ::
  "(nat \<Rightarrow> int \<Rightarrow> bool) \<Rightarrow> 64 word \<Rightarrow> 64 word \<Rightarrow> 64 word \<Rightarrow> 16 word \<Rightarrow> 64 word \<Rightarrow> nat \<Rightarrow>
   garden_error + unit" where
  "TaylorApproximationBuilder grants rows columns columns_sparse overlap_depth scratch depth =
     (case requests grants 0 (replicate 12 (OtherStorage, uint overlap_depth)) of
        Inl e \<Rightarrow> Inl e
      | Inr u \<Rightarrow>
     (case shift_left_1 (int depth - 2) of
        None \<Rightarrow> Inl UndefinedBehaviour
      | Some n \<Rightarrow>
     (case requests grants 12
             ([(StdVector, n), (StdVector, uint columns_sparse)]
              @ replicate (unat columns_sparse) (OtherStorage, n)
              @ [(OtherStorage, uint rows), (StdVector, uint columns)]) of
        Inl e \<Rightarrow> Inl e
      | Inr u \<Rightarrow>
     (case shift_left_1 (int depth) of
        None \<Rightarrow> Inl UndefinedBehaviour
      | Some lenght \<Rightarrow>
          requests grants (16 + unat columns_sparse)
            ([(OtherStorage, uint rows), (OtherStorage, uint rows),
              (StdVector, n), (StdVector, n),
              (OtherStorage, lenght + 1), (OtherStorage, lenght + 1),
              (OtherStorage, lenght + 1), (OtherStorage, lenght + 1)]
             @ concat (replicate (unat overlap_depth) (slot_requests rows lenght))
             @ replicate (unat overlap_depth) (OtherStorage, uint scratch))))))"

section \<open>The packed result cell and its atomic maximum\<close>

text \<open>
  \<^verbatim>\<open>union my_atomics\<close> overlays two \<open>float\<close>s, two \<open>unsigned int\<close>s and one
  \<open>unsigned long long\<close>.  A cell is its 64-bit content; on the little-endian devices
  the trainer runs on, \<^verbatim>\<open>floats[0]\<close> is the low word read as a binary32 datum and
  \<^verbatim>\<open>ints[1]\<close> is the high word.  A \<open>float\<close> that is stored into a cell is given by
  its 32-bit pattern, and \<open>decode32\<close> reads the value of a pattern.
\<close>

definition decode32 :: "32 word \<Rightarrow> fval" where
  "decode32 w =
     (let s = bit w 31; e = uint (drop_bit 23 w AND 255); m = uint (w AND 8388607)
      in if e = 255 then (if m = 0 then Inf s else NaN)
         else if e = 0 then Fin s (of_int m * pow2 (- 149))
         else Fin s (of_int (8388608 + m) * pow2 (e - 150)))"

definition floats0 :: "64 word \<Rightarrow> fval" where
  "floats0 u = decode32 (ucast u)"

definition ints1 :: "64 word \<Rightarrow> 32 word" where
  "ints1 u = ucast (drop_bit 32 u)"

text \<open>The cell written by \<^verbatim>\<open>loc.floats[0] = val1; loc.ints[1] = val2\<close>.\<close>

definition my_atomics :: "32 word \<Rightarrow> 32 word \<Rightarrow> 64 word" where
  "my_atomics val1 val2 = push_bit 32 (ucast val2) OR ucast val1"

text \<open>
  \<^verbatim>\<open>atomicCAS(address, compare, val)\<close> stores \<open>val\<close> if the cell equals \<open>compare\<close>
  and returns the old content: the result is the pair of the new content and the
  returned word.
\<close>

definition atomicCAS :: "64 word \<Rightarrow> 64 word \<Rightarrow> 64 word \<Rightarrow> 64 word \<times> 64 word" where
  "atomicCAS mem compare val = (if mem = compare then val else mem, mem)"

lemma flt_irrefl: "\<not> flt x x"
  by (cases x) (auto simp: sval_def)

lemma ucast_my_atomics: "ucast (my_atomics g i) = g"
  unfolding my_atomics_def
  by (rule bit_word_eqI) (auto simp: bit_simps)

lemma floats0_my_atomics: "floats0 (my_atomics g i) = decode32 g"
  by (simp add: floats0_def ucast_my_atomics)

text \<open>
  The loop of \<^verbatim>\<open>updateAtomicMax\<close>, run by one thread with no other thread writing
  the cell in between: \<open>mem\<close> is the cell, \<open>loctest\<close> the local copy.  It ends after
  at most three compare-and-swap attempts, since the candidate cell itself does not
  satisfy the loop condition.
\<close>

function updateAtomicMax_while ::
  "32 word \<Rightarrow> 32 word \<Rightarrow> 64 word \<Rightarrow> 64 word \<Rightarrow> 64 word \<times> 64 word" where
  "updateAtomicMax_while val1 val2 mem loctest =
     (if flt (floats0 loctest) (decode32 val1)
      then updateAtomicMax_while val1 val2
             (fst (atomicCAS mem loctest (my_atomics val1 val2)))
             (snd (atomicCAS mem loctest (my_atomics val1 val2)))
      else (mem, loctest))"
  by pat_completeness auto
termination
proof (relation "measure (\<lambda>(val1, val2, mem, loctest).
          (if mem = my_atomics val1 val2 then 0 else 2) + (if loctest = mem then 0 else 1))")
  show "wf (measure (\<lambda>(val1, val2, mem, loctest).
          (if mem = my_atomics val1 val2 then 0 else 2) + (if loctest = mem then 0 else (1::nat))))"
    by simp
next
  fix val1 val2 :: "32 word" and mem loctest :: "64 word"
  assume c: "flt (floats0 loctest) (decode32 val1)"
  have ne: "loctest \<noteq> my_atomics val1 val2"
    using c flt_irrefl [of "decode32 val1"] by (auto simp: floats0_my_atomics)
  show "((val1, val2, fst (atomicCAS mem loctest (my_atomics val1 val2)),
          snd (atomicCAS mem loctest (my_atomics val1 val2))),
         val1, val2, mem, loctest)
        \<in> measure (\<lambda>(val1, val2, mem, loctest).
          (if mem = my_atomics val1 val2 then 0 else 2) + (if loctest = mem then 0 else 1))"
    using ne by (auto simp: atomicCAS_def)
qed

text \<open>The new content of the cell and the word the function returns.\<close>

definition updateAtomicMax :: "64 word \<Rightarrow> 32 word \<Rightarrow> 32 word \<Rightarrow> 64 word \<times> 64 word" where
  "updateAtomicMax cell val1 val2 = updateAtomicMax_while val1 val2 cell cell"

text \<open>A sequence of updates \<open>(gain, index)\<close> applied to a cell one after the other.\<close>

fun apply_updates :: "64 word \<Rightarrow> (32 word \<times> 32 word) list \<Rightarrow> 64 word" where
  "apply_updates cell [] = cell"
| "apply_updates cell ((val1, val2) # us) =
     apply_updates (fst (updateAtomicMax cell val1 val2)) us"

section \<open>Leaf statistics, split records and bounded reads\<close>

text \<open>
  Modelled from the spec: the structs \<^verbatim>\<open>NodeStat\<close> and \<^verbatim>\<open>Split\<close> are declared in
  \<^verbatim>\<open>garden.h\<close>, which is not among the sources.  The fields are those the source
  reads and writes, typed as the data model of the specification gives them: a leaf
  has \<open>count\<close>, \<open>sum_grad\<close> and \<open>gain\<close>; a split record has \<open>fid\<close> (a feature id,
  negative when unset), \<open>gain\<close>, \<open>split_value\<close>, \<open>split_by_true\<close>, \<open>count\<close> and
  \<open>sum_grad\<close>.  Counts are \<^verbatim>\<open>unsigned int\<close>, as the prefix array of counts is.
  The aggregate type \<open>'s\<close> is the template argument \<^verbatim>\<open>sum_type\<close>.
\<close>

record 's NodeStat =
  stat_count :: "32 word"
  stat_sum_grad :: 's
  stat_gain :: fval

record 's Split =
  fid :: int
  gain :: fval
  split_value :: fval
  split_by_true :: bool
  count :: "32 word"
  sum_grad :: 's

text \<open>
  A read outside a vector is undefined in C++.  \<open>read\<close> reads at an unsigned index and
  \<open>read_int\<close> at an \<^verbatim>\<open>int\<close>; both give \<open>None\<close> outside the vector, and every function
  below that reads a vector gives \<open>None\<close> when one of the reads it makes does.
\<close>

definition read :: "'a list \<Rightarrow> nat \<Rightarrow> 'a option" where
  "read xs i = (if i < length xs then Some (xs ! i) else None)"

definition read_int :: "'a list \<Rightarrow> int \<Rightarrow> 'a option" where
  "read_int xs k = (if 0 \<le> k \<and> k < int (length xs) then Some (xs ! nat k) else None)"

text \<open>
  The casts \<^verbatim>\<open>(int)x\<close> and \<^verbatim>\<open>(unsigned int)x\<close> of a floating-point datum discard the
  fraction; they are undefined when the result is not a value of the target type.
\<close>

definition f_trunc :: "fval \<Rightarrow> int option" where
  "f_trunc x = (case x of Fin s a \<Rightarrow> Some (if s then - \<lfloor>a\<rfloor> else \<lfloor>a\<rfloor>) | _ \<Rightarrow> None)"

definition f_to_int :: "fval \<Rightarrow> int option" where
  "f_to_int x =
     (case f_trunc x of
        Some k \<Rightarrow> if - 2147483648 \<le> k \<and> k \<le> 2147483647 then Some k else None
      | None \<Rightarrow> None)"

definition f_to_uint :: "fval \<Rightarrow> nat option" where
  "f_to_uint x =
     (case f_trunc x of
        Some k \<Rightarrow> if 0 \<le> k \<and> k \<le> 4294967295 then Some (nat k) else None
      | None \<Rightarrow> None)"

text \<open>A \<^verbatim>\<open>for\<close> loop over the indices \<open>is\<close>, its body threading the state.\<close>

fun for_loop :: "(nat \<Rightarrow> 'a \<Rightarrow> 'a option) \<Rightarrow> nat list \<Rightarrow> 'a \<Rightarrow> 'a option" where
  "for_loop body [] st = Some st"
| "for_loop body (i # is) st =
     (case body i st of None \<Rightarrow> None | Some st' \<Rightarrow> for_loop body is st')"

section \<open>Reducing the results of one feature\<close>

text \<open>
  The buffers of one pipeline slot that the host reads after the stream of the slot has
  been synchronised: the host mirror of the result cells, the scanned (dense) or reduced
  (sparse) gradient sums, and the feature values in sorted order behind the sentinel.
\<close>

record 's PipelineSlot =
  results_h :: "64 word list"
  slot_sum :: "'s list"
  fvalue :: "fval list"

text \<open>
  Modelled from the spec: the helper \<^verbatim>\<open>_isnan\<close> is declared in \<^verbatim>\<open>cuda_helpers.h\<close>, which
  is not among the sources.  The specification has a scanned value accepted only when it
  is finite and a non-finite one rejected: the helper holds of a NaN and of an infinity,
  and of an aggregate of two components when one of them is not finite.
  \<open>isnan_float\<close> is the helper for the aggregates \<open>float\<close> and \<open>double\<close>,
  \<open>isnan_float2\<close> for \<^verbatim>\<open>float2\<close> and \<^verbatim>\<open>mydouble2\<close>.
\<close>

fun is_finite :: "fval \<Rightarrow> bool" where
  "is_finite (Fin s a) = True"
| "is_finite x = False"

definition isnan_float :: "fval \<Rightarrow> bool" where
  "isnan_float x = (\<not> is_finite x)"

definition isnan_float2 :: "fval \<times> fval \<Rightarrow> bool" where
  "isnan_float2 x = (\<not> (is_finite (fst x) \<and> is_finite (snd x)))"

text \<open>
  The body of the loop of \<^verbatim>\<open>GetBestSplitForDenceFeature\<close> for leaf \<open>i\<close>.  The helper
  \<^verbatim>\<open>_isnan\<close> and the subtraction of \<^verbatim>\<open>sum_type\<close> are the parameters \<open>isnan\<close> and
  \<open>sub_s\<close>, to be instantiated for the aggregate type.
  The threshold \<^verbatim>\<open>(fvalue_prev_val + fvalue_val) * 0.5\<close> is a \<open>float\<close> sum, multiplied
  as a \<open>double\<close> and stored to a \<open>float\<close>.
\<close>

definition GetBestSplitForDenceFeature_body ::
  "('s \<Rightarrow> bool) \<Rightarrow> ('s \<Rightarrow> 's \<Rightarrow> 's) \<Rightarrow> int \<Rightarrow> 's PipelineSlot \<Rightarrow> 32 word list \<Rightarrow> 's list \<Rightarrow>
   's NodeStat list \<Rightarrow> nat \<Rightarrow> 's Split list \<Rightarrow> 's Split list option" where
  "GetBestSplitForDenceFeature_body isnan sub_s active_fid slot parent_node_count_h
       parent_node_sum_h nodeStat i bestSplit =
     do {
       stat \<leftarrow> read nodeStat i;
       if stat_count stat \<le> 0 then Some bestSplit
       else do {
         res \<leftarrow> read (results_h slot) i;
         best \<leftarrow> read bestSplit i;
         if fgt (floats0 res) (gain best) then do {
           let index_value = sint (ints1 res);
           s \<leftarrow> read_int (slot_sum slot) index_value;
           if \<not> isnan s then do {
             fvalue_prev_val \<leftarrow> read_int (fvalue slot) index_value;
             fvalue_val \<leftarrow> read_int (fvalue slot) (index_value + 1);
             pc \<leftarrow> read parent_node_count_h i;
             let count_val = (ucast (ints1 res - pc) :: 64 word);
             ps \<leftarrow> read parent_node_sum_h i;
             let sum_val = sub_s s ps;
             Some (bestSplit[i := best
                \<lparr> fid := active_fid,
                  gain := floats0 res,
                  split_value := fcast Binary32
                     (fmul Binary64 (fadd Binary32 fvalue_prev_val fvalue_val) (Fin False (1 / 2))),
                  count := ucast count_val,
                  sum_grad := sum_val \<rparr>])
           } else Some bestSplit
         } else Some bestSplit
       }
     }"

definition GetBestSplitForDenceFeature ::
  "('s \<Rightarrow> bool) \<Rightarrow> ('s \<Rightarrow> 's \<Rightarrow> 's) \<Rightarrow> int \<Rightarrow> 's PipelineSlot \<Rightarrow> 32 word list \<Rightarrow> 's list \<Rightarrow>
   's NodeStat list \<Rightarrow> nat \<Rightarrow> 's Split list \<Rightarrow> 's Split list option" where
  "GetBestSplitForDenceFeature isnan sub_s active_fid slot parent_node_count_h
       parent_node_sum_h nodeStat lenght bestSplit =
     for_loop (GetBestSplitForDenceFeature_body isnan sub_s active_fid slot parent_node_count_h
                 parent_node_sum_h nodeStat) [0..<lenght] bestSplit"

text \<open>
  \<^verbatim>\<open>GetBestSplitForSparseFeature\<close>: the gain of the split by the true rows is computed
  on the host by the overload of \<^verbatim>\<open>gain_func\<close> for \<^verbatim>\<open>sum_type\<close>, the parameter
  \<open>gain_fn\<close> (already applied to the gain parameters).  The feature id
  \<^verbatim>\<open>active_fid + columns_dense\<close> is computed in \<^verbatim>\<open>size_t\<close> and stored to an \<^verbatim>\<open>int\<close>.
\<close>

definition GetBestSplitForSparseFeature_body ::
  "('s \<Rightarrow> bool) \<Rightarrow> ('s \<Rightarrow> 's \<Rightarrow> 64 word \<Rightarrow> 64 word \<Rightarrow> fval) \<Rightarrow> int \<Rightarrow> 64 word \<Rightarrow>
   's PipelineSlot \<Rightarrow> 32 word list list \<Rightarrow> 's NodeStat list \<Rightarrow> nat \<Rightarrow> 's Split list \<Rightarrow>
   's Split list option" where
  "GetBestSplitForSparseFeature_body isnan gain_fn active_fid columns_dense slot sparse_stat
       nodeStat i bestSplit =
     do {
       column \<leftarrow> read_int sparse_stat active_fid;
       true_count \<leftarrow> read column i;
       if true_count = 0 then Some bestSplit
       else do {
         sum_true \<leftarrow> read (slot_sum slot) i;
         if \<not> isnan sum_true then do {
           stat \<leftarrow> read nodeStat i;
           let g = gain_fn sum_true (stat_sum_grad stat) (ucast true_count) (ucast (stat_count stat));
           best \<leftarrow> read bestSplit i;
           if fgt g (gain best) then
             Some (bestSplit[i := best
                \<lparr> fid := sint (ucast (word_of_int active_fid + columns_dense) :: 32 word),
                  gain := g,
                  split_by_true := True,
                  count := true_count,
                  sum_grad := sum_true \<rparr>])
           else Some bestSplit
         } else Some bestSplit
       }
     }"

definition GetBestSplitForSparseFeature ::
  "('s \<Rightarrow> bool) \<Rightarrow> ('s \<Rightarrow> 's \<Rightarrow> 64 word \<Rightarrow> 64 word \<Rightarrow> fval) \<Rightarrow> int \<Rightarrow> 64 word \<Rightarrow>
   's PipelineSlot \<Rightarrow> 32 word list list \<Rightarrow> 's NodeStat list \<Rightarrow> nat \<Rightarrow> 's Split list \<Rightarrow>
   's Split list option" where
  "GetBestSplitForSparseFeature isnan gain_fn active_fid columns_dense slot sparse_stat
       nodeStat lenght bestSplit =
     for_loop (GetBestSplitForSparseFeature_body isnan gain_fn active_fid columns_dense slot
                 sparse_stat nodeStat) [0..<lenght] bestSplit"

section \<open>The level driver\<close>

text \<open>
  The host side of \<^verbatim>\<open>FindBestSplits\<close>.  The feature pipelines run on the device and
  write only the buffers of their slots; \<open>slots j\<close> is the content of slot
  \<open>j mod overlap_depth\<close> when the host reduces the \<open>j\<close>-th sampled feature.  A feature
  id is an \<^verbatim>\<open>unsigned int\<close>, compared with the \<^verbatim>\<open>size_t\<close> number of dense columns and
  passed to the reductions as an \<^verbatim>\<open>int\<close>.  The sampling rates have the format \<open>f\<close>.
\<close>

definition FindBestSplits_reduce_body ::
  "('s \<Rightarrow> bool) \<Rightarrow> ('s \<Rightarrow> 's \<Rightarrow> 's) \<Rightarrow> ('s \<Rightarrow> 's \<Rightarrow> 64 word \<Rightarrow> 64 word \<Rightarrow> fval) \<Rightarrow>
   32 word list \<Rightarrow> 64 word \<Rightarrow> (nat \<Rightarrow> 's PipelineSlot) \<Rightarrow> 32 word list \<Rightarrow> 's list \<Rightarrow>
   32 word list list \<Rightarrow> 's NodeStat list \<Rightarrow> nat \<Rightarrow> nat \<Rightarrow> 's Split list \<Rightarrow> 's Split list option" where
  "FindBestSplits_reduce_body isnan sub_s gain_fn active_fids columns_dense slots
       parent_node_count_h parent_node_sum_h sparse_stat nodeStat lenght j bestSplit =
     do {
       active_fid \<leftarrow> read active_fids j;
       if ucast active_fid < columns_dense then
         GetBestSplitForDenceFeature isnan sub_s (sint active_fid) (slots j)
           parent_node_count_h parent_node_sum_h nodeStat lenght bestSplit
       else
         GetBestSplitForSparseFeature isnan gain_fn
           (sint (ucast (ucast active_fid - columns_dense) :: 32 word))
           columns_dense (slots j) sparse_stat nodeStat lenght bestSplit
     }"

text \<open>The last loop of \<^verbatim>\<open>FindBestSplits\<close>: a leaf whose record is unset gets the sentinel.\<close>

definition FindBestSplits_finish_body ::
  "'s NodeStat list \<Rightarrow> nat \<Rightarrow> 's Split list \<Rightarrow> 's Split list option" where
  "FindBestSplits_finish_body nodeStat i bestSplit =
     do {
       split \<leftarrow> read bestSplit i;
       if fid split < 0 then do {
         node_stat \<leftarrow> read nodeStat i;
         Some (bestSplit[i := split
            \<lparr> gain := fzero,
              fid := 0,
              split_value := Inf False,
              count := stat_count node_stat,
              sum_grad := stat_sum_grad node_stat \<rparr>])
       } else Some bestSplit
     }"

definition FindBestSplits_finish ::
  "'s NodeStat list \<Rightarrow> nat \<Rightarrow> 's Split list \<Rightarrow> 's Split list option" where
  "FindBestSplits_finish nodeStat lenght bestSplit =
     for_loop (FindBestSplits_finish_body nodeStat) [0..<lenght] bestSplit"

text \<open>The prefix arrays of the leaf counts and sums, written at the indices \<open>0 .. lenght\<close>.\<close>

definition parent_prefix_body ::
  "('s \<Rightarrow> 's \<Rightarrow> 's) \<Rightarrow> 's NodeStat list \<Rightarrow> nat \<Rightarrow> 32 word list \<times> 's list \<Rightarrow>
   (32 word list \<times> 's list) option" where
  "parent_prefix_body add_s nodeStat i arrays =
     (case arrays of (parent_node_count_h, parent_node_sum_h) \<Rightarrow>
        do {
          c \<leftarrow> read parent_node_count_h i;
          stat \<leftarrow> read nodeStat i;
          s \<leftarrow> read parent_node_sum_h i;
          if i + 1 < length parent_node_count_h \<and> i + 1 < length parent_node_sum_h
          then Some (parent_node_count_h[i + 1 := c + stat_count stat],
                     parent_node_sum_h[i + 1 := add_s s (stat_sum_grad stat)])
          else None
        })"

definition FindBestSplits ::
  "('s \<Rightarrow> bool) \<Rightarrow> ('s \<Rightarrow> 's \<Rightarrow> 's) \<Rightarrow> ('s \<Rightarrow> 's \<Rightarrow> 's) \<Rightarrow> 's \<Rightarrow> ('s \<Rightarrow> 's \<Rightarrow> 64 word \<Rightarrow> 64 word \<Rightarrow> fval) \<Rightarrow>
   fmt \<Rightarrow> fval \<Rightarrow> fval \<Rightarrow> nat \<Rightarrow> 64 word \<Rightarrow> 64 word \<Rightarrow> 32 word list \<Rightarrow> (nat \<Rightarrow> 's PipelineSlot) \<Rightarrow>
   32 word list list \<Rightarrow> 's NodeStat list \<Rightarrow> 32 word list \<Rightarrow> 's list \<Rightarrow> 's Split list \<Rightarrow>
   's Split list option" where
  "FindBestSplits isnan sub_s add_s zero_s gain_fn f colsample_bylevel colsample_bytree
       level columns columns_dense active_fids slots sparse_stat nodeStat
       parent_node_count_h parent_node_sum_h bestSplit =
     (let lenght = 2 ^ level in
      if parent_node_sum_h = [] \<or> parent_node_count_h = [] then None
      else do {
        (parent_node_count_h, parent_node_sum_h) \<leftarrow>
          for_loop (parent_prefix_body add_s nodeStat) [0..<lenght]
            (parent_node_count_h[0 := 0], parent_node_sum_h[0 := zero_s]);
        take_n \<leftarrow> f_to_uint (fmul f (fmul f colsample_bylevel colsample_bytree)
                               (f_of_word f columns));
        reduced \<leftarrow>
          for_loop (FindBestSplits_reduce_body isnan sub_s gain_fn active_fids columns_dense
                      slots parent_node_count_h parent_node_sum_h sparse_stat nodeStat lenght)
            [0..<take_n] bestSplit;
        FindBestSplits_finish nodeStat lenght reduced
      })"

text \<open>
  The record \<^verbatim>\<open>GetBestSplitForDenceFeature\<close> is to leave for leaf \<open>i\<close>, as a function of
  the record \<open>best\<close> it finds there: the result in the cell of the leaf is accepted when
  the leaf has rows, the reported gain exceeds the gain of \<open>best\<close> and \<^verbatim>\<open>_isnan\<close> is
  false of the scanned sum at the reported position.
\<close>

definition dense_leaf_result ::
  "('s \<Rightarrow> bool) \<Rightarrow> ('s \<Rightarrow> 's \<Rightarrow> 's) \<Rightarrow> int \<Rightarrow> 's PipelineSlot \<Rightarrow> 32 word list \<Rightarrow> 's list \<Rightarrow>
   's NodeStat list \<Rightarrow> nat \<Rightarrow> 's Split \<Rightarrow> 's Split" where
  "dense_leaf_result isnan sub_s active_fid slot parent_node_count_h parent_node_sum_h
       nodeStat i best =
     (let res = results_h slot ! i; a = nat (sint (ints1 res)) in
      if 0 < stat_count (nodeStat ! i) \<and> fgt (floats0 res) (gain best)
         \<and> \<not> isnan (slot_sum slot ! a)
      then best
        \<lparr> fid := active_fid,
          gain := floats0 res,
          split_value := fcast Binary32
             (fmul Binary64 (fadd Binary32 (fvalue slot ! a) (fvalue slot ! (a + 1)))
                (Fin False (1 / 2))),
          count := ucast (ucast (ints1 res - parent_node_count_h ! i) :: 64 word),
          sum_grad := sub_s (slot_sum slot ! a) (parent_node_sum_h ! i) \<rparr>
      else best)"

text \<open>The sentinel record of a leaf without a chosen split.\<close>

definition degenerate_split :: "'s NodeStat \<Rightarrow> 's Split \<Rightarrow> 's Split" where
  "degenerate_split node_stat split =
     split \<lparr> gain := fzero, fid := 0, split_value := Inf False,
             count := stat_count node_stat, sum_grad := stat_sum_grad node_stat \<rparr>"

section \<open>Routing the rows to the next level\<close>

text \<open>
  Modelled from the spec: the node heap of \<^verbatim>\<open>RegTree\<close> is declared in \<^verbatim>\<open>garden.h\<close>,
  which is not among the sources.  The nodes form a perfect binary heap;
  \<^verbatim>\<open>HeapOffset(level)\<close> is the index \<open>2 ^ level - 1\<close> of the first node of a level and
  \<^verbatim>\<open>ChildNode(i, isLeft)\<close> navigates the heap: the children of node \<open>i\<close> are
  \<open>2 * i + 1\<close> (left) and \<open>2 * i + 2\<close> (right).
\<close>

definition HeapOffset :: "nat \<Rightarrow> nat" where
  "HeapOffset level = 2 ^ level - 1"

definition ChildNode :: "nat \<Rightarrow> bool \<Rightarrow> nat" where
  "ChildNode node isLeft = 2 * node + (if isLeft then 1 else 2)"

text \<open>\<^verbatim>\<open>std::binary_search\<close> over an ascending list of feature ids.\<close>

definition binary_search :: "int list \<Rightarrow> int \<Rightarrow> bool" where
  "binary_search row v = (v \<in> set row)"

text \<open>
  The routing rule of \<^verbatim>\<open>UpdateNodeIndex\<close> for row \<open>i\<close> and the record \<open>best\<close> of its
  leaf; \<^verbatim>\<open>&&\<close> and \<^verbatim>\<open>||\<close> evaluate their right operand only when needed, and
  \<^verbatim>\<open>(int)data->columns_dense\<close> keeps the low 32 bits of the \<^verbatim>\<open>size_t\<close>.  Leaf ids are
  modelled as natural numbers.
\<close>

definition UpdateNodeIndex_isLeft ::
  "64 word \<Rightarrow> fval list list \<Rightarrow> int list list \<Rightarrow> 's Split \<Rightarrow> nat \<Rightarrow> bool option" where
  "UpdateNodeIndex_isLeft columns_dense data lil_row best i =
     do {
       dense_left \<leftarrow>
         (if fid best < sint (ucast columns_dense :: 32 word) then do {
            column \<leftarrow> read_int data (fid best);
            v \<leftarrow> read column i;
            Some (fle v (split_value best))
          } else Some False);
       if dense_left then Some True
       else if split_by_true best then do {
         row \<leftarrow> read lil_row i;
         Some (binary_search row (fid best))
       } else Some False
     }"

definition UpdateNodeIndex_body ::
  "nat \<Rightarrow> 64 word \<Rightarrow> fval list list \<Rightarrow> int list list \<Rightarrow> 's Split list \<Rightarrow> nat \<Rightarrow> nat list \<Rightarrow>
   nat list option" where
  "UpdateNodeIndex_body level columns_dense data lil_row bestSplit i rowIndex2Node =
     do {
       node \<leftarrow> read rowIndex2Node i;
       best \<leftarrow> read bestSplit node;
       isLeft \<leftarrow> UpdateNodeIndex_isLeft columns_dense data lil_row best i;
       Some (rowIndex2Node[i := ChildNode (node + HeapOffset level) isLeft
                                  - HeapOffset (level + 1)])
     }"

definition UpdateNodeIndex ::
  "nat \<Rightarrow> nat \<Rightarrow> 64 word \<Rightarrow> fval list list \<Rightarrow> int list list \<Rightarrow> 's Split list \<Rightarrow> nat list \<Rightarrow>
   nat list option" where
  "UpdateNodeIndex level rows columns_dense data lil_row bestSplit rowIndex2Node =
     for_loop (UpdateNodeIndex_body level columns_dense data lil_row bestSplit)
       [0..<rows] rowIndex2Node"

section \<open>Initialisation\<close>

text \<open>
  The checks at the head of \<^verbatim>\<open>InitGrowingTree\<close>.  The sampling rates are fields of
  \<^verbatim>\<open>TreeParam\<close>, declared in \<^verbatim>\<open>param.h\<close>, which is not among the sources: their
  floating-point format is the parameter \<open>f\<close>.  The size \<open>columns\<close> is converted to
  that format for the product, and the product is cast to \<^verbatim>\<open>int\<close>.  The resets of the
  per-tree vectors that follow the checks cannot fail and are not modelled.
\<close>

definition InitGrowingTree :: "fmt \<Rightarrow> fval \<Rightarrow> fval \<Rightarrow> 64 word \<Rightarrow> garden_error + unit" where
  "InitGrowingTree f colsample_bytree colsample_bylevel columns =
     (case f_to_int (fmul f colsample_bytree (f_of_word f columns)) of
        None \<Rightarrow> Inl UndefinedBehaviour
      | Some take1 \<Rightarrow>
          if take1 = 0 then Inl ColsampleBytreeTooSmall
          else
            (case f_to_int (fmul f (fmul f colsample_bytree colsample_bylevel)
                              (f_of_word f columns)) of
               None \<Rightarrow> Inl UndefinedBehaviour
             | Some take2 \<Rightarrow>
                 if take2 = 0 then Inl ColsampleBylevelTooSmall else Inr ()))"

text \<open>
  The builder's \<^verbatim>\<open>GrowTree\<close> calls \<^verbatim>\<open>InitGrowingTree\<close> and then grows the levels and
  writes the leaf weights; \<open>grow_levels\<close> stands for that second part.
\<close>

definition builder_GrowTree ::
  "fmt \<Rightarrow> fval \<Rightarrow> fval \<Rightarrow> 64 word \<Rightarrow> (nat \<Rightarrow> garden_error + 't) \<Rightarrow> nat \<Rightarrow> garden_error + 't" where
  "builder_GrowTree f colsample_bytree colsample_bylevel columns grow_levels label =
     (case InitGrowingTree f colsample_bytree colsample_bylevel columns of
        Inl e \<Rightarrow> Inl e
      | Inr u \<Rightarrow> grow_levels label)"

text \<open>
  \<^verbatim>\<open>Garden::GrowTree\<close>: on the first call the builder is selected and constructed; then
  one tree per label is grown and appended.  A \<^verbatim>\<open>throw\<close> leaves the function at once:
  the result is the error and no state.  The calls into the objective, the data matrix
  and the tree (\<^verbatim>\<open>RegTree\<close>), whose classes are declared in headers that are not among
  the sources, are taken to return.
\<close>

record 't Garden =
  garden_init :: bool
  garden_builder :: "(node_type \<times> grad_type \<times> sum_type) option"
  garden_trees :: "'t list"

fun grow_labels ::
  "(nat \<Rightarrow> garden_error + 't) \<Rightarrow> nat list \<Rightarrow> 't list \<Rightarrow> garden_error + 't list" where
  "grow_labels grow [] trees = Inr trees"
| "grow_labels grow (i # is) trees =
     (case grow i of Inl e \<Rightarrow> Inl e | Inr tree \<Rightarrow> grow_labels grow is (trees @ [tree]))"

definition Garden_GrowTree ::
  "(nat \<Rightarrow> int \<Rightarrow> bool) \<Rightarrow> 64 word \<Rightarrow> 64 word \<Rightarrow> 16 word \<Rightarrow> 64 word \<Rightarrow>
   objective \<Rightarrow> bool \<Rightarrow> nat \<Rightarrow> nat \<Rightarrow> fmt \<Rightarrow> fval \<Rightarrow> fval \<Rightarrow> 64 word \<Rightarrow>
   (nat \<Rightarrow> garden_error + 't) \<Rightarrow> 't Garden \<Rightarrow> garden_error + 't Garden" where
  "Garden_GrowTree grants rows columns_sparse overlap_depth scratch
       obj double_precision depth labels_count f colsample_bytree colsample_bylevel
       columns grow_levels g =
     (case (if garden_init g then Inr g
            else (case new_builder obj double_precision depth of
                    Inl e \<Rightarrow> Inl e
                  | Inr b \<Rightarrow>
                      (case TaylorApproximationBuilder grants rows columns columns_sparse
                              overlap_depth scratch depth of
                         Inl e \<Rightarrow> Inl e
                       | Inr u \<Rightarrow> Inr (g \<lparr> garden_builder := Some b, garden_init := True \<rparr>)))) of
        Inl e \<Rightarrow> Inl e
      | Inr g1 \<Rightarrow>
          (case grow_labels
                  (builder_GrowTree f colsample_bytree colsample_bylevel columns grow_levels)
                  [0..<labels_count] (garden_trees g1) of
             Inl e \<Rightarrow> Inl e
           | Inr trees \<Rightarrow> Inr (g1 \<lparr> garden_trees := trees \<rparr>)))"

text \<open>The floor of a finite datum, for the statement of the sampling checks.\<close>

definition f_floor :: "fval \<Rightarrow> int option" where
  "f_floor x = (case x of Fin s a \<Rightarrow> Some \<lfloor>sval s a\<rfloor> | _ \<Rightarrow> None)"

section \<open>The gain evaluator\<close>

record GainFunctionParameters =
  min_leaf_size :: "32 word"
  hess :: fval
  gamma :: fval
  lambda :: fval
  alpha :: fval

text \<open>
  The four overloads of \<^verbatim>\<open>gain_func\<close>.  Counts are \<^verbatim>\<open>size_t\<close>: their difference wraps
  around, and in \<^verbatim>\<open>left_count + params.lambda\<close> the count is converted to \<open>float\<close>,
  the type of \<^verbatim>\<open>lambda\<close>.  Every overload returns a \<open>float\<close>.

  The overload for \<open>float\<close> sums computes in single precision throughout.
\<close>

definition gain_func_float ::
  "fval \<Rightarrow> fval \<Rightarrow> 64 word \<Rightarrow> 64 word \<Rightarrow> GainFunctionParameters \<Rightarrow> fval" where
  "gain_func_float left_sum total_sum left_count total_count params =
     (let right_count = total_count - left_count in
      if ucast (min_leaf_size params) \<le> left_count \<and> ucast (min_leaf_size params) \<le> right_count
      then
        (let right_sum = fsub Binary32 total_sum left_sum;
             l = fdiv Binary32 (fmul Binary32 left_sum left_sum)
                   (fadd Binary32 (f_of_word Binary32 left_count) (lambda params));
             r = fdiv Binary32 (fmul Binary32 right_sum right_sum)
                   (fadd Binary32 (f_of_word Binary32 right_count) (lambda params));
             p = fdiv Binary32 (fmul Binary32 total_sum total_sum)
                   (fadd Binary32 (f_of_word Binary32 total_count) (lambda params))
         in fsub Binary32 (fadd Binary32 l r) p)
      else fzero)"

text \<open>
  The overload for \<open>double\<close> sums squares and divides in double precision (the
  \<open>float\<close> denominator is promoted), adds in double precision and converts the result to
  \<open>float\<close> on return.
\<close>

definition gain_func_double ::
  "fval \<Rightarrow> fval \<Rightarrow> 64 word \<Rightarrow> 64 word \<Rightarrow> GainFunctionParameters \<Rightarrow> fval" where
  "gain_func_double left_sum total_sum left_count total_count params =
     (let right_count = total_count - left_count in
      if ucast (min_leaf_size params) \<le> left_count \<and> ucast (min_leaf_size params) \<le> right_count
      then
        (let right_sum = fsub Binary64 total_sum left_sum;
             l = fdiv Binary64 (fmul Binary64 left_sum left_sum)
                   (fadd Binary32 (f_of_word Binary32 left_count) (lambda params));
             r = fdiv Binary64 (fmul Binary64 right_sum right_sum)
                   (fadd Binary32 (f_of_word Binary32 right_count) (lambda params));
             p = fdiv Binary64 (fmul Binary64 total_sum total_sum)
                   (fadd Binary32 (f_of_word Binary32 total_count) (lambda params))
         in fcast Binary32 (fsub Binary64 (fadd Binary64 l r) p))
      else fzero)"

text \<open>
  Modelled from the spec: the difference of two \<^verbatim>\<open>float2\<close> or two \<^verbatim>\<open>double2\<close>
  aggregates is declared in \<^verbatim>\<open>cuda_helpers.h\<close>, which is not among the sources; the
  aggregate is the 2-tuple \<open>(g, h)\<close> of the summed gradient and the summed Hessian, and
  the difference is taken by component.
\<close>

definition minus2 :: "fmt \<Rightarrow> fval \<times> fval \<Rightarrow> fval \<times> fval \<Rightarrow> fval \<times> fval" where
  "minus2 f a b = (fsub f (fst a) (fst b), fsub f (snd a) (snd b))"

text \<open>The overload for \<^verbatim>\<open>float2\<close> sums: \<open>x\<close> is the first component, \<open>y\<close> the second.\<close>

definition gain_func_float2 ::
  "fval \<times> fval \<Rightarrow> fval \<times> fval \<Rightarrow> 64 word \<Rightarrow> 64 word \<Rightarrow> GainFunctionParameters \<Rightarrow> fval" where
  "gain_func_float2 left_sum total_sum left_count total_count params =
     (let right_sum = minus2 Binary32 total_sum left_sum in
      if ucast (min_leaf_size params) \<le> left_count
         \<and> ucast (min_leaf_size params) \<le> total_count - left_count
         \<and> fge (fabs (snd left_sum)) (hess params)
         \<and> fge (fabs (snd right_sum)) (hess params)
      then
        (let l = fdiv Binary32 (fmul Binary32 (fst left_sum) (fst left_sum))
                   (fadd Binary32 (snd left_sum) (lambda params));
             r = fdiv Binary32 (fmul Binary32 (fst right_sum) (fst right_sum))
                   (fadd Binary32 (snd right_sum) (lambda params));
             p = fdiv Binary32 (fmul Binary32 (fst total_sum) (fst total_sum))
                   (fadd Binary32 (snd total_sum) (lambda params))
         in fsub Binary32 (fadd Binary32 l r) p)
      else fzero)"

text \<open>
  The overload for \<^verbatim>\<open>double2\<close> sums computes each quotient in double precision, stores
  it to a \<open>float\<close>, and adds and subtracts the three in single precision.
\<close>

definition gain_func_double2 ::
  "fval \<times> fval \<Rightarrow> fval \<times> fval \<Rightarrow> 64 word \<Rightarrow> 64 word \<Rightarrow> GainFunctionParameters \<Rightarrow> fval" where
  "gain_func_double2 left_sum total_sum left_count total_count params =
     (let right_sum = minus2 Binary64 total_sum left_sum in
      if ucast (min_leaf_size params) \<le> left_count
         \<and> ucast (min_leaf_size params) \<le> total_count - left_count
         \<and> fge (fabs (snd left_sum)) (hess params)
         \<and> fge (fabs (snd right_sum)) (hess params)
      then
        (let l = fcast Binary32 (fdiv Binary64 (fmul Binary64 (fst left_sum) (fst left_sum))
                   (fadd Binary64 (snd left_sum) (lambda params)));
             r = fcast Binary32 (fdiv Binary64 (fmul Binary64 (fst right_sum) (fst right_sum))
                   (fadd Binary64 (snd right_sum) (lambda params)));
             p = fcast Binary32 (fdiv Binary64 (fmul Binary64 (fst total_sum) (fst total_sum))
                   (fadd Binary64 (snd total_sum) (lambda params)))
         in fsub Binary32 (fadd Binary32 l r) p)
      else fzero)"

text \<open>
  The gain as the specification writes it: the regularised quadratic \<open>q\<close> of an
  aggregate, with the row count of the side (gradient only) or the summed Hessian
  (gradient and Hessian) in the denominator, and the feasibility conditions.  The counts
  of the specification are numbers of rows: they are integers here, \<open>N_t - L\<close> is their
  difference, and a count enters the denominator converted to \<open>float\<close>.  \<open>f\<close> is the
  precision of the aggregates.
\<close>

definition f_of_int :: "fmt \<Rightarrow> int \<Rightarrow> fval" where
  "f_of_int f n = fround f (n < 0) (of_int \<bar>n\<bar>)"

definition q_count :: "fmt \<Rightarrow> fval \<Rightarrow> int \<Rightarrow> fval \<Rightarrow> fval" where
  "q_count f G n lam = fdiv f (fmul f G G) (fadd Binary32 (f_of_int Binary32 n) lam)"

definition q_hess :: "fmt \<Rightarrow> fval \<times> fval \<Rightarrow> fval \<Rightarrow> fval" where
  "q_hess f G lam = fdiv f (fmul f (fst G) (fst G)) (fadd f (snd G) lam)"

definition feasible_count :: "GainFunctionParameters \<Rightarrow> int \<Rightarrow> int \<Rightarrow> bool" where
  "feasible_count params L N =
     (uint (min_leaf_size params) \<le> L \<and> uint (min_leaf_size params) \<le> N - L)"

definition feasible_hess :: "GainFunctionParameters \<Rightarrow> fval \<Rightarrow> fval \<Rightarrow> bool" where
  "feasible_hess params hL hR = (fge (fabs hL) (hess params) \<and> fge (fabs hR) (hess params))"

section \<open>The gain kernel\<close>

text \<open>
  The bit pattern of a \<open>float\<close>, for storing a gain into a result cell.  The kernel
  stores only gains above zero, so the pattern chosen for a NaN is never used.
\<close>

definition encode32 :: "fval \<Rightarrow> 32 word" where
  "encode32 x =
     (case fcast Binary32 x of
        NaN \<Rightarrow> 0x7FC00000
      | Inf s \<Rightarrow> (if s then 0xFF800000 else 0x7F800000)
      | Fin s r \<Rightarrow>
          (if s then 0x80000000 else 0) OR
          (if r = 0 then 0
           else let e = floor_log2 r in
             if e < - 126 then word_of_int \<lfloor>r / pow2 (- 149)\<rfloor>
             else push_bit 23 (word_of_int (e + 127))
                  OR (word_of_int \<lfloor>r / pow2 (e - 23)\<rfloor> AND 0x7FFFFF)))"

text \<open>
  The body of \<^verbatim>\<open>gain_kernel\<close> for sort position \<open>i\<close>, in two parts.  The first reads
  the two neighbouring feature values and, when they differ, evaluates the gain of the
  split before position \<open>i\<close>: the result is \<open>None\<close> on a read outside a buffer,
  \<open>Some None\<close> when the position is skipped and \<open>Some (Some (segment, gain))\<close> when the
  gain has been evaluated.  The subtraction of \<^verbatim>\<open>sum_type\<close> and the overload of
  \<^verbatim>\<open>gain_func\<close> are the parameters \<open>sub_s\<close> and \<open>gain_fn\<close>.
\<close>

definition gain_kernel_gain ::
  "('s \<Rightarrow> 's \<Rightarrow> 's) \<Rightarrow> ('s \<Rightarrow> 's \<Rightarrow> 64 word \<Rightarrow> 64 word \<Rightarrow> GainFunctionParameters \<Rightarrow> fval) \<Rightarrow>
   's list \<Rightarrow> fval list \<Rightarrow> nat list \<Rightarrow> 's list \<Rightarrow> 32 word list \<Rightarrow> GainFunctionParameters \<Rightarrow>
   nat \<Rightarrow> (nat \<times> fval) option option" where
  "gain_kernel_gain sub_s gain_fn left_sum fvalues segments parent_sum_iter parent_count_iter
       parameters i =
     do {
       fvalue \<leftarrow> read fvalues (i + 1);
       fvalue_prev \<leftarrow> read fvalues i;
       if fne fvalue fvalue_prev then do {
         segment \<leftarrow> read segments i;
         left_sum_offset \<leftarrow> read parent_sum_iter segment;
         left_sum_i \<leftarrow> read left_sum i;
         let left_sum_value = sub_s left_sum_i left_sum_offset;
         count_offset \<leftarrow> read parent_count_iter segment;
         let left_count_offset = (ucast count_offset :: 64 word);
         let left_count_value = ucast (word_of_nat i :: 32 word) - left_count_offset;
         parent_sum_next \<leftarrow> read parent_sum_iter (segment + 1);
         let total_sum = sub_s parent_sum_next left_sum_offset;
         parent_count_next \<leftarrow> read parent_count_iter (segment + 1);
         let total_count = ucast parent_count_next - left_count_offset;
         Some (Some (segment,
           gain_fn left_sum_value total_sum left_count_value total_count parameters))
       } else Some None
     }"

text \<open>The second part records a gain above zero in the cell of the segment.\<close>

definition gain_kernel_body ::
  "('s \<Rightarrow> 's \<Rightarrow> 's) \<Rightarrow> ('s \<Rightarrow> 's \<Rightarrow> 64 word \<Rightarrow> 64 word \<Rightarrow> GainFunctionParameters \<Rightarrow> fval) \<Rightarrow>
   's list \<Rightarrow> fval list \<Rightarrow> nat list \<Rightarrow> 's list \<Rightarrow> 32 word list \<Rightarrow> GainFunctionParameters \<Rightarrow>
   nat \<Rightarrow> 64 word list \<Rightarrow> 64 word list option" where
  "gain_kernel_body sub_s gain_fn left_sum fvalues segments parent_sum_iter parent_count_iter
       parameters i res =
     do {
       c \<leftarrow> gain_kernel_gain sub_s gain_fn left_sum fvalues segments parent_sum_iter
              parent_count_iter parameters i;
       case c of
         None \<Rightarrow> Some res
       | Some (segment, g) \<Rightarrow>
           if fgt g fzero then do {
             cell \<leftarrow> read res segment;
             Some (res[segment := fst (updateAtomicMax cell (encode32 g) (word_of_nat i))])
           } else Some res
     }"

text \<open>
  The kernel runs the body for every \<open>i < n\<close>; the loop variable is an
  \<^verbatim>\<open>unsigned int\<close>, so the loop does not end when \<open>n\<close> exceeds its range, and the model
  gives \<open>None\<close> then.  The threads meet only in the atomic updates of the cells; the
  model runs the positions in ascending order.
\<close>

definition gain_kernel ::
  "('s \<Rightarrow> 's \<Rightarrow> 's) \<Rightarrow> ('s \<Rightarrow> 's \<Rightarrow> 64 word \<Rightarrow> 64 word \<Rightarrow> GainFunctionParameters \<Rightarrow> fval) \<Rightarrow>
   's list \<Rightarrow> fval list \<Rightarrow> nat list \<Rightarrow> 's list \<Rightarrow> 32 word list \<Rightarrow> nat \<Rightarrow>
   GainFunctionParameters \<Rightarrow> 64 word list \<Rightarrow> 64 word list option" where
  "gain_kernel sub_s gain_fn left_sum fvalues segments parent_sum_iter parent_count_iter n
       parameters res =
     (if int n \<le> 2 ^ 32 then
        for_loop (gain_kernel_body sub_s gain_fn left_sum fvalues segments parent_sum_iter
                    parent_count_iter parameters) [0..<n] res
      else None)"

text \<open>A datum whose sign bit is clear.\<close>

fun is_nonneg :: "fval \<Rightarrow> bool" where
  "is_nonneg NaN = True"
| "is_nonneg (Inf s) = (\<not> s)"
| "is_nonneg (Fin s a) = (\<not> s)"

section \<open>Example data\<close>

text \<open>
  A level of two leaves over one dense and one sparse feature, used to run the functions
  above: leaf \<open>0\<close> holds two rows, leaf \<open>1\<close> none.  The result cells of the slot
  report gain \<open>2.0\<close> at sort position \<open>1\<close> for both leaves.
\<close>

definition example_params :: GainFunctionParameters where
  "example_params =
     \<lparr> min_leaf_size = 1, hess = Fin False 0, gamma = Fin False 0, lambda = Fin False 0,
       alpha = Fin False 0 \<rparr>"

definition example_slot :: "fval PipelineSlot" where
  "example_slot =
     \<lparr> results_h = [my_atomics 0x40000000 1, my_atomics 0x40000000 1],
       slot_sum = [Fin False 0, Fin True 1],
       fvalue = [Inf True, Fin False 1, Fin False 2] \<rparr>"

definition example_stats :: "fval NodeStat list" where
  "example_stats =
     [\<lparr> stat_count = 2, stat_sum_grad = Fin False 0, stat_gain = Fin False 0 \<rparr>,
      \<lparr> stat_count = 0, stat_sum_grad = Fin False 0, stat_gain = Fin False 0 \<rparr>]"

definition example_unset :: "fval Split list" where
  "example_unset =
     [\<lparr> fid = - 1, gain = Fin False 0, split_value = Fin False 0, split_by_true = False,
        count = 0, sum_grad = Fin False 0 \<rparr>,
      \<lparr> fid = - 1, gain = Fin False 0, split_value = Fin False 0, split_by_true = False,
        count = 0, sum_grad = Fin False 0 \<rparr>]"

section \<open>Results\<close>

subsection \<open>The gather kernel\<close>

lemma gather_loop_length:
  "gather_loop position inp is out = Some out' \<Longrightarrow> length out' = length out"
proof (induction "is" arbitrary: out)
  case Nil
  then show ?case by simp
next
  case (Cons i "is")
  then show ?case
    by (auto simp: gather_body_def Let_def split: option.splits if_splits)
qed

text \<open>
  What the loop does to one cell of \<open>out\<close>: a cell whose index occurs among the visited
  positions receives the datum of \<open>in\<close> at the same index; every other cell keeps its
  content.
\<close>

lemma gather_loop_nth:
  "gather_loop position inp is out = Some out' \<Longrightarrow> j < length out \<Longrightarrow>
   out' ! j = (if j \<in> (\<lambda>i. unat (position ! i)) ` set is then inp ! j else out ! j)"
proof (induction "is" arbitrary: out)
  case Nil
  then show ?case by simp
next
  case (Cons i "is")
  from Cons.prems(1) obtain out1 where
    b: "gather_body position inp i out = Some out1" and
    l: "gather_loop position inp is out1 = Some out'"
    by (auto split: option.splits)
  from b have out1: "out1 = out[unat (position ! i) := inp ! unat (position ! i)]"
    by (auto simp: gather_body_def Let_def split: if_splits)
  have len: "j < length out1" using Cons.prems(2) out1 by simp
  show ?case
    using Cons.IH [OF l len] out1 Cons.prems(2)
    by (cases "j = unat (position ! i)") auto
qed

lemma gather_nth:
  assumes "gather position inp out n = Some out'" and "j < length out"
  shows "out' ! j = (if \<exists>i<n. unat (position ! i) = j then inp ! j else out ! j)"
proof -
  have "((\<lambda>i. unat (position ! i)) ` set [0..<n]) = {k. \<exists>i<n. unat (position ! i) = k}"
    by auto
  then show ?thesis
    using gather_loop_nth [of position inp "[0..<n]" out out' j] assms
    by (auto simp: gather_def)
qed

text \<open>
  C1.  After the radix sort the gradients are to be permuted by the sorted positions:
  \<open>grad_sorted[i] = grad[positions_sorted[i]]\<close> for every sort position.  On the
  gradients \<open>[10, 20]\<close> and the sorted positions \<open>[1, 0]\<close> the kernel of the source
  leaves \<open>[10, 20]\<close> in the gradient buffer, whatever it held before: position \<open>0\<close>
  holds \<open>grad[0]\<close>, not \<open>grad[positions_sorted[0]] = grad[1]\<close>.  The sibling kernel
  used for the leaf ids produces the permuted sequence on the same input.
\<close>

theorem gather_stores_at_source_index:
  "gather [1, 0] [Fin False 10, Fin False 20] [fzero, fzero] 2
     = Some [Fin False 10, Fin False 20]
   \<and> gather_kernel_simple [1, 0] [Fin False 10, Fin False 20] [fzero, fzero] 2
     = Some [Fin False 20, Fin False 10]"
  by code_simp

subsection \<open>The leaf-id type of the builder\<close>

lemma new_builder_node_type:
  assumes "new_builder obj dp depth = Inr (t, g, s)"
    and "\<not> (obj = LinearRegression \<and> \<not> dp \<and> 32 \<le> depth)"
  shows "smallest_fitting depth t"
  using assms
  by (cases obj)
    (auto simp: new_builder_def smallest_fitting_def CHAR_BIT_def split: if_splits)

text \<open>
  C8.  For every objective and both precisions the leaf-id type is to be the smallest
  unsigned type of at least \<open>depth + 1\<close> bits.  For linear regression in single
  precision at depth 32 the source instantiates the builder with \<^verbatim>\<open>unsigned int\<close>,
  whose 32 bits do not hold \<open>depth + 1 = 33\<close>; the double-precision branch beside it
  and the two other objectives take \<^verbatim>\<open>unsigned long int\<close>.
\<close>

theorem new_builder_linear_single_depth32:
  "new_builder LinearRegression False 32 = Inr (UnsignedInt, Float, SumFloat)
   \<and> \<not> smallest_fitting 32 UnsignedInt
   \<and> new_builder LinearRegression True 32 = Inr (UnsignedLongInt, Float, SumDouble)
   \<and> new_builder LogisticRegression False 32 = Inr (UnsignedLongInt, Float2, SumFloat2)
   \<and> smallest_fitting 32 UnsignedLongInt"
  by (simp add: new_builder_def smallest_fitting_def CHAR_BIT_def)

subsection \<open>The atomic maximum\<close>

lemma ints1_my_atomics: "ints1 (my_atomics g i) = i"
  unfolding my_atomics_def ints1_def
  by (rule bit_word_eqI) (auto simp: bit_simps dest: bit_imp_le_length)

lemma floats0_zero: "floats0 0 = fzero"
  by (simp add: floats0_def decode32_def fzero_def)

lemma flt_trans: "flt x y \<Longrightarrow> flt y z \<Longrightarrow> flt x z"
  by (cases x; cases y; cases z) (auto simp: sval_def split: if_splits)

lemma updateAtomicMax_cell:
  "fst (updateAtomicMax cell val1 val2) =
     (if flt (floats0 cell) (decode32 val1) then my_atomics val1 val2 else cell)"
proof (cases "flt (floats0 cell) (decode32 val1)")
  case False
  then show ?thesis
    by (simp add: updateAtomicMax_def)
next
  case True
  then have ne: "my_atomics val1 val2 \<noteq> cell"
    using flt_irrefl [of "decode32 val1"] by (auto simp: floats0_my_atomics)
  have "updateAtomicMax_while val1 val2 cell cell
          = updateAtomicMax_while val1 val2 (my_atomics val1 val2) cell"
    using True by (subst updateAtomicMax_while.simps) (simp add: atomicCAS_def)
  also have "\<dots> = updateAtomicMax_while val1 val2 (my_atomics val1 val2) (my_atomics val1 val2)"
    using True ne by (subst updateAtomicMax_while.simps) (simp add: atomicCAS_def)
  also have "\<dots> = (my_atomics val1 val2, my_atomics val1 val2)"
    by (subst updateAtomicMax_while.simps) (simp add: floats0_my_atomics flt_irrefl)
  finally show ?thesis
    using True by (simp add: updateAtomicMax_def)
qed

lemma apply_updates_cases:
  "apply_updates cell us = cell \<or> (\<exists>(g, i) \<in> set us. apply_updates cell us = my_atomics g i)"
proof (induction us arbitrary: cell)
  case Nil
  then show ?case by simp
next
  case (Cons u us)
  obtain g i where u: "u = (g, i)" by (cases u)
  show ?case
    using Cons.IH [of "fst (updateAtomicMax cell g i)"]
    by (auto simp: u updateAtomicMax_cell split: if_splits)
qed

lemma apply_updates_mono:
  "\<not> flt (floats0 cell) v \<Longrightarrow> \<not> flt (floats0 (apply_updates cell us)) v"
proof (induction us arbitrary: cell)
  case Nil
  then show ?case by simp
next
  case (Cons u us)
  obtain g i where u: "u = (g, i)" by (cases u)
  have "\<not> flt (floats0 (fst (updateAtomicMax cell g i))) v"
    using Cons.prems flt_trans [of "floats0 cell" "decode32 g" v]
    by (auto simp: updateAtomicMax_cell floats0_my_atomics)
  then show ?case
    using Cons.IH by (simp add: u)
qed

lemma apply_updates_upper:
  "(g, i) \<in> set us \<Longrightarrow> \<not> flt (floats0 (apply_updates cell us)) (decode32 g)"
proof (induction us arbitrary: cell)
  case Nil
  then show ?case by simp
next
  case (Cons u us)
  obtain g' i' where u: "u = (g', i')" by (cases u)
  show ?case
  proof (cases "(g, i) = (g', i')")
    case True
    have "\<not> flt (floats0 (fst (updateAtomicMax cell g i))) (decode32 g)"
      by (auto simp: updateAtomicMax_cell floats0_my_atomics flt_irrefl)
    then show ?thesis
      using True u apply_updates_mono by simp
  next
    case False
    then show ?thesis
      using Cons u by auto
  qed
qed

text \<open>Updates none of whose gains exceeds \<open>0.0\<close> leave a zeroed cell as it is.\<close>

lemma apply_updates_zero:
  "\<forall>(g, i) \<in> set us. \<not> flt fzero (decode32 g) \<Longrightarrow> apply_updates 0 us = 0"
proof (induction us)
  case Nil
  then show ?case by simp
next
  case (Cons u us)
  obtain g i where u: "u = (g, i)" by (cases u)
  then show ?case
    using Cons by (simp add: updateAtomicMax_cell floats0_zero)
qed

text \<open>
  C5, as the source has it.  \<^verbatim>\<open>updateAtomicMax\<close> replaces the cell by the candidate
  \<open>(val1, val2)\<close> if the stored gain is less than \<open>val1\<close>, and leaves it as it is
  otherwise.  After a sequence of updates of a zeroed cell in which some gain exceeds
  \<open>0.0\<close>, the cell holds one of the updates \<open>(gm, im)\<close>, and no gain of the sequence
  is greater than \<open>gm\<close>.
\<close>

theorem updateAtomicMax_keeps_max:
  "fst (updateAtomicMax cell val1 val2) =
     (if flt (floats0 cell) (decode32 val1) then my_atomics val1 val2 else cell)
   \<and> ((\<exists>(g, i) \<in> set us. flt fzero (decode32 g)) \<longrightarrow>
        (\<exists>(gm, im) \<in> set us. apply_updates 0 us = my_atomics gm im
           \<and> (\<forall>(g, i) \<in> set us. \<not> flt (decode32 gm) (decode32 g))))"
proof (intro conjI impI)
  show "fst (updateAtomicMax cell val1 val2) =
     (if flt (floats0 cell) (decode32 val1) then my_atomics val1 val2 else cell)"
    by (rule updateAtomicMax_cell)
next
  assume "\<exists>(g, i) \<in> set us. flt fzero (decode32 g)"
  then obtain g i where gi: "(g, i) \<in> set us" and pos: "flt fzero (decode32 g)"
    by auto
  have "\<not> flt (floats0 (apply_updates 0 us)) (decode32 g)"
    using gi by (rule apply_updates_upper)
  then have "apply_updates 0 us \<noteq> 0"
    using pos floats0_zero by auto
  then obtain gm im where m: "(gm, im) \<in> set us" and c: "apply_updates 0 us = my_atomics gm im"
    using apply_updates_cases [of 0 us] by auto
  have "\<forall>(g, i) \<in> set us. \<not> flt (decode32 gm) (decode32 g)"
    using apply_updates_upper [of _ _ us 0] by (auto simp: c floats0_my_atomics)
  then show "\<exists>(gm, im) \<in> set us. apply_updates 0 us = my_atomics gm im
           \<and> (\<forall>(g, i) \<in> set us. \<not> flt (decode32 gm) (decode32 g))"
    using m c by auto
qed

lemma decode32_one: "decode32 0x3F800000 = Fin False 1"
  by (simp add: decode32_def pow2_def)

lemma decode32_two: "decode32 0x40000000 = Fin False 2"
  by (simp add: decode32_def pow2_def)

lemma decode32_half: "decode32 0x3F000000 = Fin False (1 / 2)"
  by (simp add: decode32_def pow2_def)

lemma decode32_minus_one: "decode32 0xBF800000 = Fin True 1"
  by (simp add: decode32_def pow2_def)

text \<open>The updates \<open>(1.0, 3)\<close>, \<open>(2.0, 9)\<close>, \<open>(0.5, 4)\<close> leave \<open>(2.0, 9)\<close>.\<close>

theorem updateAtomicMax_keeps_max_witness:
  "fst (updateAtomicMax 0 0x3F800000 3) = my_atomics 0x3F800000 3
   \<and> (\<exists>(g, i) \<in> set ([(0x3F800000, 3), (0x40000000, 9), (0x3F000000, 4)]
                            :: (32 word \<times> 32 word) list).
         flt fzero (decode32 g))
   \<and> (\<exists>(gm, im) \<in> set ([(0x3F800000, 3), (0x40000000, 9), (0x3F000000, 4)]
                              :: (32 word \<times> 32 word) list).
         apply_updates 0 [(0x3F800000, 3), (0x40000000, 9), (0x3F000000, 4)] = my_atomics gm im
         \<and> (\<forall>(g, i) \<in> set ([(0x3F800000, 3), (0x40000000, 9), (0x3F000000, 4)]
                                :: (32 word \<times> 32 word) list).
               \<not> flt (decode32 gm) (decode32 g)))"
proof -
  let ?us = "[(0x3F800000, 3), (0x40000000, 9), (0x3F000000, 4)] :: (32 word \<times> 32 word) list"
  have h: "\<exists>(g, i) \<in> set ?us. flt fzero (decode32 g)"
    by (simp add: decode32_one fzero_def sval_def)
  have f: "flt (floats0 0) (decode32 0x3F800000)"
    by (simp add: floats0_zero fzero_def decode32_one sval_def)
  from updateAtomicMax_keeps_max [of 0 "0x3F800000" 3 ?us] h f
  show ?thesis
    by (intro conjI) (simp_all only: if_True simp_thms)
qed

text \<open>
  C5, as the claim states it, fails on an update whose gain is below \<open>0.0\<close>: the
  update \<open>(-1.0, 7)\<close> of a zeroed cell leaves gain \<open>0.0\<close> and index \<open>0\<close> in the cell,
  not the maximum \<open>-1.0\<close> of the sequence with its index \<open>7\<close>.
\<close>

theorem updateAtomicMax_negative_gain:
  "apply_updates 0 [(0xBF800000, 7)] = 0
   \<and> decode32 0xBF800000 = Fin True 1
   \<and> floats0 (apply_updates 0 [(0xBF800000, 7)]) = Fin False 0
   \<and> ints1 (apply_updates 0 [(0xBF800000, 7)]) = 0
   \<and> apply_updates 0 [(0xBF800000, 7)] \<noteq> my_atomics 0xBF800000 7"
proof -
  have e: "apply_updates 0 [(0xBF800000, 7)] = 0"
    by (simp add: updateAtomicMax_cell floats0_zero fzero_def decode32_minus_one sval_def)
  have n: "my_atomics 0xBF800000 7 \<noteq> 0"
    by (simp add: my_atomics_def)
  show ?thesis
    using e n floats0_zero by (simp add: decode32_minus_one fzero_def ints1_def)
qed

subsection \<open>Loops that write one cell per iteration\<close>

lemma for_loop_nth:
  assumes loc: "\<And>k st st'. body k st = Some st' \<Longrightarrow>
                  length st' = length st \<and> (\<forall>j. j \<noteq> k \<longrightarrow> st' ! j = st ! j)"
    and upd: "\<And>k st st'. body k st = Some st' \<Longrightarrow> k < length st \<Longrightarrow> st' ! k = F k (st ! k)"
  shows "for_loop body ks st = Some st' \<Longrightarrow> distinct ks \<Longrightarrow> i < length st \<Longrightarrow>
         length st' = length st \<and> st' ! i = (if i \<in> set ks then F i (st ! i) else st ! i)"
proof (induction ks arbitrary: st)
  case Nil
  then show ?case by simp
next
  case (Cons k ks)
  from Cons.prems(1) obtain st1 where
    b: "body k st = Some st1" and l: "for_loop body ks st1 = Some st'"
    by (auto split: option.splits)
  have len1: "length st1 = length st" and oth: "\<forall>j. j \<noteq> k \<longrightarrow> st1 ! j = st ! j"
    using loc [OF b] by auto
  have d: "distinct ks" and nk: "k \<notin> set ks"
    using Cons.prems(2) by auto
  have i1: "i < length st1"
    using Cons.prems(3) len1 by simp
  note ih = Cons.IH [OF l d i1]
  show ?case
  proof (cases "i = k")
    case True
    then have "st' ! i = st1 ! k"
      using ih nk by simp
    also have "\<dots> = F k (st ! k)"
      using upd [OF b] Cons.prems(3) True by simp
    finally show ?thesis
      using ih len1 True by simp
  next
    case False
    then show ?thesis
      using ih len1 oth by auto
  qed
qed

lemma for_loop_invariant:
  assumes step: "\<And>k st st'. body k st = Some st' \<Longrightarrow> P st \<Longrightarrow> P st'"
  shows "for_loop body ks st = Some st' \<Longrightarrow> P st \<Longrightarrow> P st'"
proof (induction ks arbitrary: st)
  case Nil
  then show ?case by simp
next
  case (Cons k ks)
  from Cons.prems(1) obtain st1 where
    b: "body k st = Some st1" and l: "for_loop body ks st1 = Some st'"
    by (auto split: option.splits)
  show ?case
    using Cons.IH [OF l] step [OF b] Cons.prems(2) by simp
qed

subsection \<open>Reduction of a dense feature\<close>

lemma read_Some: "read xs i = Some x \<longleftrightarrow> i < length xs \<and> x = xs ! i"
  by (auto simp: read_def)

lemma read_int_Some: "read_int xs k = Some x \<longleftrightarrow> 0 \<le> k \<and> k < int (length xs) \<and> x = xs ! nat k"
  by (auto simp: read_int_def)

lemma dense_body_local:
  assumes "GetBestSplitForDenceFeature_body isnan sub_s active_fid slot pc ps nodeStat k st
             = Some st'"
  shows "length st' = length st \<and> (\<forall>j. j \<noteq> k \<longrightarrow> st' ! j = st ! j)"
  using assms
  by (auto simp: GetBestSplitForDenceFeature_body_def Let_def
      split: Option.bind_splits if_splits)

lemma dense_body_nth:
  assumes "GetBestSplitForDenceFeature_body isnan sub_s active_fid slot pc ps nodeStat k st
             = Some st'"
    and "k < length st"
  shows "st' ! k = dense_leaf_result isnan sub_s active_fid slot pc ps nodeStat k (st ! k)"
  using assms
  by (auto simp: GetBestSplitForDenceFeature_body_def dense_leaf_result_def Let_def
      read_Some read_int_Some nat_add_distrib word_less_def word_le_def not_less
      split: Option.bind_splits if_splits)

lemma dense_loop_nth:
  assumes "GetBestSplitForDenceFeature isnan sub_s active_fid slot pc ps nodeStat lenght bestSplit
             = Some bestSplit'"
    and "i < length bestSplit"
  shows "length bestSplit' = length bestSplit \<and>
         bestSplit' ! i =
           (if i < lenght
            then dense_leaf_result isnan sub_s active_fid slot pc ps nodeStat i (bestSplit ! i)
            else bestSplit ! i)"
  using for_loop_nth [of "GetBestSplitForDenceFeature_body isnan sub_s active_fid slot pc ps nodeStat"
      "dense_leaf_result isnan sub_s active_fid slot pc ps nodeStat" "[0..<lenght]"
      bestSplit bestSplit' i, OF dense_body_local dense_body_nth] assms
  by (simp add: GetBestSplitForDenceFeature_def)


lemma dense_loop_selection:
  assumes "GetBestSplitForDenceFeature isnan sub_s active_fid slot parent_node_count_h
             parent_node_sum_h nodeStat lenght bestSplit = Some bestSplit'"
    and "i < lenght" and "i < length bestSplit"
    and "\<And>s. isnan s \<longleftrightarrow> \<not> ok s"
  shows "let res = results_h slot ! i; a = nat (sint (ints1 res)); s = slot_sum slot ! a;
             best = bestSplit ! i
         in (bestSplit' ! i \<noteq> best \<longrightarrow> fgt (floats0 res) (gain best) \<and> ok s)
          \<and> (0 < stat_count (nodeStat ! i) \<and> fgt (floats0 res) (gain best) \<and> ok s \<longrightarrow>
               bestSplit' ! i = best
                 \<lparr> fid := active_fid,
                   gain := floats0 res,
                   split_value := fcast Binary32
                      (fmul Binary64 (fadd Binary32 (fvalue slot ! a) (fvalue slot ! (a + 1)))
                         (Fin False (1 / 2))),
                   count := ucast (ucast (ints1 res - parent_node_count_h ! i) :: 64 word),
                   sum_grad := sub_s s (parent_node_sum_h ! i) \<rparr>)
          \<and> (\<not> ok s \<longrightarrow> bestSplit' ! i = best)"
  using dense_loop_nth [OF assms(1) assms(3)] assms(2)
  by (simp add: dense_leaf_result_def Let_def assms(4))

text \<open>
  C4.  \<^verbatim>\<open>GetBestSplitForDenceFeature\<close> changes the record of leaf \<open>i\<close> only when the
  gain reported in the cell of the leaf exceeds the gain of the record and the scanned
  sum at the reported position is finite.  When the leaf has rows and both hold, the
  record takes the feature, the reported gain, the threshold
  \<open>(fvalue[a] + fvalue[a + 1]) * 0.5\<close>, and the count and the sum left of the position.
  When the scanned sum is not finite the record stays as it is.  The first part is the
  builder over \<open>float\<close> or \<open>double\<close> sums, the second the builder over \<^verbatim>\<open>float2\<close> or
  \<^verbatim>\<open>mydouble2\<close> sums, finite when both components are.
\<close>

theorem GetBestSplitForDenceFeature_selection:
  "(GetBestSplitForDenceFeature isnan_float sub_s active_fid slot parent_node_count_h
        parent_node_sum_h nodeStat lenght bestSplit = Some bestSplit'
      \<and> i < lenght \<and> i < length bestSplit
    \<longrightarrow>
      (let res = results_h slot ! i; a = nat (sint (ints1 res)); s = slot_sum slot ! a;
           best = bestSplit ! i
       in (bestSplit' ! i \<noteq> best \<longrightarrow> fgt (floats0 res) (gain best) \<and> is_finite s)
        \<and> (0 < stat_count (nodeStat ! i) \<and> fgt (floats0 res) (gain best) \<and> is_finite s \<longrightarrow>
             bestSplit' ! i = best
               \<lparr> fid := active_fid,
                 gain := floats0 res,
                 split_value := fcast Binary32
                    (fmul Binary64 (fadd Binary32 (fvalue slot ! a) (fvalue slot ! (a + 1)))
                       (Fin False (1 / 2))),
                 count := ucast (ucast (ints1 res - parent_node_count_h ! i) :: 64 word),
                 sum_grad := sub_s s (parent_node_sum_h ! i) \<rparr>)
        \<and> (\<not> is_finite s \<longrightarrow> bestSplit' ! i = best)))
   \<and> (GetBestSplitForDenceFeature isnan_float2 sub_p active_fid pair_slot parent_node_count_h
        pair_node_sum_h pairStat lenght pairSplit = Some pairSplit'
      \<and> i < lenght \<and> i < length pairSplit
    \<longrightarrow>
      (let res = results_h pair_slot ! i; a = nat (sint (ints1 res)); s = slot_sum pair_slot ! a;
           best = pairSplit ! i
       in (pairSplit' ! i \<noteq> best \<longrightarrow>
             fgt (floats0 res) (gain best) \<and> is_finite (fst s) \<and> is_finite (snd s))
        \<and> (0 < stat_count (pairStat ! i) \<and> fgt (floats0 res) (gain best)
             \<and> is_finite (fst s) \<and> is_finite (snd s) \<longrightarrow>
             pairSplit' ! i = best
               \<lparr> fid := active_fid,
                 gain := floats0 res,
                 split_value := fcast Binary32
                    (fmul Binary64 (fadd Binary32 (fvalue pair_slot ! a) (fvalue pair_slot ! (a + 1)))
                       (Fin False (1 / 2))),
                 count := ucast (ucast (ints1 res - parent_node_count_h ! i) :: 64 word),
                 sum_grad := sub_p s (pair_node_sum_h ! i) \<rparr>)
        \<and> (\<not> (is_finite (fst s) \<and> is_finite (snd s)) \<longrightarrow> pairSplit' ! i = best)))"
proof (intro conjI impI; elim conjE)
  assume "GetBestSplitForDenceFeature isnan_float sub_s active_fid slot parent_node_count_h
        parent_node_sum_h nodeStat lenght bestSplit = Some bestSplit'"
    and "i < lenght" and "i < length bestSplit"
  then show "let res = results_h slot ! i; a = nat (sint (ints1 res)); s = slot_sum slot ! a;
           best = bestSplit ! i
       in (bestSplit' ! i \<noteq> best \<longrightarrow> fgt (floats0 res) (gain best) \<and> is_finite s)
        \<and> (0 < stat_count (nodeStat ! i) \<and> fgt (floats0 res) (gain best) \<and> is_finite s \<longrightarrow>
             bestSplit' ! i = best
               \<lparr> fid := active_fid,
                 gain := floats0 res,
                 split_value := fcast Binary32
                    (fmul Binary64 (fadd Binary32 (fvalue slot ! a) (fvalue slot ! (a + 1)))
                       (Fin False (1 / 2))),
                 count := ucast (ucast (ints1 res - parent_node_count_h ! i) :: 64 word),
                 sum_grad := sub_s s (parent_node_sum_h ! i) \<rparr>)
        \<and> (\<not> is_finite s \<longrightarrow> bestSplit' ! i = best)"
    by (rule dense_loop_selection) (simp add: isnan_float_def)
next
  assume "GetBestSplitForDenceFeature isnan_float2 sub_p active_fid pair_slot parent_node_count_h
        pair_node_sum_h pairStat lenght pairSplit = Some pairSplit'"
    and "i < lenght" and "i < length pairSplit"
  then have "let res = results_h pair_slot ! i; a = nat (sint (ints1 res)); s = slot_sum pair_slot ! a;
           best = pairSplit ! i
       in (pairSplit' ! i \<noteq> best \<longrightarrow>
             fgt (floats0 res) (gain best) \<and> (is_finite (fst s) \<and> is_finite (snd s)))
        \<and> (0 < stat_count (pairStat ! i) \<and> fgt (floats0 res) (gain best)
             \<and> (is_finite (fst s) \<and> is_finite (snd s)) \<longrightarrow>
             pairSplit' ! i = best
               \<lparr> fid := active_fid,
                 gain := floats0 res,
                 split_value := fcast Binary32
                    (fmul Binary64 (fadd Binary32 (fvalue pair_slot ! a) (fvalue pair_slot ! (a + 1)))
                       (Fin False (1 / 2))),
                 count := ucast (ucast (ints1 res - parent_node_count_h ! i) :: 64 word),
                 sum_grad := sub_p s (pair_node_sum_h ! i) \<rparr>)
        \<and> (\<not> (is_finite (fst s) \<and> is_finite (snd s)) \<longrightarrow> pairSplit' ! i = best)"
    by (rule dense_loop_selection [where ok = "\<lambda>s. is_finite (fst s) \<and> is_finite (snd s)"])
      (simp add: isnan_float2_def)
  then show "let res = results_h pair_slot ! i; a = nat (sint (ints1 res)); s = slot_sum pair_slot ! a;
           best = pairSplit ! i
       in (pairSplit' ! i \<noteq> best \<longrightarrow>
             fgt (floats0 res) (gain best) \<and> is_finite (fst s) \<and> is_finite (snd s))
        \<and> (0 < stat_count (pairStat ! i) \<and> fgt (floats0 res) (gain best)
             \<and> is_finite (fst s) \<and> is_finite (snd s) \<longrightarrow>
             pairSplit' ! i = best
               \<lparr> fid := active_fid,
                 gain := floats0 res,
                 split_value := fcast Binary32
                    (fmul Binary64 (fadd Binary32 (fvalue pair_slot ! a) (fvalue pair_slot ! (a + 1)))
                       (Fin False (1 / 2))),
                 count := ucast (ucast (ints1 res - parent_node_count_h ! i) :: 64 word),
                 sum_grad := sub_p s (pair_node_sum_h ! i) \<rparr>)
        \<and> (\<not> (is_finite (fst s) \<and> is_finite (snd s)) \<longrightarrow> pairSplit' ! i = best)"
    by (simp only: conj_assoc)
qed

lemma example_dense_run:
  "GetBestSplitForDenceFeature isnan_float (fsub Binary32) 3
     \<lparr> results_h = [my_atomics 0x40000000 1],
       slot_sum = [Fin False 0, Fin True 1],
       fvalue = [Inf True, Fin False 1, Fin False 2] \<rparr>
     [0, 2] [Fin False 0, Fin False 0]
     [\<lparr> stat_count = 2, stat_sum_grad = Fin False 0, stat_gain = Fin False 0 \<rparr>] 1
     [\<lparr> fid = - 1, gain = Fin False 0, split_value = Fin False 0, split_by_true = False,
        count = 0, sum_grad = Fin False 0 \<rparr>]
   = Some [\<lparr> fid = 3, gain = Fin False 2, split_value = Fin False (3 / 2), split_by_true = False,
        count = 1, sum_grad = Fin True 1 \<rparr>]"
  by code_simp

lemma example_dense_run_infinite:
  "GetBestSplitForDenceFeature isnan_float (fsub Binary32) 3
     \<lparr> results_h = [my_atomics 0x40000000 1],
       slot_sum = [Fin False 0, Inf True],
       fvalue = [Inf True, Fin False 1, Fin False 2] \<rparr>
     [0, 2] [Fin False 0, Fin False 0]
     [\<lparr> stat_count = 2, stat_sum_grad = Fin False 0, stat_gain = Fin False 0 \<rparr>] 1
     [\<lparr> fid = - 1, gain = Fin False 0, split_value = Fin False 0, split_by_true = False,
        count = 0, sum_grad = Fin False 0 \<rparr>]
   = Some [\<lparr> fid = - 1, gain = Fin False 0, split_value = Fin False 0, split_by_true = False,
        count = 0, sum_grad = Fin False 0 \<rparr>]"
  by code_simp

lemma example_dense_run_pair:
  "GetBestSplitForDenceFeature isnan_float2 (minus2 Binary32) 3
     \<lparr> results_h = [my_atomics 0x40000000 1],
       slot_sum = [(Fin False 0, Fin False 0), (Fin True 1, Fin False 1)],
       fvalue = [Inf True, Fin False 1, Fin False 2] \<rparr>
     [0, 2] [(Fin False 0, Fin False 0), (Fin False 0, Fin False 2)]
     [\<lparr> stat_count = 2, stat_sum_grad = (Fin False 0, Fin False 2), stat_gain = Fin False 0 \<rparr>] 1
     [\<lparr> fid = - 1, gain = Fin False 0, split_value = Fin False 0, split_by_true = False,
        count = 0, sum_grad = (Fin False 0, Fin False 0) \<rparr>]
   = Some [\<lparr> fid = 3, gain = Fin False 2, split_value = Fin False (3 / 2), split_by_true = False,
        count = 1, sum_grad = (Fin True 1, Fin False 1) \<rparr>]"
  by code_simp

text \<open>
  A level of one leaf with two rows: the cell reports gain \<open>2.0\<close> at sort position
  \<open>1\<close>, between the feature values \<open>1.0\<close> and \<open>2.0\<close>.  With the scanned sum \<open>-1\<close>
  (or \<open>(-1, 1)\<close>) the record takes the threshold \<open>1.5\<close>; with the scanned sum
  \<open>-\<infinity>\<close> the record stays unset.
\<close>

theorem GetBestSplitForDenceFeature_selection_witness:
  "GetBestSplitForDenceFeature isnan_float (fsub Binary32) 3
     \<lparr> results_h = [my_atomics 0x40000000 1],
       slot_sum = [Fin False 0, Fin True 1],
       fvalue = [Inf True, Fin False 1, Fin False 2] \<rparr>
     [0, 2] [Fin False 0, Fin False 0]
     [\<lparr> stat_count = 2, stat_sum_grad = Fin False 0, stat_gain = Fin False 0 \<rparr>] 1
     [\<lparr> fid = - 1, gain = Fin False 0, split_value = Fin False 0, split_by_true = False,
        count = 0, sum_grad = Fin False 0 \<rparr>]
   = Some [\<lparr> fid = 3, gain = Fin False 2, split_value = Fin False (3 / 2), split_by_true = False,
        count = 1, sum_grad = Fin True 1 \<rparr>]
   \<and> fgt (floats0 (my_atomics 0x40000000 1)) (Fin False 0)
   \<and> is_finite (Fin True 1)
   \<and> [\<lparr> fid = 3, gain = Fin False 2, split_value = Fin False (3 / 2), split_by_true = False,
        count = 1 :: 32 word, sum_grad = Fin True 1 \<rparr>] ! 0
       = \<lparr> fid = 3, gain = floats0 (my_atomics 0x40000000 1),
           split_value = fcast Binary32
              (fmul Binary64 (fadd Binary32 (Fin False 1) (Fin False 2)) (Fin False (1 / 2))),
           split_by_true = False,
           count = ucast (ucast (1 - 0 :: 32 word) :: 64 word),
           sum_grad = fsub Binary32 (Fin True 1) (Fin False 0) \<rparr>
   \<and> \<not> is_finite (Inf True)
   \<and> GetBestSplitForDenceFeature isnan_float (fsub Binary32) 3
     \<lparr> results_h = [my_atomics 0x40000000 1],
       slot_sum = [Fin False 0, Inf True],
       fvalue = [Inf True, Fin False 1, Fin False 2] \<rparr>
     [0, 2] [Fin False 0, Fin False 0]
     [\<lparr> stat_count = 2, stat_sum_grad = Fin False 0, stat_gain = Fin False 0 \<rparr>] 1
     [\<lparr> fid = - 1, gain = Fin False 0, split_value = Fin False 0, split_by_true = False,
        count = 0, sum_grad = Fin False 0 \<rparr>]
   = Some [\<lparr> fid = - 1, gain = Fin False 0, split_value = Fin False 0, split_by_true = False,
        count = 0, sum_grad = Fin False 0 \<rparr>]
   \<and> GetBestSplitForDenceFeature isnan_float2 (minus2 Binary32) 3
     \<lparr> results_h = [my_atomics 0x40000000 1],
       slot_sum = [(Fin False 0, Fin False 0), (Fin True 1, Fin False 1)],
       fvalue = [Inf True, Fin False 1, Fin False 2] \<rparr>
     [0, 2] [(Fin False 0, Fin False 0), (Fin False 0, Fin False 2)]
     [\<lparr> stat_count = 2, stat_sum_grad = (Fin False 0, Fin False 2), stat_gain = Fin False 0 \<rparr>] 1
     [\<lparr> fid = - 1, gain = Fin False 0, split_value = Fin False 0, split_by_true = False,
        count = 0, sum_grad = (Fin False 0, Fin False 0) \<rparr>]
   = Some [\<lparr> fid = 3, gain = Fin False 2, split_value = Fin False (3 / 2), split_by_true = False,
        count = 1, sum_grad = (Fin True 1, Fin False 1) \<rparr>]
   \<and> is_finite (Fin False 1)
   \<and> [\<lparr> fid = 3, gain = Fin False 2, split_value = Fin False (3 / 2), split_by_true = False,
        count = 1 :: 32 word, sum_grad = (Fin True 1, Fin False 1) \<rparr>] ! 0
       = \<lparr> fid = 3, gain = floats0 (my_atomics 0x40000000 1),
           split_value = fcast Binary32
              (fmul Binary64 (fadd Binary32 (Fin False 1) (Fin False 2)) (Fin False (1 / 2))),
           split_by_true = False,
           count = ucast (ucast (1 - 0 :: 32 word) :: 64 word),
           sum_grad = minus2 Binary32 (Fin True 1, Fin False 1) (Fin False 0, Fin False 0) \<rparr>"
proof -
  let ?slot = "\<lparr> results_h = [my_atomics 0x40000000 1],
       slot_sum = [Fin False 0, Fin True 1],
       fvalue = [Inf True, Fin False 1, Fin False 2] \<rparr>"
  let ?slot2 = "\<lparr> results_h = [my_atomics 0x40000000 1],
       slot_sum = [(Fin False 0, Fin False 0), (Fin True 1, Fin False 1)],
       fvalue = [Inf True, Fin False 1, Fin False 2] \<rparr>"
  let ?unset = "\<lparr> fid = - 1, gain = Fin False 0, split_value = Fin False 0,
       split_by_true = False, count = 0 :: 32 word, sum_grad = Fin False 0 \<rparr>"
  let ?unset2 = "\<lparr> fid = - 1, gain = Fin False 0, split_value = Fin False 0,
       split_by_true = False, count = 0 :: 32 word, sum_grad = (Fin False 0, Fin False 0) \<rparr>"
  have g: "fgt (floats0 (my_atomics 0x40000000 1)) (Fin False 0)"
    by (simp add: floats0_my_atomics decode32_two fgt_def sval_def)
  have f: "is_finite (Fin True 1)" "is_finite (Fin False 1)" "\<not> is_finite (Inf True)"
    by simp_all
  note t = GetBestSplitForDenceFeature_selection
    [where sub_s = "fsub Binary32" and active_fid = 3 and slot = ?slot
       and parent_node_count_h = "[0, 2]" and parent_node_sum_h = "[Fin False 0, Fin False 0]"
       and nodeStat = "[\<lparr> stat_count = 2, stat_sum_grad = Fin False 0,
                          stat_gain = Fin False 0 \<rparr>]"
       and lenght = 1 and bestSplit = "[?unset]" and i = 0
       and bestSplit' = "[\<lparr> fid = 3, gain = Fin False 2, split_value = Fin False (3 / 2),
                            split_by_true = False, count = 1, sum_grad = Fin True 1 \<rparr>]"
       and sub_p = "minus2 Binary32" and pair_slot = ?slot2
       and pair_node_sum_h = "[(Fin False 0, Fin False 0), (Fin False 0, Fin False 2)]"
       and pairStat = "[\<lparr> stat_count = 2, stat_sum_grad = (Fin False 0, Fin False 2),
                           stat_gain = Fin False 0 \<rparr>]"
       and pairSplit = "[?unset2]"
       and pairSplit' = "[\<lparr> fid = 3, gain = Fin False 2, split_value = Fin False (3 / 2),
                             split_by_true = False, count = 1,
                             sum_grad = (Fin True 1, Fin False 1) \<rparr>]"]
  have e: "[\<lparr> fid = 3, gain = Fin False 2, split_value = Fin False (3 / 2), split_by_true = False,
        count = 1 :: 32 word, sum_grad = Fin True 1 \<rparr>] ! 0
       = \<lparr> fid = 3, gain = floats0 (my_atomics 0x40000000 1),
           split_value = fcast Binary32
              (fmul Binary64 (fadd Binary32 (Fin False 1) (Fin False 2)) (Fin False (1 / 2))),
           split_by_true = False,
           count = ucast (ucast (1 - 0 :: 32 word) :: 64 word),
           sum_grad = fsub Binary32 (Fin True 1) (Fin False 0) \<rparr>"
    using t [THEN conjunct1] example_dense_run g
    by (simp add: Let_def ints1_my_atomics del: fadd.simps fmul.simps fcast.simps)
  have e2: "[\<lparr> fid = 3, gain = Fin False 2, split_value = Fin False (3 / 2),
        split_by_true = False, count = 1 :: 32 word, sum_grad = (Fin True 1, Fin False 1) \<rparr>] ! 0
       = \<lparr> fid = 3, gain = floats0 (my_atomics 0x40000000 1),
           split_value = fcast Binary32
              (fmul Binary64 (fadd Binary32 (Fin False 1) (Fin False 2)) (Fin False (1 / 2))),
           split_by_true = False,
           count = ucast (ucast (1 - 0 :: 32 word) :: 64 word),
           sum_grad = minus2 Binary32 (Fin True 1, Fin False 1) (Fin False 0, Fin False 0) \<rparr>"
    using t [THEN conjunct2] example_dense_run_pair g
    by (simp add: Let_def ints1_my_atomics del: fadd.simps fmul.simps fcast.simps)
  show ?thesis
    by (intro conjI)
      (rule example_dense_run g f e example_dense_run_infinite example_dense_run_pair e2)+
qed

subsection \<open>Leaves without rows\<close>

lemma sparse_body_local:
  assumes "GetBestSplitForSparseFeature_body isnan gain_fn active_fid columns_dense slot
             sparse_stat nodeStat k st = Some st'"
  shows "length st' = length st \<and> (\<forall>j. j \<noteq> k \<longrightarrow> st' ! j = st ! j)"
  using assms
  by (auto simp: GetBestSplitForSparseFeature_body_def Let_def
      split: Option.bind_splits if_splits)

lemma sparse_body_no_true_rows:
  assumes "GetBestSplitForSparseFeature_body isnan gain_fn active_fid columns_dense slot
             sparse_stat nodeStat k st = Some st'"
    and "\<forall>column \<in> set sparse_stat. k < length column \<longrightarrow> column ! k = 0"
  shows "st' = st"
proof -
  from assms(1) obtain column where
    c: "read_int sparse_stat active_fid = Some column" and r: "read column k \<noteq> None"
    by (auto simp: GetBestSplitForSparseFeature_body_def split: Option.bind_splits)
  from c have "column \<in> set sparse_stat"
    by (auto simp: read_int_Some)
  with r assms(2) have "read column k = Some 0"
    by (auto simp: read_def split: if_splits)
  with c assms(1) show ?thesis
    by (simp add: GetBestSplitForSparseFeature_body_def)
qed

lemma sparse_loop_no_true_rows:
  assumes "GetBestSplitForSparseFeature isnan gain_fn active_fid columns_dense slot
             sparse_stat nodeStat lenght bestSplit = Some bestSplit'"
    and "\<forall>column \<in> set sparse_stat. i < length column \<longrightarrow> column ! i = 0"
  shows "length bestSplit' = length bestSplit \<and> bestSplit' ! i = bestSplit ! i"
proof -
  have step: "\<And>k st st'.
      GetBestSplitForSparseFeature_body isnan gain_fn active_fid columns_dense slot
        sparse_stat nodeStat k st = Some st' \<Longrightarrow>
      length st = length bestSplit \<and> st ! i = bestSplit ! i \<Longrightarrow>
      length st' = length bestSplit \<and> st' ! i = bestSplit ! i"
  proof -
    fix k st st'
    assume b: "GetBestSplitForSparseFeature_body isnan gain_fn active_fid columns_dense slot
        sparse_stat nodeStat k st = Some st'"
      and p: "length st = length bestSplit \<and> st ! i = bestSplit ! i"
    show "length st' = length bestSplit \<and> st' ! i = bestSplit ! i"
    proof (cases "k = i")
      case True
      then show ?thesis
        using sparse_body_no_true_rows [OF b] assms(2) p by simp
    next
      case False
      then show ?thesis
        using sparse_body_local [OF b] p by simp
    qed
  qed
  show ?thesis
    using for_loop_invariant
      [of "GetBestSplitForSparseFeature_body isnan gain_fn active_fid columns_dense slot
             sparse_stat nodeStat"
          "\<lambda>st. length st = length bestSplit \<and> st ! i = bestSplit ! i"
          "[0..<lenght]" bestSplit bestSplit', OF step] assms(1)
    by (simp add: GetBestSplitForSparseFeature_def)
qed

lemma dense_loop_no_rows:
  assumes "GetBestSplitForDenceFeature isnan sub_s active_fid slot pc ps nodeStat lenght bestSplit
             = Some bestSplit'"
    and "i < length bestSplit" and "stat_count (nodeStat ! i) \<le> 0"
  shows "length bestSplit' = length bestSplit \<and> bestSplit' ! i = bestSplit ! i"
  using dense_loop_nth [OF assms(1) assms(2)] assms(3)
  by (simp add: dense_leaf_result_def Let_def not_less)

lemma reduce_loop_no_rows:
  assumes "for_loop (FindBestSplits_reduce_body isnan sub_s gain_fn active_fids columns_dense
                       slots pc ps sparse_stat nodeStat lenght) js bestSplit = Some reduced"
    and "i < length bestSplit" and "stat_count (nodeStat ! i) \<le> 0"
    and "\<forall>column \<in> set sparse_stat. i < length column \<longrightarrow> column ! i = 0"
  shows "length reduced = length bestSplit \<and> reduced ! i = bestSplit ! i"
proof -
  have step: "\<And>k st st'.
      FindBestSplits_reduce_body isnan sub_s gain_fn active_fids columns_dense
        slots pc ps sparse_stat nodeStat lenght k st = Some st' \<Longrightarrow>
      length st = length bestSplit \<and> st ! i = bestSplit ! i \<Longrightarrow>
      length st' = length bestSplit \<and> st' ! i = bestSplit ! i"
  proof -
    fix k st st'
    assume b: "FindBestSplits_reduce_body isnan sub_s gain_fn active_fids columns_dense
        slots pc ps sparse_stat nodeStat lenght k st = Some st'"
      and p: "length st = length bestSplit \<and> st ! i = bestSplit ! i"
    from b obtain f where f: "read active_fids k = Some f"
      by (auto simp: FindBestSplits_reduce_body_def split: Option.bind_splits)
    show "length st' = length bestSplit \<and> st' ! i = bestSplit ! i"
    proof (cases "ucast f < columns_dense")
      case True
      with b f have "GetBestSplitForDenceFeature isnan sub_s (sint f) (slots k) pc ps
                       nodeStat lenght st = Some st'"
        by (simp add: FindBestSplits_reduce_body_def)
      then show ?thesis
        using dense_loop_no_rows [of isnan sub_s "sint f" "slots k" pc ps nodeStat lenght
            st st' i] p assms(2,3) by simp
    next
      case False
      with b f have "GetBestSplitForSparseFeature isnan gain_fn
                       (sint (ucast (ucast f - columns_dense) :: 32 word))
                       columns_dense (slots k) sparse_stat nodeStat lenght st = Some st'"
        by (simp add: FindBestSplits_reduce_body_def)
      then show ?thesis
        using sparse_loop_no_true_rows [of isnan gain_fn
            "sint (ucast (ucast f - columns_dense) :: 32 word)"
            columns_dense "slots k" sparse_stat nodeStat lenght st st' i] p assms(4) by simp
    qed
  qed
  show ?thesis
    using for_loop_invariant
      [of "FindBestSplits_reduce_body isnan sub_s gain_fn active_fids columns_dense
             slots pc ps sparse_stat nodeStat lenght"
          "\<lambda>st. length st = length bestSplit \<and> st ! i = bestSplit ! i"
          js bestSplit reduced, OF step] assms(1)
    by simp
qed

subsection \<open>The sentinel of a leaf without a chosen split\<close>

lemma finish_body_local:
  assumes "FindBestSplits_finish_body nodeStat k st = Some st'"
  shows "length st' = length st \<and> (\<forall>j. j \<noteq> k \<longrightarrow> st' ! j = st ! j)"
  using assms
  by (auto simp: FindBestSplits_finish_body_def split: Option.bind_splits if_splits)

lemma finish_body_nth:
  assumes "FindBestSplits_finish_body nodeStat k st = Some st'" and "k < length st"
  shows "st' ! k = (if fid (st ! k) < 0 then degenerate_split (nodeStat ! k) (st ! k) else st ! k)"
  using assms
  by (auto simp: FindBestSplits_finish_body_def degenerate_split_def read_Some
      split: Option.bind_splits if_splits)

lemma FindBestSplits_finish_nth:
  assumes "FindBestSplits_finish nodeStat lenght bestSplit = Some bestSplit'"
    and "i < length bestSplit"
  shows "length bestSplit' = length bestSplit \<and>
         bestSplit' ! i =
           (if i < lenght \<and> fid (bestSplit ! i) < 0
            then degenerate_split (nodeStat ! i) (bestSplit ! i) else bestSplit ! i)"
  using for_loop_nth [of "FindBestSplits_finish_body nodeStat"
      "\<lambda>k b. if fid b < 0 then degenerate_split (nodeStat ! k) b else b" "[0..<lenght]"
      bestSplit bestSplit' i, OF finish_body_local finish_body_nth] assms
  by (simp add: FindBestSplits_finish_def)

text \<open>
  C10, as the source has it.  A leaf whose count is not above zero is skipped by
  \<^verbatim>\<open>GetBestSplitForDenceFeature\<close>: its record is left as it is, whatever the result
  cells hold.  When moreover no sparse column has a true row in the leaf and the record
  is unset at the start of the level, \<^verbatim>\<open>FindBestSplits\<close> ends with the sentinel in the
  record.
\<close>

theorem GetBestSplitForDenceFeature_skips_empty_leaf:
  assumes "i < length bestSplit" and "stat_count (nodeStat ! i) \<le> 0"
  shows "(\<forall>bestSplit'.
            GetBestSplitForDenceFeature isnan sub_s active_fid slot parent_node_count_h
              parent_node_sum_h nodeStat lenght bestSplit = Some bestSplit'
            \<longrightarrow> bestSplit' ! i = bestSplit ! i)
       \<and> (\<forall>final.
            FindBestSplits isnan sub_s add_s zero_s gain_fn f colsample_bylevel colsample_bytree
              level columns columns_dense active_fids slots sparse_stat nodeStat
              parent_count parent_sum bestSplit = Some final
            \<and> i < 2 ^ level \<and> fid (bestSplit ! i) < 0
            \<and> (\<forall>column \<in> set sparse_stat. i < length column \<longrightarrow> column ! i = 0)
            \<longrightarrow> final ! i = degenerate_split (nodeStat ! i) (bestSplit ! i))"
proof (intro conjI allI impI)
  fix bestSplit'
  assume "GetBestSplitForDenceFeature isnan sub_s active_fid slot parent_node_count_h
              parent_node_sum_h nodeStat lenght bestSplit = Some bestSplit'"
  then show "bestSplit' ! i = bestSplit ! i"
    using dense_loop_no_rows assms by blast
next
  fix final
  assume a: "FindBestSplits isnan sub_s add_s zero_s gain_fn f colsample_bylevel colsample_bytree
              level columns columns_dense active_fids slots sparse_stat nodeStat
              parent_count parent_sum bestSplit = Some final
            \<and> i < 2 ^ level \<and> fid (bestSplit ! i) < 0
            \<and> (\<forall>column \<in> set sparse_stat. i < length column \<longrightarrow> column ! i = 0)"
  then obtain pc ps js reduced where
    red: "for_loop (FindBestSplits_reduce_body isnan sub_s gain_fn active_fids columns_dense
                       slots pc ps sparse_stat nodeStat (2 ^ level)) js bestSplit = Some reduced"
    and fin: "FindBestSplits_finish nodeStat (2 ^ level) reduced = Some final"
    by (auto simp: FindBestSplits_def Let_def split: Option.bind_splits if_splits prod.splits)
  have r: "length reduced = length bestSplit \<and> reduced ! i = bestSplit ! i"
    using reduce_loop_no_rows [OF red assms] a by simp
  then have "i < length reduced"
    using assms(1) by simp
  from FindBestSplits_finish_nth [OF fin this] r a
  show "final ! i = degenerate_split (nodeStat ! i) (bestSplit ! i)"
    by simp
qed

subsection \<open>The gain evaluator\<close>

lemma f_of_word_int: "f_of_word f n = f_of_int f (uint n)"
  by (simp add: f_of_word_def f_of_int_def)

lemma ucast_le_uint: "ucast (m :: 32 word) \<le> (L :: 64 word) \<longleftrightarrow> uint m \<le> uint L"
  by (simp add: word_le_def uint_up_ucast is_up)

lemma uint_sub_le: "(L :: 64 word) \<le> N \<Longrightarrow> uint (N - L) = uint N - uint L"
  by (simp add: uint_minus_simple_alt)

text \<open>
  C3, as the source has it.  When the left count does not exceed the total count, each
  overload of \<^verbatim>\<open>gain_func\<close> returns \<open>q(G_L) + q(G_t - G_L) - q(G_t)\<close> when the split is
  feasible and \<open>0\<close> when it is not.  The difference \<open>G_t - G_L\<close> is the floating-point
  difference in the precision of the aggregates; in the overload for \<^verbatim>\<open>double2\<close> each
  \<open>q\<close> is stored to a \<open>float\<close> before the sum.
\<close>

theorem gain_func_is_score_within_total:
  "L \<le> N \<longrightarrow>
     gain_func_float GL Gt L N params =
       (if feasible_count params (uint L) (uint N)
        then fsub Binary32
               (fadd Binary32 (q_count Binary32 GL (uint L) (lambda params))
                  (q_count Binary32 (fsub Binary32 Gt GL) (uint N - uint L) (lambda params)))
               (q_count Binary32 Gt (uint N) (lambda params))
        else fzero)
     \<and> gain_func_double GL Gt L N params =
       (if feasible_count params (uint L) (uint N)
        then fcast Binary32
               (fsub Binary64
                  (fadd Binary64 (q_count Binary64 GL (uint L) (lambda params))
                     (q_count Binary64 (fsub Binary64 Gt GL) (uint N - uint L) (lambda params)))
                  (q_count Binary64 Gt (uint N) (lambda params)))
        else fzero)
     \<and> gain_func_float2 GL2 Gt2 L N params =
       (if feasible_count params (uint L) (uint N)
           \<and> feasible_hess params (snd GL2) (snd (minus2 Binary32 Gt2 GL2))
        then fsub Binary32
               (fadd Binary32 (q_hess Binary32 GL2 (lambda params))
                  (q_hess Binary32 (minus2 Binary32 Gt2 GL2) (lambda params)))
               (q_hess Binary32 Gt2 (lambda params))
        else fzero)
     \<and> gain_func_double2 GL2 Gt2 L N params =
       (if feasible_count params (uint L) (uint N)
           \<and> feasible_hess params (snd GL2) (snd (minus2 Binary64 Gt2 GL2))
        then fsub Binary32
               (fadd Binary32 (fcast Binary32 (q_hess Binary64 GL2 (lambda params)))
                  (fcast Binary32 (q_hess Binary64 (minus2 Binary64 Gt2 GL2) (lambda params))))
               (fcast Binary32 (q_hess Binary64 Gt2 (lambda params)))
        else fzero)"
proof
  assume le: "L \<le> N"
  have r: "uint (N - L) = uint N - uint L"
    using le by (rule uint_sub_le)
  have c: "(ucast (min_leaf_size params) \<le> L \<and> ucast (min_leaf_size params) \<le> N - L)
           \<longleftrightarrow> feasible_count params (uint L) (uint N)"
    by (simp add: feasible_count_def ucast_le_uint r)
  show "gain_func_float GL Gt L N params =
       (if feasible_count params (uint L) (uint N)
        then fsub Binary32
               (fadd Binary32 (q_count Binary32 GL (uint L) (lambda params))
                  (q_count Binary32 (fsub Binary32 Gt GL) (uint N - uint L) (lambda params)))
               (q_count Binary32 Gt (uint N) (lambda params))
        else fzero)
     \<and> gain_func_double GL Gt L N params =
       (if feasible_count params (uint L) (uint N)
        then fcast Binary32
               (fsub Binary64
                  (fadd Binary64 (q_count Binary64 GL (uint L) (lambda params))
                     (q_count Binary64 (fsub Binary64 Gt GL) (uint N - uint L) (lambda params)))
                  (q_count Binary64 Gt (uint N) (lambda params)))
        else fzero)
     \<and> gain_func_float2 GL2 Gt2 L N params =
       (if feasible_count params (uint L) (uint N)
           \<and> feasible_hess params (snd GL2) (snd (minus2 Binary32 Gt2 GL2))
        then fsub Binary32
               (fadd Binary32 (q_hess Binary32 GL2 (lambda params))
                  (q_hess Binary32 (minus2 Binary32 Gt2 GL2) (lambda params)))
               (q_hess Binary32 Gt2 (lambda params))
        else fzero)
     \<and> gain_func_double2 GL2 Gt2 L N params =
       (if feasible_count params (uint L) (uint N)
           \<and> feasible_hess params (snd GL2) (snd (minus2 Binary64 Gt2 GL2))
        then fsub Binary32
               (fadd Binary32 (fcast Binary32 (q_hess Binary64 GL2 (lambda params)))
                  (fcast Binary32 (q_hess Binary64 (minus2 Binary64 Gt2 GL2) (lambda params))))
               (fcast Binary32 (q_hess Binary64 Gt2 (lambda params)))
        else fzero)"
    unfolding c [symmetric]
    by (simp add: gain_func_float_def gain_func_double_def gain_func_float2_def
        gain_func_double2_def feasible_hess_def q_count_def q_hess_def Let_def
        f_of_word_int r)
qed

lemma example_gain_feasible:
  "gain_func_float (Fin False 1) (Fin False 3) 1 2
     \<lparr> min_leaf_size = 1, hess = Fin False 0, gamma = Fin False 0, lambda = Fin False 0,
       alpha = Fin False 0 \<rparr> = Fin False (1 / 2)"
  "gain_func_float2 (Fin False 1, Fin False 1) (Fin False 3, Fin False 2) 1 2
     \<lparr> min_leaf_size = 1, hess = Fin False 0, gamma = Fin False 0, lambda = Fin False 0,
       alpha = Fin False 0 \<rparr> = Fin False (1 / 2)"
  by code_simp+

lemma example_feasible_count:
  "feasible_count
     \<lparr> min_leaf_size = 1, hess = Fin False 0, gamma = Fin False 0, lambda = Fin False 0,
       alpha = Fin False 0 \<rparr> 1 2"
  "\<not> feasible_count
     \<lparr> min_leaf_size = 1, hess = Fin False 0, gamma = Fin False 0, lambda = Fin False 0,
       alpha = Fin False 0 \<rparr> 2 2"
  "feasible_hess
     \<lparr> min_leaf_size = 1, hess = Fin False 0, gamma = Fin False 0, lambda = Fin False 0,
       alpha = Fin False 0 \<rparr> (Fin False 1) (Fin False 1)"
  by code_simp+

text \<open>
  A left side of one row out of two, with the aggregates \<open>1\<close> of \<open>3\<close> (and the summed
  Hessians \<open>1\<close> of \<open>2\<close>): the split is feasible and the score is \<open>1 + 4 - 4.5\<close>.  A
  left side of both rows leaves no row on the right: the split is not feasible and the
  gain is \<open>0\<close>.
\<close>

theorem gain_func_is_score_within_total_witness:
  "(1 :: 64 word) \<le> 2
   \<and> feasible_count
       \<lparr> min_leaf_size = 1, hess = Fin False 0, gamma = Fin False 0, lambda = Fin False 0,
         alpha = Fin False 0 \<rparr> 1 2
   \<and> fsub Binary32
        (fadd Binary32 (q_count Binary32 (Fin False 1) 1 (Fin False 0))
           (q_count Binary32 (fsub Binary32 (Fin False 3) (Fin False 1)) (2 - 1) (Fin False 0)))
        (q_count Binary32 (Fin False 3) 2 (Fin False 0))
      = Fin False (1 / 2)
   \<and> feasible_hess
       \<lparr> min_leaf_size = 1, hess = Fin False 0, gamma = Fin False 0, lambda = Fin False 0,
         alpha = Fin False 0 \<rparr> (Fin False 1) (Fin False 1)
   \<and> fsub Binary32
        (fadd Binary32 (q_hess Binary32 (Fin False 1, Fin False 1) (Fin False 0))
           (q_hess Binary32
              (minus2 Binary32 (Fin False 3, Fin False 2) (Fin False 1, Fin False 1))
              (Fin False 0)))
        (q_hess Binary32 (Fin False 3, Fin False 2) (Fin False 0))
      = Fin False (1 / 2)
   \<and> (2 :: 64 word) \<le> 2
   \<and> \<not> feasible_count
       \<lparr> min_leaf_size = 1, hess = Fin False 0, gamma = Fin False 0, lambda = Fin False 0,
         alpha = Fin False 0 \<rparr> 2 2
   \<and> gain_func_float (Fin False 3) (Fin False 3) 2 2
       \<lparr> min_leaf_size = 1, hess = Fin False 0, gamma = Fin False 0, lambda = Fin False 0,
         alpha = Fin False 0 \<rparr> = fzero
   \<and> gain_func_double (Fin False 3) (Fin False 3) 2 2
       \<lparr> min_leaf_size = 1, hess = Fin False 0, gamma = Fin False 0, lambda = Fin False 0,
         alpha = Fin False 0 \<rparr> = fzero
   \<and> gain_func_float2 (Fin False 3, Fin False 2) (Fin False 3, Fin False 2) 2 2
       \<lparr> min_leaf_size = 1, hess = Fin False 0, gamma = Fin False 0, lambda = Fin False 0,
         alpha = Fin False 0 \<rparr> = fzero
   \<and> gain_func_double2 (Fin False 3, Fin False 2) (Fin False 3, Fin False 2) 2 2
       \<lparr> min_leaf_size = 1, hess = Fin False 0, gamma = Fin False 0, lambda = Fin False 0,
         alpha = Fin False 0 \<rparr> = fzero"
proof -
  let ?p = "\<lparr> min_leaf_size = 1, hess = Fin False 0, gamma = Fin False 0, lambda = Fin False 0,
         alpha = Fin False 0 \<rparr>"
  have le: "(1 :: 64 word) \<le> 2" "(2 :: 64 word) \<le> 2"
    by simp_all
  have m: "minus2 Binary32 (Fin False 3, Fin False 2) (Fin False 1, Fin False 1)
             = (Fin False 2, Fin False 1)"
    by code_simp
  note a = gain_func_is_score_within_total [of 1 2 "Fin False 1" "Fin False 3" ?p
      "(Fin False 1, Fin False 1)" "(Fin False 3, Fin False 2)"]
  note b = gain_func_is_score_within_total [of 2 2 "Fin False 3" "Fin False 3" ?p
      "(Fin False 3, Fin False 2)" "(Fin False 3, Fin False 2)"]
  have a1: "fsub Binary32
        (fadd Binary32 (q_count Binary32 (Fin False 1) 1 (Fin False 0))
           (q_count Binary32 (fsub Binary32 (Fin False 3) (Fin False 1)) (2 - 1) (Fin False 0)))
        (q_count Binary32 (Fin False 3) 2 (Fin False 0))
      = Fin False (1 / 2)"
    using a le example_feasible_count example_gain_feasible(1)
    by (simp del: fadd.simps fmul.simps fdiv.simps fcast.simps)
  have a3: "fsub Binary32
        (fadd Binary32 (q_hess Binary32 (Fin False 1, Fin False 1) (Fin False 0))
           (q_hess Binary32
              (minus2 Binary32 (Fin False 3, Fin False 2) (Fin False 1, Fin False 1))
              (Fin False 0)))
        (q_hess Binary32 (Fin False 3, Fin False 2) (Fin False 0))
      = Fin False (1 / 2)"
    using a le example_feasible_count example_gain_feasible(2) m
    by (simp del: fadd.simps fmul.simps fdiv.simps fcast.simps)
  have b1: "gain_func_float (Fin False 3) (Fin False 3) 2 2 ?p = fzero"
    using b le example_feasible_count by simp
  have b2: "gain_func_double (Fin False 3) (Fin False 3) 2 2 ?p = fzero"
    using b le example_feasible_count by simp
  have b3: "gain_func_float2 (Fin False 3, Fin False 2) (Fin False 3, Fin False 2) 2 2 ?p
              = fzero"
    using b le example_feasible_count by simp
  have b4: "gain_func_double2 (Fin False 3, Fin False 2) (Fin False 3, Fin False 2) 2 2 ?p
              = fzero"
    using b le example_feasible_count by simp
  show ?thesis
    by (intro conjI) (rule le example_feasible_count a1 a3 b1 b2 b3 b4)+
qed

text \<open>
  C3, as the claim states it, fails when the left count exceeds the total count.  With
  \<open>L = 3\<close> and \<open>N_t = 2\<close> the difference \<open>N_t - L\<close> is \<open>-1\<close>, below
  \<^verbatim>\<open>min_leaf_size = 1\<close>, so the split is not feasible; the \<^verbatim>\<open>size_t\<close> difference of the
  source is \<open>2 ^ 64 - 1\<close>, the test passes, and the gain is \<open>1 / 4 - 9 / 3 = - 2.75\<close>.
\<close>

theorem gain_func_left_count_above_total:
  "\<not> feasible_count
       \<lparr> min_leaf_size = 1, hess = Fin False 0, gamma = Fin False 0, lambda = Fin False 1,
         alpha = Fin False 0 \<rparr> 3 2
   \<and> gain_func_float (Fin False 1) (Fin False 3) 3 2
       \<lparr> min_leaf_size = 1, hess = Fin False 0, gamma = Fin False 0, lambda = Fin False 1,
         alpha = Fin False 0 \<rparr>
     = Fin True (11 / 4)"
  by code_simp

lemma fadd_commute: "fadd f x y = fadd f y x"
  by (cases x; cases y) (auto simp: add.commute Let_def)

lemma word_sub_sub: "N - (N - L) = (L :: 64 word)"
  by simp

text \<open>
  C7, as the source has it.  Exchanging the sides leaves the gain as it is whenever
  subtracting the right aggregate from the total gives the left aggregate back, that is
  whenever the rounding of \<open>G_t - G_L\<close> loses nothing of \<open>G_L\<close>.
\<close>

theorem gain_func_symmetric_when_exact:
  "(fsub Binary32 Gt (fsub Binary32 Gt GL) = GL \<longrightarrow>
      gain_func_float GL Gt L N params
        = gain_func_float (fsub Binary32 Gt GL) Gt (N - L) N params)
   \<and> (fsub Binary64 Gt (fsub Binary64 Gt GL) = GL \<longrightarrow>
      gain_func_double GL Gt L N params
        = gain_func_double (fsub Binary64 Gt GL) Gt (N - L) N params)
   \<and> (minus2 Binary32 Gt2 (minus2 Binary32 Gt2 GL2) = GL2 \<longrightarrow>
      gain_func_float2 GL2 Gt2 L N params
        = gain_func_float2 (minus2 Binary32 Gt2 GL2) Gt2 (N - L) N params)
   \<and> (minus2 Binary64 Gt2 (minus2 Binary64 Gt2 GL2) = GL2 \<longrightarrow>
      gain_func_double2 GL2 Gt2 L N params
        = gain_func_double2 (minus2 Binary64 Gt2 GL2) Gt2 (N - L) N params)"
proof (intro conjI impI)
  assume "fsub Binary32 Gt (fsub Binary32 Gt GL) = GL"
  then show "gain_func_float GL Gt L N params
        = gain_func_float (fsub Binary32 Gt GL) Gt (N - L) N params"
    by (simp add: gain_func_float_def Let_def conj_commute
        fadd_commute [of Binary32 "fdiv Binary32 (fmul Binary32 GL GL) z" for z])
next
  assume "fsub Binary64 Gt (fsub Binary64 Gt GL) = GL"
  then show "gain_func_double GL Gt L N params
        = gain_func_double (fsub Binary64 Gt GL) Gt (N - L) N params"
    by (simp add: gain_func_double_def Let_def conj_commute
        fadd_commute [of Binary64 "fdiv Binary64 (fmul Binary64 GL GL) z" for z])
next
  assume "minus2 Binary32 Gt2 (minus2 Binary32 Gt2 GL2) = GL2"
  then show "gain_func_float2 GL2 Gt2 L N params
        = gain_func_float2 (minus2 Binary32 Gt2 GL2) Gt2 (N - L) N params"
    by (auto simp: gain_func_float2_def Let_def
        fadd_commute [of Binary32 "fdiv Binary32 (fmul Binary32 (fst GL2) (fst GL2)) z" for z])
next
  assume "minus2 Binary64 Gt2 (minus2 Binary64 Gt2 GL2) = GL2"
  then show "gain_func_double2 GL2 Gt2 L N params
        = gain_func_double2 (minus2 Binary64 Gt2 GL2) Gt2 (N - L) N params"
    by (auto simp: gain_func_double2_def Let_def
        fadd_commute [of Binary32
          "fcast Binary32 (fdiv Binary64 (fmul Binary64 (fst GL2) (fst GL2)) z)" for z])
qed


lemma example_exact_float:
  "fsub Binary32 (Fin False 3) (fsub Binary32 (Fin False 3) (Fin False 1)) = Fin False 1"
  by code_simp

lemma example_exact_double:
  "fsub Binary64 (Fin False 3) (fsub Binary64 (Fin False 3) (Fin False 1)) = Fin False 1"
  by code_simp

lemma example_exact_float2:
  "minus2 Binary32 (Fin False 3, Fin False 2)
     (minus2 Binary32 (Fin False 3, Fin False 2) (Fin False 1, Fin False 1))
   = (Fin False 1, Fin False 1)"
  by code_simp

lemma example_exact_double2:
  "minus2 Binary64 (Fin False 3, Fin False 2)
     (minus2 Binary64 (Fin False 3, Fin False 2) (Fin False 1, Fin False 1))
   = (Fin False 1, Fin False 1)"
  by code_simp

text \<open>Left aggregate \<open>1\<close> (or \<open>(1, 1)\<close>) of one row, total \<open>3\<close> (or \<open>(3, 2)\<close>) of two rows.\<close>

theorem gain_func_symmetric_when_exact_witness:
  "fsub Binary32 (Fin False 3) (fsub Binary32 (Fin False 3) (Fin False 1)) = Fin False 1
   \<and> gain_func_float (Fin False 1) (Fin False 3) 1 2
         \<lparr> min_leaf_size = 1, hess = Fin False 0, gamma = Fin False 0, lambda = Fin False 0,
           alpha = Fin False 0 \<rparr>
       = gain_func_float (fsub Binary32 (Fin False 3) (Fin False 1)) (Fin False 3) (2 - 1) 2
         \<lparr> min_leaf_size = 1, hess = Fin False 0, gamma = Fin False 0, lambda = Fin False 0,
           alpha = Fin False 0 \<rparr>
   \<and> fsub Binary64 (Fin False 3) (fsub Binary64 (Fin False 3) (Fin False 1)) = Fin False 1
   \<and> gain_func_double (Fin False 1) (Fin False 3) 1 2
         \<lparr> min_leaf_size = 1, hess = Fin False 0, gamma = Fin False 0, lambda = Fin False 0,
           alpha = Fin False 0 \<rparr>
       = gain_func_double (fsub Binary64 (Fin False 3) (Fin False 1)) (Fin False 3) (2 - 1) 2
         \<lparr> min_leaf_size = 1, hess = Fin False 0, gamma = Fin False 0, lambda = Fin False 0,
           alpha = Fin False 0 \<rparr>
   \<and> minus2 Binary32 (Fin False 3, Fin False 2)
         (minus2 Binary32 (Fin False 3, Fin False 2) (Fin False 1, Fin False 1))
       = (Fin False 1, Fin False 1)
   \<and> gain_func_float2 (Fin False 1, Fin False 1) (Fin False 3, Fin False 2) 1 2
         \<lparr> min_leaf_size = 1, hess = Fin False 0, gamma = Fin False 0, lambda = Fin False 0,
           alpha = Fin False 0 \<rparr>
       = gain_func_float2 (minus2 Binary32 (Fin False 3, Fin False 2) (Fin False 1, Fin False 1))
         (Fin False 3, Fin False 2) (2 - 1) 2
         \<lparr> min_leaf_size = 1, hess = Fin False 0, gamma = Fin False 0, lambda = Fin False 0,
           alpha = Fin False 0 \<rparr>
   \<and> minus2 Binary64 (Fin False 3, Fin False 2)
         (minus2 Binary64 (Fin False 3, Fin False 2) (Fin False 1, Fin False 1))
       = (Fin False 1, Fin False 1)
   \<and> gain_func_double2 (Fin False 1, Fin False 1) (Fin False 3, Fin False 2) 1 2
         \<lparr> min_leaf_size = 1, hess = Fin False 0, gamma = Fin False 0, lambda = Fin False 0,
           alpha = Fin False 0 \<rparr>
       = gain_func_double2 (minus2 Binary64 (Fin False 3, Fin False 2) (Fin False 1, Fin False 1))
         (Fin False 3, Fin False 2) (2 - 1) 2
         \<lparr> min_leaf_size = 1, hess = Fin False 0, gamma = Fin False 0, lambda = Fin False 0,
           alpha = Fin False 0 \<rparr>"
  using gain_func_symmetric_when_exact [of "Fin False 3" "Fin False 1" 1 2
      "\<lparr> min_leaf_size = 1, hess = Fin False 0, gamma = Fin False 0, lambda = Fin False 0,
         alpha = Fin False 0 \<rparr>" "(Fin False 3, Fin False 2)" "(Fin False 1, Fin False 1)"]
    example_exact_float example_exact_double example_exact_float2 example_exact_double2
  by blast

text \<open>
  C7, as the claim states it, fails in floating-point arithmetic.  With summed Hessians
  \<open>1\<close> on the left and \<open>2 ^ 25\<close> in total, the right Hessian \<open>2 ^ 25 - 1\<close> is
  rounded to \<open>2 ^ 25\<close>; after the exchange the new right Hessian is
  \<open>2 ^ 25 - 2 ^ 25 = 0\<close>, below \<^verbatim>\<open>min_child_weight = 1\<close>, and the gain is \<open>0\<close> instead
  of \<open>2047 / 2048\<close>.  With gradient sums \<open>1\<close> of one row and \<open>2 ^ 25\<close> of
  \<open>2 ^ 27 + 1\<close> rows, the gain is \<open>1\<close> and the gain of the exchanged sides is \<open>0\<close>.
\<close>

theorem gain_func_not_symmetric:
  "gain_func_float2 (Fin False 1, Fin False 1) (Fin False 8192, Fin False 33554432) 1 4
       \<lparr> min_leaf_size = 1, hess = Fin False 1, gamma = Fin False 0, lambda = Fin False 0,
         alpha = Fin False 0 \<rparr>
     = Fin False (2047 / 2048)
   \<and> gain_func_float2
       (minus2 Binary32 (Fin False 8192, Fin False 33554432) (Fin False 1, Fin False 1))
       (Fin False 8192, Fin False 33554432) (4 - 1) 4
       \<lparr> min_leaf_size = 1, hess = Fin False 1, gamma = Fin False 0, lambda = Fin False 0,
         alpha = Fin False 0 \<rparr>
     = Fin False 0
   \<and> gain_func_float (Fin False 1) (Fin False 33554432) 1 134217729
       \<lparr> min_leaf_size = 1, hess = Fin False 0, gamma = Fin False 0, lambda = Fin False 0,
         alpha = Fin False 0 \<rparr>
     = Fin False 1
   \<and> gain_func_float (fsub Binary32 (Fin False 33554432) (Fin False 1)) (Fin False 33554432)
       (134217729 - 1) 134217729
       \<lparr> min_leaf_size = 1, hess = Fin False 0, gamma = Fin False 0, lambda = Fin False 0,
         alpha = Fin False 0 \<rparr>
     = Fin False 0"
  by code_simp

subsection \<open>Rounding and representable values\<close>

text \<open>
  Rounding to a format is idempotent, so the result of every arithmetic operation is
  representable in the format of the operation; subtracting a zero from a representable
  value returns the value.
\<close>

lemma pow2_powi: "pow2 k = 2 powi k"
  by (simp add: pow2_def power_int_def inverse_eq_divide power_one_over)

lemma pow2_pos: "0 < pow2 k"
  by (simp add: pow2_powi)

lemma pow2_add: "pow2 (a + b) = pow2 a * pow2 b"
  by (simp add: pow2_powi power_int_add)

lemma pow2_less_iff: "pow2 a < pow2 b \<longleftrightarrow> a < b"
proof
  assume "a < b"
  then show "pow2 a < pow2 b"
    by (simp add: pow2_powi power_int_strict_increasing)
next
  assume l: "pow2 a < pow2 b"
  show "a < b"
  proof (rule ccontr)
    assume "\<not> a < b"
    then have "b \<le> a" by simp
    then have "pow2 b \<le> pow2 a"
      by (simp add: pow2_powi power_int_increasing)
    with l show False by simp
  qed
qed

lemma pow2_le_iff: "pow2 a \<le> pow2 b \<longleftrightarrow> a \<le> b"
  using pow2_less_iff [of b a] by (auto simp: not_less [symmetric])

lemma pow2_nat: "0 \<le> k \<Longrightarrow> pow2 k = 2 ^ nat k"
  by (simp add: pow2_def)

lemma floor_log2_bounds:
  assumes "0 < r"
  shows "pow2 (floor_log2 r) \<le> r \<and> r < pow2 (floor_log2 r + 1)"
proof -
  obtain p q where pq: "quotient_of r = (p, q)"
    by (cases "quotient_of r")
  have q: "0 < q" using pq by (rule quotient_of_denom_pos)
  have r: "r = of_int p / of_int q" using pq by (rule quotient_of_div)
  have p: "0 < p"
    using assms q r by (simp add: zero_less_divide_iff)
  define a where "a = bitlen p"
  define b where "b = bitlen q"
  have a1: "1 \<le> a" and b1: "1 \<le> b"
    using p q by (auto simp: a_def b_def bitlen_alt_def)
  have pb: "2 ^ nat (a - 1) \<le> p" "p < 2 ^ nat a"
    using bitlen_bounds [OF p] by (auto simp: a_def)
  have qb: "2 ^ nat (b - 1) \<le> q" "q < 2 ^ nat b"
    using bitlen_bounds [OF q] by (auto simp: b_def)
  have pr: "pow2 (a - 1) \<le> of_int p" "of_int p < pow2 a"
  proof -
    have "(of_int (2 ^ nat (a - 1)) :: rat) \<le> of_int p"
      using pb(1) by (simp only: of_int_le_iff)
    then show "pow2 (a - 1) \<le> of_int p"
      using a1 by (simp add: pow2_nat)
    have "(of_int p :: rat) < of_int (2 ^ nat a)"
      using pb(2) by (simp only: of_int_less_iff)
    then show "of_int p < pow2 a"
      using a1 by (simp add: pow2_nat)
  qed
  have qr: "pow2 (b - 1) \<le> of_int q" "of_int q < pow2 b"
  proof -
    have "(of_int (2 ^ nat (b - 1)) :: rat) \<le> of_int q"
      using qb(1) by (simp only: of_int_le_iff)
    then show "pow2 (b - 1) \<le> of_int q"
      using b1 by (simp add: pow2_nat)
    have "(of_int q :: rat) < of_int (2 ^ nat b)"
      using qb(2) by (simp only: of_int_less_iff)
    then show "of_int q < pow2 b"
      using b1 by (simp add: pow2_nat)
  qed
  have qpos: "(0 :: rat) < of_int q" using q by simp
  have up: "r < pow2 (a - b + 1)"
  proof -
    have "of_int p < pow2 a" by (rule pr(2))
    also have "pow2 a = pow2 (a - b + 1) * pow2 (b - 1)"
      unfolding pow2_add [symmetric] by (rule arg_cong [where f = pow2]) simp
    also have "\<dots> \<le> pow2 (a - b + 1) * of_int q"
      using qr(1) pow2_pos [of "a - b + 1"] by (simp add: mult_left_mono)
    finally show ?thesis
      using qpos by (simp add: r pos_divide_less_eq)
  qed
  have lo: "pow2 (a - b - 1) < r"
  proof -
    have "pow2 (a - b - 1) * of_int q < pow2 (a - b - 1) * pow2 b"
      using qr(2) pow2_pos [of "a - b - 1"] by (simp add: mult_strict_left_mono)
    also have "\<dots> = pow2 (a - 1)"
      unfolding pow2_add [symmetric] by (rule arg_cong [where f = pow2]) simp
    also have "\<dots> \<le> of_int p" by (rule pr(1))
    finally show ?thesis
      using qpos by (simp add: r pos_less_divide_eq)
  qed
  show ?thesis
  proof (cases "pow2 (a - b) \<le> r")
    case True
    then have "floor_log2 r = a - b"
      by (simp add: floor_log2_def pq a_def b_def)
    then show ?thesis using True up by simp
  next
    case False
    then have "floor_log2 r = a - b - 1"
      by (simp add: floor_log2_def pq a_def b_def)
    then show ?thesis using False lo by simp
  qed
qed

lemma floor_log2_unique:
  assumes "pow2 k \<le> r" and "r < pow2 (k + 1)"
  shows "floor_log2 r = k"
proof -
  have r: "0 < r" using assms(1) pow2_pos [of k] by simp
  note b = floor_log2_bounds [OF r]
  have "pow2 k < pow2 (floor_log2 r + 1)" using assms(1) b by simp
  then have 1: "k \<le> floor_log2 r" by (simp add: pow2_less_iff)
  have "pow2 (floor_log2 r) < pow2 (k + 1)" using assms(2) b by simp
  then have 2: "floor_log2 r \<le> k" by (simp add: pow2_less_iff)
  show ?thesis using 1 2 by simp
qed

lemma round_half_even_of_int: "round_half_even (of_int n) = n"
  by (simp add: round_half_even_def)

lemma round_half_even_le:
  assumes "x \<le> of_int k"
  shows "round_half_even x \<le> k"
proof -
  have f: "\<lfloor>x\<rfloor> \<le> k" using assms by (simp add: floor_le_iff) 
  show ?thesis
  proof (cases "\<lfloor>x\<rfloor> = k")
    case True
    then have "x - of_int \<lfloor>x\<rfloor> \<le> 0" using assms by simp
    then show ?thesis using True by (simp add: round_half_even_def Let_def)
  next
    case False
    then have "\<lfloor>x\<rfloor> + 1 \<le> k" using f by simp
    then show ?thesis by (auto simp: round_half_even_def Let_def)
  qed
qed

lemma round_half_even_nonneg: "0 \<le> x \<Longrightarrow> 0 \<le> round_half_even x"
  by (auto simp: round_half_even_def Let_def)



lemma prec_pos: "1 \<le> prec f"
  by (cases f) auto

lemma emin_le: "emin f \<le> max e (emin f)"
  by simp

lemma fround_Fin_sign: "fround f s r = Fin t v \<Longrightarrow> t = s"
  by (auto simp: fround_def Let_def split: if_splits)

lemma fround_Fin_nonneg:
  assumes "0 \<le> r" and "fround f s r = Fin t v"
  shows "0 \<le> v"
proof (cases "r = 0")
  case True
  then show ?thesis using assms by (simp add: fround_def)
next
  case False
  define e where "e = max (floor_log2 r) (emin f)"
  define q where "q = pow2 (e - (prec f - 1))"
  have "0 \<le> r / q" using assms(1) pow2_pos [of "e - (prec f - 1)"] by (simp add: q_def)
  then have "0 \<le> round_half_even (r / q)" by (rule round_half_even_nonneg)
  moreover have "v = of_int (round_half_even (r / q)) * q"
    using assms(2) False by (auto simp: fround_def Let_def e_def q_def split: if_splits)
  ultimately show ?thesis
    using pow2_pos [of "e - (prec f - 1)"] by (simp add: q_def)
qed

lemma fround_idem:
  assumes "0 \<le> r" and "fround f s r = Fin t v"
  shows "fround f t v = Fin t v"
proof (cases "r = 0")
  case True
  then show ?thesis using assms by (auto simp: fround_def)
next
  case False
  then have rpos: "0 < r" using assms(1) by simp
  define P where "P = prec f - 1"
  define e where "e = max (floor_log2 r) (emin f)"
  define q where "q = pow2 (e - P)"
  define n where "n = round_half_even (r / q)"
  have P0: "0 \<le> P" using prec_pos [of f] by (simp add: P_def)
  have qpos: "0 < q" by (simp add: q_def pow2_pos)
  have v: "v = of_int n * q" and nov: "\<not> pow2 (emax f + 1) \<le> v"
    using assms(2) False
    by (auto simp: fround_def Let_def e_def q_def n_def P_def split: if_splits)
  have n0: "0 \<le> n"
    unfolding n_def using rpos qpos by (intro round_half_even_nonneg) simp
  have ee: "emin f \<le> e" by (simp add: e_def)
  have "r < pow2 (floor_log2 r + 1)" using floor_log2_bounds [OF rpos] by simp
  also have "\<dots> \<le> pow2 (e + 1)" by (simp add: pow2_le_iff e_def)
  also have "\<dots> = pow2 (P + 1) * q"
    unfolding q_def pow2_add [symmetric] by (rule arg_cong [where f = pow2]) simp
  finally have "r / q < pow2 (P + 1)" using qpos by (simp add: pos_divide_less_eq)
  then have "r / q \<le> of_int (2 ^ nat (P + 1))"
    using P0 by (simp add: pow2_nat)
  then have nle: "n \<le> 2 ^ nat (P + 1)"
    unfolding n_def by (rule round_half_even_le)
  show ?thesis
  proof (cases "n = 0")
    case True
    then show ?thesis by (simp add: v fround_def)
  next
    case False
    then have npos: "0 < n" using n0 by simp
    then have vpos: "0 < v" using qpos by (simp add: v)
    define e' where "e' = max (floor_log2 v) (emin f)"
    define q' where "q' = pow2 (e' - P)"
    have q'pos: "0 < q'" by (simp add: q'_def pow2_pos)
    have vle: "v \<le> pow2 (e + 1)"
    proof -
      have "of_int n \<le> (of_int (2 ^ nat (P + 1)) :: rat)"
        using nle by (simp only: of_int_le_iff)
      then have "of_int n \<le> pow2 (P + 1)" using P0 by (simp add: pow2_nat)
      then have "v \<le> pow2 (P + 1) * q" using qpos by (simp add: v)
      also have "pow2 (P + 1) * q = pow2 (e + 1)"
        unfolding q_def pow2_add [symmetric] by (rule arg_cong [where f = pow2]) simp
      finally show ?thesis .
    qed
    have "pow2 (floor_log2 v) \<le> v" using floor_log2_bounds [OF vpos] by simp
    then have "pow2 (floor_log2 v) \<le> pow2 (e + 1)" using vle by simp
    then have flv: "floor_log2 v \<le> e + 1" by (simp add: pow2_le_iff)
    have e'le: "e' \<le> e + 1" using flv ee by (simp add: e'_def)
    have "\<exists>m :: int. v / q' = of_int m"
    proof (cases "e' \<le> e")
      case True
      have "v / q' = of_int n * (pow2 (e - P) / pow2 (e' - P))"
        by (simp add: v q_def q'_def)
      also have "pow2 (e - P) = pow2 (e - e') * pow2 (e' - P)"
        unfolding pow2_add [symmetric] by (rule arg_cong [where f = pow2]) simp
      also have "of_int n * (pow2 (e - e') * pow2 (e' - P) / pow2 (e' - P))
                   = of_int n * pow2 (e - e')"
        using pow2_pos [of "e' - P"] by simp
      also have "\<dots> = of_int (n * 2 ^ nat (e - e'))"
        using True by (simp add: pow2_nat)
      finally show ?thesis by blast
    next
      case False
      then have e'eq: "e' = e + 1" using e'le by simp
      then have "floor_log2 v = e + 1" using ee by (simp add: e'_def max_def split: if_splits)
      then have "pow2 (e + 1) \<le> v" using floor_log2_bounds [OF vpos] by simp
      then have veq: "v = pow2 (e + 1)" using vle by simp
      have "v / q' = pow2 (e + 1) / pow2 (e + 1 - P)"
        by (simp add: veq q'_def e'eq)
      also have "pow2 (e + 1) = pow2 P * pow2 (e + 1 - P)"
        unfolding pow2_add [symmetric] by (rule arg_cong [where f = pow2]) simp
      also have "pow2 P * pow2 (e + 1 - P) / pow2 (e + 1 - P) = pow2 P"
        using pow2_pos [of "e + 1 - P"] by simp
      also have "\<dots> = of_int (2 ^ nat P)"
        using P0 by (simp add: pow2_nat)
      finally show ?thesis by blast
    qed
    then obtain m :: int where m: "v / q' = of_int m" by blast
    have "of_int (round_half_even (v / q')) * q' = v"
      using m q'pos by (simp add: round_half_even_of_int nonzero_divide_eq_eq)
    then show ?thesis
      using vpos nov by (simp add: fround_def Let_def e'_def q'_def P_def)
  qed
qed



lemma representable_fround: "0 \<le> r \<Longrightarrow> representable f (fround f s r)"
proof (cases "fround f s r")
  case (Fin t v)
  assume "0 \<le> r"
  then show ?thesis
    using Fin fround_idem [of r f s t v] fround_Fin_nonneg [of r f s t v]
    by (simp add: representable_def well_formed_def)
qed (simp_all add: representable_def well_formed_def)

lemma representable_fadd:
  "well_formed x \<Longrightarrow> well_formed y \<Longrightarrow> representable f (fadd f x y)"
proof (cases x; cases y)
  fix s a t b
  assume x: "x = Fin s a" and y: "y = Fin t b"
  show "representable f (fadd f x y)"
  proof (cases "sval s a + sval t b = 0")
    case True
    then show ?thesis
      by (simp add: x y representable_def well_formed_def fround_def)
  next
    case False
    then show ?thesis
      using representable_fround [of "\<bar>sval s a + sval t b\<bar>" f "sval s a + sval t b < 0"]
      by (simp add: x y Let_def)
  qed
qed (simp_all add: representable_def well_formed_def)

lemma well_formed_fneg: "well_formed (fneg x) = well_formed x"
  by (cases x) (simp_all add: well_formed_def)

lemma representable_fsub:
  "well_formed x \<Longrightarrow> well_formed y \<Longrightarrow> representable f (fsub f x y)"
  by (simp add: fsub_def representable_fadd well_formed_fneg)

lemma representable_simple:
  "representable f NaN" "representable f (Inf s)" "representable f (Fin s 0)"
  by (simp_all add: representable_def well_formed_def fround_def)

lemma representable_fmul:
  "well_formed x \<Longrightarrow> well_formed y \<Longrightarrow> representable f (fmul f x y)"
  by (cases x; cases y)
    (auto simp: representable_fround representable_simple well_formed_def)

lemma representable_fdiv:
  "well_formed x \<Longrightarrow> well_formed y \<Longrightarrow> representable f (fdiv f x y)"
  by (cases x; cases y)
    (auto simp: representable_fround representable_simple well_formed_def)

lemma representable_fcast: "well_formed x \<Longrightarrow> representable f (fcast f x)"
  by (cases x) (auto simp: representable_fround representable_simple well_formed_def)

lemma representable_f_of_word: "representable f (f_of_word f n)"
  unfolding f_of_word_def by (rule representable_fround) (simp del: of_int_uint)

lemma representable_well_formed: "representable f x \<Longrightarrow> well_formed x"
  by (simp add: representable_def)


lemma well_formed_ops:
  "well_formed x \<Longrightarrow> well_formed y \<Longrightarrow> well_formed (fadd f x y)"
  "well_formed x \<Longrightarrow> well_formed y \<Longrightarrow> well_formed (fsub f x y)"
  "well_formed x \<Longrightarrow> well_formed y \<Longrightarrow> well_formed (fmul f x y)"
  "well_formed x \<Longrightarrow> well_formed y \<Longrightarrow> well_formed (fdiv f x y)"
  "well_formed x \<Longrightarrow> well_formed (fcast f x)"
  "well_formed (f_of_word f n)"
  using representable_fadd [of x y f] representable_fsub [of x y f] representable_fmul [of x y f]
    representable_fdiv [of x y f] representable_fcast [of x f] representable_f_of_word [of f n]
  by (simp_all add: representable_def)

text \<open>Subtracting a zero from a datum of the format gives the datum.\<close>

lemma fsub_zero:
  assumes "representable f x"
  shows "fsub f x (Fin b 0) = x \<or> (\<exists>s. x = Fin s 0)"
proof (cases x)
  case (Fin s a)
  show ?thesis
  proof (cases "a = 0")
    case True
    then show ?thesis using Fin by simp
  next
    case False
    then have a: "0 < a" using assms Fin by (simp add: representable_def well_formed_def)
    have "fround f s a = x" using assms Fin by (simp add: representable_def)
    then show ?thesis
      using a Fin by (cases s) (simp_all add: fsub_def sval_def)
  qed
qed (simp_all add: fsub_def)

lemma fsub_plus_zero:
  assumes "representable f x"
  shows "fsub f x (Fin False 0) = x"
proof (cases x)
  case (Fin s a)
  show ?thesis
  proof (cases "a = 0")
    case True
    then show ?thesis using Fin by (simp add: fsub_def sval_def)
  next
    case False
    then show ?thesis using fsub_zero [OF assms, of False] Fin by auto
  qed
qed (simp_all add: fsub_def)

lemma zero_or_nan_not_positive: "zero_or_nan x \<Longrightarrow> \<not> fgt x fzero"
  by (cases x) (auto simp: zero_or_nan_def fgt_def fzero_def sval_def)

lemma zero_or_nan_fcast: "zero_or_nan x \<Longrightarrow> zero_or_nan (fcast f x)"
  by (cases x) (auto simp: zero_or_nan_def fround_def)

lemma zero_or_nan_fdiv_zero: "zero_or_nan (fdiv f (Fin s 0) d)"
  by (cases d) (auto simp: zero_or_nan_def fround_def)

lemma fmul_zero_zero: "fmul f (Fin s 0) (Fin t 0) = Fin (s \<noteq> t) 0"
  by (simp add: fround_def)

text \<open>Adding a zero or a NaN to a datum of the format and subtracting the datum again.\<close>

lemma zero_or_nan_add_sub:
  assumes "zero_or_nan l" and "representable f r"
  shows "zero_or_nan (fsub f (fadd f l r) r)"
proof (cases l)
  case NaN
  then show ?thesis by (simp add: fsub_def zero_or_nan_def)
next
  case (Inf s)
  then show ?thesis using assms(1) by (simp add: zero_or_nan_def)
next
  case (Fin s a)
  then have l: "l = Fin s 0" using assms(1) by (simp add: zero_or_nan_def)
  show ?thesis
  proof (cases r)
    case NaN
    then show ?thesis by (simp add: l fsub_def zero_or_nan_def)
  next
    case (Inf t)
    then show ?thesis by (simp add: l fsub_def zero_or_nan_def)
  next
    case (Fin t b)
    show ?thesis
    proof (cases "b = 0")
      case True
      then show ?thesis by (simp add: l Fin fsub_def zero_or_nan_def sval_def)
    next
      case False
      then have b: "0 < b" using assms(2) Fin by (simp add: representable_def well_formed_def)
      have "fround f t b = Fin t b" using assms(2) Fin by (simp add: representable_def)
      then have "fadd f l r = Fin t b"
        using b by (cases t) (simp_all add: l Fin sval_def)
      then show ?thesis
        by (simp add: Fin fsub_def zero_or_nan_def sval_def)
    qed
  qed
qed

subsection \<open>The gain of an empty left side\<close>

text \<open>
  With left sum \<open>0\<close> and left count \<open>0\<close> the right side carries the whole total, and
  each overload of \<^verbatim>\<open>gain_func\<close> returns a zero or NaN: either the feasibility test
  fails, or the term of the right side and the term of the total are the same rounded
  value and cancel.
\<close>

lemma gain_func_float_empty_left:
  assumes "representable Binary32 T" and "well_formed (lambda params)"
  shows "zero_or_nan (gain_func_float (Fin False 0) T 0 N params)"
proof -
  let ?d = "fadd Binary32 (f_of_word Binary32 N) (lambda params)"
  let ?r = "fdiv Binary32 (fmul Binary32 T T) ?d"
  have T: "fsub Binary32 T (Fin False 0) = T"
    using assms(1) by (rule fsub_plus_zero)
  have wT: "well_formed T"
    using assms(1) by (rule representable_well_formed)
  have "well_formed (fmul Binary32 T T)"
    using wT by (simp add: well_formed_ops)
  moreover have "well_formed ?d"
    using assms(2) by (simp add: well_formed_ops)
  ultimately have r: "representable Binary32 ?r"
    by (rule representable_fdiv)
  have l: "zero_or_nan (fdiv Binary32 (fmul Binary32 (Fin False 0) (Fin False 0)) d)" for d
    by (simp only: fmul_zero_zero zero_or_nan_fdiv_zero)
  show ?thesis
    using zero_or_nan_add_sub [OF l r]
    by (simp add: gain_func_float_def Let_def T zero_or_nan_def fzero_def del: fmul.simps)
qed

lemma gain_func_double_empty_left:
  assumes "representable Binary64 T" and "well_formed (lambda params)"
  shows "zero_or_nan (gain_func_double (Fin False 0) T 0 N params)"
proof -
  let ?d = "fadd Binary32 (f_of_word Binary32 N) (lambda params)"
  let ?r = "fdiv Binary64 (fmul Binary64 T T) ?d"
  have T: "fsub Binary64 T (Fin False 0) = T"
    using assms(1) by (rule fsub_plus_zero)
  have wT: "well_formed T"
    using assms(1) by (rule representable_well_formed)
  have "well_formed (fmul Binary64 T T)"
    using wT by (simp add: well_formed_ops)
  moreover have "well_formed ?d"
    using assms(2) by (simp add: well_formed_ops)
  ultimately have r: "representable Binary64 ?r"
    by (rule representable_fdiv)
  have l: "zero_or_nan (fdiv Binary64 (fmul Binary64 (Fin False 0) (Fin False 0)) d)" for d
    by (simp only: fmul_zero_zero zero_or_nan_fdiv_zero)
  show ?thesis
    using zero_or_nan_fcast [OF zero_or_nan_add_sub [OF l r], of Binary32]
    by (simp add: gain_func_double_def Let_def T zero_or_nan_def fzero_def del: fmul.simps fcast.simps)
qed

lemma minus2_plus_zero:
  assumes "representable f (fst T)" and "representable f (snd T)"
  shows "minus2 f T (Fin False 0, Fin False 0) = T"
  using assms by (simp add: minus2_def fsub_plus_zero)

lemma gain_func_float2_empty_left:
  assumes "representable Binary32 (fst T)" and "representable Binary32 (snd T)"
    and "well_formed (lambda params)"
  shows "zero_or_nan (gain_func_float2 (Fin False 0, Fin False 0) T 0 N params)"
proof -
  let ?d = "fadd Binary32 (snd T) (lambda params)"
  let ?r = "fdiv Binary32 (fmul Binary32 (fst T) (fst T)) ?d"
  have T: "minus2 Binary32 T (Fin False 0, Fin False 0) = T"
    using assms(1,2) by (rule minus2_plus_zero)
  have "well_formed (fmul Binary32 (fst T) (fst T))"
    using assms(1) by (simp add: well_formed_ops representable_well_formed)
  moreover have "well_formed ?d"
    using assms(2,3) by (simp add: well_formed_ops representable_well_formed)
  ultimately have r: "representable Binary32 ?r"
    by (rule representable_fdiv)
  have l: "zero_or_nan (fdiv Binary32 (fmul Binary32 (Fin False 0) (Fin False 0)) d)" for d
    by (simp only: fmul_zero_zero zero_or_nan_fdiv_zero)
  show ?thesis
    using zero_or_nan_add_sub [OF l r]
    by (simp add: gain_func_float2_def Let_def T zero_or_nan_def fzero_def del: fmul.simps)
qed

lemma gain_func_double2_empty_left:
  assumes "representable Binary64 (fst T)" and "representable Binary64 (snd T)"
    and "well_formed (lambda params)"
  shows "zero_or_nan (gain_func_double2 (Fin False 0, Fin False 0) T 0 N params)"
proof -
  let ?d = "fadd Binary64 (snd T) (lambda params)"
  let ?r = "fcast Binary32 (fdiv Binary64 (fmul Binary64 (fst T) (fst T)) ?d)"
  have T: "minus2 Binary64 T (Fin False 0, Fin False 0) = T"
    using assms(1,2) by (rule minus2_plus_zero)
  have "well_formed (fmul Binary64 (fst T) (fst T))"
    using assms(1) by (simp add: well_formed_ops representable_well_formed)
  moreover have "well_formed ?d"
    using assms(2,3) by (simp add: well_formed_ops representable_well_formed)
  ultimately have "well_formed (fdiv Binary64 (fmul Binary64 (fst T) (fst T)) ?d)"
    by (simp add: well_formed_ops)
  then have r: "representable Binary32 ?r"
    by (rule representable_fcast)
  have l: "zero_or_nan (fcast Binary32
             (fdiv Binary64 (fmul Binary64 (Fin False 0) (Fin False 0)) d))" for d
    by (intro zero_or_nan_fcast) (simp only: fmul_zero_zero zero_or_nan_fdiv_zero)
  show ?thesis
    using zero_or_nan_add_sub [OF l r]
    by (simp add: gain_func_double2_def Let_def T zero_or_nan_def fzero_def
        del: fmul.simps fcast.simps)
qed

subsection \<open>The gain kernel\<close>

lemma feq_minus_infinity: "feq x (Inf True) \<longleftrightarrow> x = Inf True"
  by (cases x) auto

lemma fsub_zero_zero: "fsub f (Fin False 0) (Fin False 0) = Fin False 0"
  by (simp add: fsub_def sval_def)

lemma gain_kernel_gain_position_0:
  assumes "gain_kernel_gain sub_s gain_fn left_sum fvalues segments parent_sum_iter
             parent_count_iter parameters 0 = Some (Some (segment, g))"
    and "parent_count_iter ! (segments ! 0) = 0"
  shows "\<exists>N. g = gain_fn (sub_s (left_sum ! 0) (parent_sum_iter ! (segments ! 0)))
                  (sub_s (parent_sum_iter ! (segments ! 0 + 1)) (parent_sum_iter ! (segments ! 0)))
                  0 N parameters"
  using assms
  by (auto simp: gain_kernel_gain_def read_Some Let_def split: Option.bind_splits if_splits)

lemma gain_kernel_body_unchanged:
  assumes "gain_kernel_body sub_s gain_fn left_sum fvalues segments parent_sum_iter
             parent_count_iter parameters i res = Some res'"
    and "\<And>segment g. gain_kernel_gain sub_s gain_fn left_sum fvalues segments parent_sum_iter
             parent_count_iter parameters i = Some (Some (segment, g)) \<Longrightarrow> \<not> fgt g fzero"
  shows "res' = res"
  using assms
  by (auto simp: gain_kernel_body_def split: Option.bind_splits option.splits if_splits)

lemma gain_kernel_float_position_0:
  assumes "gain_kernel_body (fsub Binary32) gain_func_float left_sum fvalues segments
             parent_sum_iter parent_count_iter parameters 0 res = Some res'"
    and "left_sum ! 0 = Fin False 0" and "parent_sum_iter ! (segments ! 0) = Fin False 0"
    and "parent_count_iter ! (segments ! 0) = 0"
    and "well_formed (parent_sum_iter ! (segments ! 0 + 1))"
    and "well_formed (lambda parameters)"
  shows "res' = res"
proof (rule gain_kernel_body_unchanged [OF assms(1)])
  fix segment g
  assume "gain_kernel_gain (fsub Binary32) gain_func_float left_sum fvalues segments
            parent_sum_iter parent_count_iter parameters 0 = Some (Some (segment, g))"
  from gain_kernel_gain_position_0 [OF this assms(4)] obtain N where
    "g = gain_func_float (Fin False 0)
           (fsub Binary32 (parent_sum_iter ! (segments ! 0 + 1)) (Fin False 0)) 0 N parameters"
    by (auto simp: assms(2,3) fsub_zero_zero)
  moreover have "representable Binary32
      (fsub Binary32 (parent_sum_iter ! (segments ! 0 + 1)) (Fin False 0))"
    using assms(5) by (intro representable_fsub) (simp_all add: well_formed_def)
  ultimately have "zero_or_nan g"
    using assms(6) by (simp add: gain_func_float_empty_left)
  then show "\<not> fgt g fzero"
    by (rule zero_or_nan_not_positive)
qed

lemma gain_kernel_double_position_0:
  assumes "gain_kernel_body (fsub Binary64) gain_func_double left_sum fvalues segments
             parent_sum_iter parent_count_iter parameters 0 res = Some res'"
    and "left_sum ! 0 = Fin False 0" and "parent_sum_iter ! (segments ! 0) = Fin False 0"
    and "parent_count_iter ! (segments ! 0) = 0"
    and "well_formed (parent_sum_iter ! (segments ! 0 + 1))"
    and "well_formed (lambda parameters)"
  shows "res' = res"
proof (rule gain_kernel_body_unchanged [OF assms(1)])
  fix segment g
  assume "gain_kernel_gain (fsub Binary64) gain_func_double left_sum fvalues segments
            parent_sum_iter parent_count_iter parameters 0 = Some (Some (segment, g))"
  from gain_kernel_gain_position_0 [OF this assms(4)] obtain N where
    "g = gain_func_double (Fin False 0)
           (fsub Binary64 (parent_sum_iter ! (segments ! 0 + 1)) (Fin False 0)) 0 N parameters"
    by (auto simp: assms(2,3) fsub_zero_zero)
  moreover have "representable Binary64
      (fsub Binary64 (parent_sum_iter ! (segments ! 0 + 1)) (Fin False 0))"
    using assms(5) by (intro representable_fsub) (simp_all add: well_formed_def)
  ultimately have "zero_or_nan g"
    using assms(6) by (simp add: gain_func_double_empty_left)
  then show "\<not> fgt g fzero"
    by (rule zero_or_nan_not_positive)
qed

lemma gain_kernel_float2_position_0:
  assumes "gain_kernel_body (minus2 Binary32) gain_func_float2 left_sum fvalues segments
             parent_sum_iter parent_count_iter parameters 0 res = Some res'"
    and "left_sum ! 0 = (Fin False 0, Fin False 0)"
    and "parent_sum_iter ! (segments ! 0) = (Fin False 0, Fin False 0)"
    and "parent_count_iter ! (segments ! 0) = 0"
    and "well_formed (fst (parent_sum_iter ! (segments ! 0 + 1)))"
    and "well_formed (snd (parent_sum_iter ! (segments ! 0 + 1)))"
    and "well_formed (lambda parameters)"
  shows "res' = res"
proof (rule gain_kernel_body_unchanged [OF assms(1)])
  fix segment g
  let ?T = "minus2 Binary32 (parent_sum_iter ! (segments ! 0 + 1)) (Fin False 0, Fin False 0)"
  assume "gain_kernel_gain (minus2 Binary32) gain_func_float2 left_sum fvalues segments
            parent_sum_iter parent_count_iter parameters 0 = Some (Some (segment, g))"
  from gain_kernel_gain_position_0 [OF this assms(4)] obtain N where
    "g = gain_func_float2 (Fin False 0, Fin False 0) ?T 0 N parameters"
    by (auto simp: assms(2,3) minus2_def fsub_zero_zero)
  moreover have "representable Binary32 (fst ?T)" "representable Binary32 (snd ?T)"
    using assms(5,6) by (simp_all add: minus2_def representable_fsub well_formed_def)
  ultimately have "zero_or_nan g"
    using assms(7) by (simp add: gain_func_float2_empty_left)
  then show "\<not> fgt g fzero"
    by (rule zero_or_nan_not_positive)
qed

lemma gain_kernel_double2_position_0:
  assumes "gain_kernel_body (minus2 Binary64) gain_func_double2 left_sum fvalues segments
             parent_sum_iter parent_count_iter parameters 0 res = Some res'"
    and "left_sum ! 0 = (Fin False 0, Fin False 0)"
    and "parent_sum_iter ! (segments ! 0) = (Fin False 0, Fin False 0)"
    and "parent_count_iter ! (segments ! 0) = 0"
    and "well_formed (fst (parent_sum_iter ! (segments ! 0 + 1)))"
    and "well_formed (snd (parent_sum_iter ! (segments ! 0 + 1)))"
    and "well_formed (lambda parameters)"
  shows "res' = res"
proof (rule gain_kernel_body_unchanged [OF assms(1)])
  fix segment g
  let ?T = "minus2 Binary64 (parent_sum_iter ! (segments ! 0 + 1)) (Fin False 0, Fin False 0)"
  assume "gain_kernel_gain (minus2 Binary64) gain_func_double2 left_sum fvalues segments
            parent_sum_iter parent_count_iter parameters 0 = Some (Some (segment, g))"
  from gain_kernel_gain_position_0 [OF this assms(4)] obtain N where
    "g = gain_func_double2 (Fin False 0, Fin False 0) ?T 0 N parameters"
    by (auto simp: assms(2,3) minus2_def fsub_zero_zero)
  moreover have "representable Binary64 (fst ?T)" "representable Binary64 (snd ?T)"
    using assms(5,6) by (simp_all add: minus2_def representable_fsub well_formed_def)
  ultimately have "zero_or_nan g"
    using assms(7) by (simp add: gain_func_double2_empty_left)
  then show "\<not> fgt g fzero"
    by (rule zero_or_nan_not_positive)
qed

text \<open>
  C2, as the source has it.  The kernel evaluates a gain at position \<open>i\<close> only when
  \<open>fvalues[i + 1]\<close> differs from \<open>fvalues[i]\<close>.  With the sentinel at
  \<open>fvalues[0]\<close>, position \<open>0\<close> is skipped exactly when the first sorted value is
  itself \<open>-\<infinity>\<close>.  A cell changes at a position only when the gain evaluated there is
  above zero.  No cell changes at position \<open>0\<close> when the scan of the gradients and the
  prefix arrays of the leaves start at zero for the leaf of the first row: the left side
  is empty there, and every overload of \<^verbatim>\<open>gain_func\<close> returns a zero or NaN for it.
\<close>

theorem gain_kernel_evaluates_when_values_differ:
  "(gain_kernel_gain sub_s gain_fn left_sum fvalues segments parent_sum_iter parent_count_iter
       parameters i = Some (Some (segment, g))
      \<longrightarrow> fne (fvalues ! (i + 1)) (fvalues ! i))
   \<and> (fvalues ! 0 = Inf True \<longrightarrow>
        (gain_kernel_gain sub_s gain_fn left_sum fvalues segments parent_sum_iter parent_count_iter
           parameters 0 = Some None
         \<longleftrightarrow> 1 < length fvalues \<and> fvalues ! 1 = Inf True))
   \<and> (gain_kernel_body sub_s gain_fn left_sum fvalues segments parent_sum_iter parent_count_iter
         parameters i res = Some res' \<and> res' \<noteq> res
      \<longrightarrow> (\<exists>segment g.
            gain_kernel_gain sub_s gain_fn left_sum fvalues segments parent_sum_iter
              parent_count_iter parameters i = Some (Some (segment, g))
            \<and> fgt g fzero))
   \<and> (parent_count_iter ! (segments ! 0) = 0 \<and> well_formed (lambda parameters)
      \<longrightarrow>
        (left_sums ! 0 = Fin False 0 \<and> parent_sums ! (segments ! 0) = Fin False 0
         \<and> well_formed (parent_sums ! (segments ! 0 + 1))
         \<longrightarrow>
           (gain_kernel_body (fsub Binary32) gain_func_float left_sums fvalues segments
              parent_sums parent_count_iter parameters 0 res = Some res0 \<longrightarrow> res0 = res)
           \<and> (gain_kernel_body (fsub Binary64) gain_func_double left_sums fvalues segments
                parent_sums parent_count_iter parameters 0 res = Some res0 \<longrightarrow> res0 = res))
        \<and> (left_sums2 ! 0 = (Fin False 0, Fin False 0)
           \<and> parent_sums2 ! (segments ! 0) = (Fin False 0, Fin False 0)
           \<and> well_formed (fst (parent_sums2 ! (segments ! 0 + 1)))
           \<and> well_formed (snd (parent_sums2 ! (segments ! 0 + 1)))
           \<longrightarrow>
             (gain_kernel_body (minus2 Binary32) gain_func_float2 left_sums2 fvalues segments
                parent_sums2 parent_count_iter parameters 0 res = Some res0 \<longrightarrow> res0 = res)
             \<and> (gain_kernel_body (minus2 Binary64) gain_func_double2 left_sums2 fvalues segments
                  parent_sums2 parent_count_iter parameters 0 res = Some res0
                \<longrightarrow> res0 = res)))"
proof (intro conjI impI; (elim conjE)?)
  assume "gain_kernel_gain sub_s gain_fn left_sum fvalues segments parent_sum_iter
            parent_count_iter parameters i = Some (Some (segment, g))"
  then show "fne (fvalues ! (i + 1)) (fvalues ! i)"
    by (auto simp: gain_kernel_gain_def read_Some Let_def split: Option.bind_splits if_splits)
next
  assume "fvalues ! 0 = Inf True"
  then show "gain_kernel_gain sub_s gain_fn left_sum fvalues segments parent_sum_iter
               parent_count_iter parameters 0 = Some None
             \<longleftrightarrow> 1 < length fvalues \<and> fvalues ! 1 = Inf True"
    by (auto simp: gain_kernel_gain_def read_def fne_def feq_minus_infinity Let_def
        split: Option.bind_splits if_splits)
next
  assume "gain_kernel_body sub_s gain_fn left_sum fvalues segments parent_sum_iter
            parent_count_iter parameters i res = Some res'" and "res' \<noteq> res"
  then show "\<exists>segment g.
            gain_kernel_gain sub_s gain_fn left_sum fvalues segments parent_sum_iter
              parent_count_iter parameters i = Some (Some (segment, g))
            \<and> fgt g fzero"
    by (auto simp: gain_kernel_body_def split: Option.bind_splits option.splits if_splits)
next
  assume "gain_kernel_body (fsub Binary32) gain_func_float left_sums fvalues segments
            parent_sums parent_count_iter parameters 0 res = Some res0"
    and "left_sums ! 0 = Fin False 0" and "parent_sums ! (segments ! 0) = Fin False 0"
    and "parent_count_iter ! (segments ! 0) = 0"
    and "well_formed (parent_sums ! (segments ! 0 + 1))"
    and "well_formed (lambda parameters)"
  then show "res0 = res"
    by (rule gain_kernel_float_position_0)
next
  assume "gain_kernel_body (fsub Binary64) gain_func_double left_sums fvalues segments
            parent_sums parent_count_iter parameters 0 res = Some res0"
    and "left_sums ! 0 = Fin False 0" and "parent_sums ! (segments ! 0) = Fin False 0"
    and "parent_count_iter ! (segments ! 0) = 0"
    and "well_formed (parent_sums ! (segments ! 0 + 1))"
    and "well_formed (lambda parameters)"
  then show "res0 = res"
    by (rule gain_kernel_double_position_0)
next
  assume "gain_kernel_body (minus2 Binary32) gain_func_float2 left_sums2 fvalues segments
            parent_sums2 parent_count_iter parameters 0 res = Some res0"
    and "left_sums2 ! 0 = (Fin False 0, Fin False 0)"
    and "parent_sums2 ! (segments ! 0) = (Fin False 0, Fin False 0)"
    and "parent_count_iter ! (segments ! 0) = 0"
    and "well_formed (fst (parent_sums2 ! (segments ! 0 + 1)))"
    and "well_formed (snd (parent_sums2 ! (segments ! 0 + 1)))"
    and "well_formed (lambda parameters)"
  then show "res0 = res"
    by (rule gain_kernel_float2_position_0)
next
  assume "gain_kernel_body (minus2 Binary64) gain_func_double2 left_sums2 fvalues segments
            parent_sums2 parent_count_iter parameters 0 res = Some res0"
    and "left_sums2 ! 0 = (Fin False 0, Fin False 0)"
    and "parent_sums2 ! (segments ! 0) = (Fin False 0, Fin False 0)"
    and "parent_count_iter ! (segments ! 0) = 0"
    and "well_formed (fst (parent_sums2 ! (segments ! 0 + 1)))"
    and "well_formed (snd (parent_sums2 ! (segments ! 0 + 1)))"
    and "well_formed (lambda parameters)"
  then show "res0 = res"
    by (rule gain_kernel_double2_position_0)
qed


lemma example_gain_at_2:
  "gain_kernel_gain (fsub Binary32) gain_func_float
     [Fin False 0, Fin True 1, Fin True 2, Fin True 1]
     [Inf True, Fin False 1, Fin False 2, Fin False 3, Fin False 4]
     [0, 0, 0, 0] [Fin False 0, Fin False 0] [0, 4]
     \<lparr> min_leaf_size = 1, hess = Fin False 0, gamma = Fin False 0, lambda = Fin False 0,
       alpha = Fin False 0 \<rparr> 2
   = Some (Some (0, Fin False 4))"
  by code_simp

lemma example_body_at_2:
  "gain_kernel_body (fsub Binary32) gain_func_float
     [Fin False 0, Fin True 1, Fin True 2, Fin True 1]
     [Inf True, Fin False 1, Fin False 2, Fin False 3, Fin False 4]
     [0, 0, 0, 0] [Fin False 0, Fin False 0] [0, 4]
     \<lparr> min_leaf_size = 1, hess = Fin False 0, gamma = Fin False 0, lambda = Fin False 0,
       alpha = Fin False 0 \<rparr> 2 [0]
   = Some [my_atomics 0x40800000 2]"
  by code_simp

lemma example_body_at_0:
  "gain_kernel_body (fsub Binary32) gain_func_float
     [Fin False 0, Fin True 1, Fin True 2, Fin True 1]
     [Inf True, Fin False 1, Fin False 2, Fin False 3, Fin False 4]
     [0, 0, 0, 0] [Fin False 0, Fin False 0] [0, 4]
     \<lparr> min_leaf_size = 1, hess = Fin False 0, gamma = Fin False 0, lambda = Fin False 0,
       alpha = Fin False 0 \<rparr> 0 [0]
   = Some [0]"
  "gain_kernel_body (fsub Binary64) gain_func_double
     [Fin False 0, Fin True 1, Fin True 2, Fin True 1]
     [Inf True, Fin False 1, Fin False 2, Fin False 3, Fin False 4]
     [0, 0, 0, 0] [Fin False 0, Fin False 0] [0, 4]
     \<lparr> min_leaf_size = 1, hess = Fin False 0, gamma = Fin False 0, lambda = Fin False 0,
       alpha = Fin False 0 \<rparr> 0 [0]
   = Some [0]"
  "gain_kernel_body (minus2 Binary32) gain_func_float2
     [(Fin False 0, Fin False 0), (Fin True 1, Fin False 1), (Fin True 2, Fin False 2),
      (Fin True 1, Fin False 3)]
     [Inf True, Fin False 1, Fin False 2, Fin False 3, Fin False 4]
     [0, 0, 0, 0] [(Fin False 0, Fin False 0), (Fin False 0, Fin False 4)] [0, 4]
     \<lparr> min_leaf_size = 1, hess = Fin False 0, gamma = Fin False 0, lambda = Fin False 0,
       alpha = Fin False 0 \<rparr> 0 [0]
   = Some [0]"
  "gain_kernel_body (minus2 Binary64) gain_func_double2
     [(Fin False 0, Fin False 0), (Fin True 1, Fin False 1), (Fin True 2, Fin False 2),
      (Fin True 1, Fin False 3)]
     [Inf True, Fin False 1, Fin False 2, Fin False 3, Fin False 4]
     [0, 0, 0, 0] [(Fin False 0, Fin False 0), (Fin False 0, Fin False 4)] [0, 4]
     \<lparr> min_leaf_size = 1, hess = Fin False 0, gamma = Fin False 0, lambda = Fin False 0,
       alpha = Fin False 0 \<rparr> 0 [0]
   = Some [0]"
  by code_simp+

text \<open>
  One leaf of four rows with the feature values \<open>1, 2, 3, 4\<close> and the gradients
  \<open>-1, -1, 1, 1\<close> (and, for the overloads over pairs, the hessians \<open>1, 1, 1, 1\<close>): the
  gain \<open>4\<close> is evaluated and recorded at position \<open>2\<close>, position \<open>0\<close> is not skipped,
  and the four overloads leave the cell as it is at position \<open>0\<close>.
\<close>

theorem gain_kernel_evaluates_when_values_differ_witness:
  "gain_kernel_gain (fsub Binary32) gain_func_float
     [Fin False 0, Fin True 1, Fin True 2, Fin True 1]
     [Inf True, Fin False 1, Fin False 2, Fin False 3, Fin False 4]
     [0, 0, 0, 0] [Fin False 0, Fin False 0] [0, 4]
     \<lparr> min_leaf_size = 1, hess = Fin False 0, gamma = Fin False 0, lambda = Fin False 0,
       alpha = Fin False 0 \<rparr> 2
   = Some (Some (0, Fin False 4))
   \<and> fne (Fin False 3) (Fin False 2)
   \<and> [Inf True, Fin False 1, Fin False 2, Fin False 3, Fin False 4] ! 0 = Inf True
   \<and> gain_kernel_gain (fsub Binary32) gain_func_float
     [Fin False 0, Fin True 1, Fin True 2, Fin True 1]
     [Inf True, Fin False 1, Fin False 2, Fin False 3, Fin False 4]
     [0, 0, 0, 0] [Fin False 0, Fin False 0] [0, 4]
     \<lparr> min_leaf_size = 1, hess = Fin False 0, gamma = Fin False 0, lambda = Fin False 0,
       alpha = Fin False 0 \<rparr> 0
     \<noteq> Some None
   \<and> gain_kernel_body (fsub Binary32) gain_func_float
     [Fin False 0, Fin True 1, Fin True 2, Fin True 1]
     [Inf True, Fin False 1, Fin False 2, Fin False 3, Fin False 4]
     [0, 0, 0, 0] [Fin False 0, Fin False 0] [0, 4]
     \<lparr> min_leaf_size = 1, hess = Fin False 0, gamma = Fin False 0, lambda = Fin False 0,
       alpha = Fin False 0 \<rparr> 2 [0]
     = Some [my_atomics 0x40800000 2]
   \<and> (\<exists>segment g.
        gain_kernel_gain (fsub Binary32) gain_func_float
          [Fin False 0, Fin True 1, Fin True 2, Fin True 1]
          [Inf True, Fin False 1, Fin False 2, Fin False 3, Fin False 4]
          [0, 0, 0, 0] [Fin False 0, Fin False 0] [0, 4]
          \<lparr> min_leaf_size = 1, hess = Fin False 0, gamma = Fin False 0, lambda = Fin False 0,
            alpha = Fin False 0 \<rparr> 2
        = Some (Some (segment, g)) \<and> fgt g fzero)
   \<and> [0, 4 :: 32 word] ! ([0, 0, 0, 0] ! 0) = 0
   \<and> well_formed (Fin False 0) \<and> well_formed (Fin False 4)
   \<and> gain_kernel_body (fsub Binary32) gain_func_float
     [Fin False 0, Fin True 1, Fin True 2, Fin True 1]
     [Inf True, Fin False 1, Fin False 2, Fin False 3, Fin False 4]
     [0, 0, 0, 0] [Fin False 0, Fin False 0] [0, 4]
     \<lparr> min_leaf_size = 1, hess = Fin False 0, gamma = Fin False 0, lambda = Fin False 0,
       alpha = Fin False 0 \<rparr> 0 [0]
     = Some [0]
   \<and> gain_kernel_body (fsub Binary64) gain_func_double
     [Fin False 0, Fin True 1, Fin True 2, Fin True 1]
     [Inf True, Fin False 1, Fin False 2, Fin False 3, Fin False 4]
     [0, 0, 0, 0] [Fin False 0, Fin False 0] [0, 4]
     \<lparr> min_leaf_size = 1, hess = Fin False 0, gamma = Fin False 0, lambda = Fin False 0,
       alpha = Fin False 0 \<rparr> 0 [0]
     = Some [0]
   \<and> gain_kernel_body (minus2 Binary32) gain_func_float2
     [(Fin False 0, Fin False 0), (Fin True 1, Fin False 1), (Fin True 2, Fin False 2),
      (Fin True 1, Fin False 3)]
     [Inf True, Fin False 1, Fin False 2, Fin False 3, Fin False 4]
     [0, 0, 0, 0] [(Fin False 0, Fin False 0), (Fin False 0, Fin False 4)] [0, 4]
     \<lparr> min_leaf_size = 1, hess = Fin False 0, gamma = Fin False 0, lambda = Fin False 0,
       alpha = Fin False 0 \<rparr> 0 [0]
     = Some [0]
   \<and> gain_kernel_body (minus2 Binary64) gain_func_double2
     [(Fin False 0, Fin False 0), (Fin True 1, Fin False 1), (Fin True 2, Fin False 2),
      (Fin True 1, Fin False 3)]
     [Inf True, Fin False 1, Fin False 2, Fin False 3, Fin False 4]
     [0, 0, 0, 0] [(Fin False 0, Fin False 0), (Fin False 0, Fin False 4)] [0, 4]
     \<lparr> min_leaf_size = 1, hess = Fin False 0, gamma = Fin False 0, lambda = Fin False 0,
       alpha = Fin False 0 \<rparr> 0 [0]
     = Some [0]
   \<and> [0 :: 64 word] = [0]"
proof -
  note t = gain_kernel_evaluates_when_values_differ
    [of "fsub Binary32" gain_func_float "[Fin False 0, Fin True 1, Fin True 2, Fin True 1]"
      "[Inf True, Fin False 1, Fin False 2, Fin False 3, Fin False 4]" "[0, 0, 0, 0]"
      "[Fin False 0, Fin False 0]" "[0, 4]"
      "\<lparr> min_leaf_size = 1, hess = Fin False 0, gamma = Fin False 0, lambda = Fin False 0,
         alpha = Fin False 0 \<rparr>" 2 0 "Fin False 4" "[0]" "[my_atomics 0x40800000 2]"
      "[Fin False 0, Fin True 1, Fin True 2, Fin True 1]" "[Fin False 0, Fin False 0]" "[0]"
      "[(Fin False 0, Fin False 0), (Fin True 1, Fin False 1), (Fin True 2, Fin False 2),
        (Fin True 1, Fin False 3)]"
      "[(Fin False 0, Fin False 0), (Fin False 0, Fin False 4)]"]
  note t1 = t [THEN conjunct1]
  note t2 = t [THEN conjunct2, THEN conjunct1]
  note t3 = t [THEN conjunct2, THEN conjunct2, THEN conjunct1]
  note t4 = t [THEN conjunct2, THEN conjunct2, THEN conjunct2]
  have n: "[my_atomics 0x40800000 2] \<noteq> [0]"
    by (simp add: my_atomics_def)
  have w: "well_formed (Fin False 0)" "well_formed (Fin False 4)"
    by (simp_all add: well_formed_def)
  have a: "fne (Fin False 3) (Fin False 2)"
    using t1 example_gain_at_2 by simp
  have b: "gain_kernel_gain (fsub Binary32) gain_func_float
     [Fin False 0, Fin True 1, Fin True 2, Fin True 1]
     [Inf True, Fin False 1, Fin False 2, Fin False 3, Fin False 4]
     [0, 0, 0, 0] [Fin False 0, Fin False 0] [0, 4]
     \<lparr> min_leaf_size = 1, hess = Fin False 0, gamma = Fin False 0, lambda = Fin False 0,
       alpha = Fin False 0 \<rparr> 0
     \<noteq> Some None"
    using t2 by simp
  have c: "\<exists>segment g.
        gain_kernel_gain (fsub Binary32) gain_func_float
          [Fin False 0, Fin True 1, Fin True 2, Fin True 1]
          [Inf True, Fin False 1, Fin False 2, Fin False 3, Fin False 4]
          [0, 0, 0, 0] [Fin False 0, Fin False 0] [0, 4]
          \<lparr> min_leaf_size = 1, hess = Fin False 0, gamma = Fin False 0, lambda = Fin False 0,
            alpha = Fin False 0 \<rparr> 2
        = Some (Some (segment, g)) \<and> fgt g fzero"
    using t3 example_body_at_2 n by blast
  have d: "[0 :: 64 word] = [0]"
    using t4 example_body_at_0 w by simp
  show ?thesis
    using example_gain_at_2 example_body_at_2 example_body_at_0 a b c d w by simp
qed

text \<open>
  C2, as the claim states it, fails: on the same leaf the sentinel does not make the
  kernel skip position \<open>0\<close>.  The first sorted value \<open>1.0\<close> differs from \<open>-\<infinity>\<close>, and
  \<^verbatim>\<open>gain_func\<close> is evaluated for the split before the first row (it returns \<open>0\<close>, the
  left side being empty).
\<close>

theorem gain_kernel_evaluates_position_0:
  "gain_kernel_gain (fsub Binary32) gain_func_float
     [Fin False 0, Fin True 1, Fin True 2, Fin True 1]
     [Inf True, Fin False 1, Fin False 2, Fin False 3, Fin False 4]
     [0, 0, 0, 0] [Fin False 0, Fin False 0] [0, 4]
     \<lparr> min_leaf_size = 1, hess = Fin False 0, gamma = Fin False 0, lambda = Fin False 0,
       alpha = Fin False 0 \<rparr> 0
   = Some (Some (0, Fin False 0))
   \<and> fne (Fin False 1) (Inf True)"
  by code_simp

subsection \<open>Routing at a leaf without a chosen split\<close>

lemma fle_infinity: "x \<noteq> NaN \<Longrightarrow> fle x (Inf False)"
  by (cases x) (auto simp: fle_def)

text \<open>
  When feature \<open>0\<close> is dense and the value of the row is not a NaN, the sentinel sends
  the row to the left.
\<close>

lemma degenerate_split_routes_left:
  assumes "0 < sint (ucast columns_dense :: 32 word)"
    and "read_int data 0 = Some column" and "read column i = Some v"
    and "v \<noteq> NaN"
  shows "UpdateNodeIndex_isLeft columns_dense data lil_row (degenerate_split node_stat split) i
           = Some True"
  using assms by (simp add: UpdateNodeIndex_isLeft_def degenerate_split_def fle_infinity)

text \<open>
  C6.  Every leaf without a chosen split gets the sentinel, and the rows of such a leaf
  are to go to the left child, which inherits the statistics of the leaf.  On a data set
  without dense columns the source writes the sentinel (feature \<open>0\<close>, threshold
  \<open>+\<infinity>\<close>, the count and the sum of the leaf) and then sends the row of the leaf to the
  right child, leaf \<open>1\<close> of the next level: feature \<open>0\<close> is not below
  \<^verbatim>\<open>columns_dense = 0\<close>, and \<^verbatim>\<open>split_by_true\<close> is false.  With a dense feature \<open>0\<close>
  the same row goes to the left child, leaf \<open>0\<close>, unless its value is a NaN.
\<close>

theorem degenerate_split_routes_right_without_dense_columns:
  "FindBestSplits_finish
     [\<lparr> stat_count = 1, stat_sum_grad = Fin False 5, stat_gain = Fin False 0 \<rparr>] 1
     [\<lparr> fid = - 1, gain = Fin False 0, split_value = Fin False 0, split_by_true = False,
        count = 0, sum_grad = Fin False 0 \<rparr>]
   = Some [\<lparr> fid = 0, gain = Fin False 0, split_value = Inf False, split_by_true = False,
        count = 1, sum_grad = Fin False 5 \<rparr>]
   \<and> UpdateNodeIndex 0 1 0 [] [[0]]
       [\<lparr> fid = 0, gain = Fin False 0, split_value = Inf False, split_by_true = False,
          count = 1 :: 32 word, sum_grad = Fin False 5 \<rparr>] [0]
     = Some [1]
   \<and> UpdateNodeIndex 0 1 1 [[Fin False 7]] [[]]
       [\<lparr> fid = 0, gain = Fin False 0, split_value = Inf False, split_by_true = False,
          count = 1 :: 32 word, sum_grad = Fin False 5 \<rparr>] [0]
     = Some [0]
   \<and> UpdateNodeIndex 0 1 1 [[NaN]] [[]]
       [\<lparr> fid = 0, gain = Fin False 0, split_value = Inf False, split_by_true = False,
          count = 1 :: 32 word, sum_grad = Fin False 5 \<rparr>] [0]
     = Some [1]"
  by code_simp

subsection \<open>Errors of the initialisation\<close>

lemma fround_nonneg: "is_nonneg (fround f False r)"
  by (simp add: fround_def Let_def)

lemma fmul_nonneg: "is_nonneg x \<Longrightarrow> is_nonneg y \<Longrightarrow> is_nonneg (fmul f x y)"
  by (cases x; cases y) (auto simp: fround_nonneg)

lemma f_of_word_nonneg: "is_nonneg (f_of_word f n)"
  by (simp add: f_of_word_def fround_nonneg)

lemma f_to_int_floor: "is_nonneg x \<Longrightarrow> f_to_int x = Some k \<Longrightarrow> f_floor x = Some k"
  by (cases x) (auto simp: f_to_int_def f_trunc_def f_floor_def sval_def split: if_splits)

lemma f_floor_to_int: "is_nonneg x \<Longrightarrow> f_to_int x \<noteq> None \<Longrightarrow> f_floor x = Some k \<Longrightarrow> f_to_int x = Some k"
  by (cases x) (auto simp: f_to_int_def f_trunc_def f_floor_def sval_def split: if_splits)

lemma grow_labels_first_error:
  "0 < labels_count \<Longrightarrow> grow 0 = Inl e \<Longrightarrow> grow_labels grow [0..<labels_count] trees = Inl e"
  by (simp add: upt_conv_Cons)

text \<open>
  C9.  For sampling rates that are not negative and products within the range of
  \<^verbatim>\<open>int\<close>, \<^verbatim>\<open>InitGrowingTree\<close> throws one of the two "too small" errors exactly when the
  floor of \<open>colsample_bytree \<cdot> columns\<close> or of
  \<open>colsample_bytree \<cdot> colsample_bylevel \<cdot> columns\<close> is zero.  The selection of the
  builder throws "unsupported depth" exactly when \<open>depth + 1\<close> exceeds 64.  Every error
  leaves \<^verbatim>\<open>Garden::GrowTree\<close> at once: the error of the selection, an error of the
  constructor of the selected builder, and, once the builder exists, the error of
  \<^verbatim>\<open>InitGrowingTree\<close> for the first label.
\<close>

theorem initialisation_errors:
  assumes "is_nonneg colsample_bytree" and "is_nonneg colsample_bylevel"
    and "f_to_int (fmul f colsample_bytree (f_of_word f columns)) \<noteq> None"
    and "f_to_int (fmul f (fmul f colsample_bytree colsample_bylevel) (f_of_word f columns))
           \<noteq> None"
  shows "((InitGrowingTree f colsample_bytree colsample_bylevel columns
             = Inl ColsampleBytreeTooSmall
           \<or> InitGrowingTree f colsample_bytree colsample_bylevel columns
             = Inl ColsampleBylevelTooSmall)
          \<longleftrightarrow> (f_floor (fmul f colsample_bytree (f_of_word f columns)) = Some 0
               \<or> f_floor (fmul f (fmul f colsample_bytree colsample_bylevel)
                             (f_of_word f columns)) = Some 0))
       \<and> (new_builder obj double_precision depth = Inl UnsupportedDepth
            \<longleftrightarrow> obj \<noteq> OtherObjective \<and> 64 < depth + 1)
       \<and> (\<not> garden_init g \<and> new_builder obj double_precision depth = Inl e \<longrightarrow>
            Garden_GrowTree grants rows columns_sparse overlap_depth scratch
              obj double_precision depth labels_count f colsample_bytree
              colsample_bylevel columns grow_levels g = Inl e)
       \<and> (\<not> garden_init g \<and> (\<exists>b. new_builder obj double_precision depth = Inr b)
            \<and> TaylorApproximationBuilder grants rows columns columns_sparse overlap_depth
                 scratch depth = Inl e \<longrightarrow>
            Garden_GrowTree grants rows columns_sparse overlap_depth scratch
              obj double_precision depth labels_count f colsample_bytree
              colsample_bylevel columns grow_levels g = Inl e)
       \<and> ((garden_init g
             \<or> ((\<exists>b. new_builder obj double_precision depth = Inr b)
                \<and> TaylorApproximationBuilder grants rows columns columns_sparse overlap_depth
                     scratch depth = Inr ()))
            \<and> 0 < labels_count
            \<and> InitGrowingTree f colsample_bytree colsample_bylevel columns = Inl e \<longrightarrow>
            Garden_GrowTree grants rows columns_sparse overlap_depth scratch
              obj double_precision depth labels_count f colsample_bytree
              colsample_bylevel columns grow_levels g = Inl e)"
proof (intro conjI)
  let ?p1 = "fmul f colsample_bytree (f_of_word f columns)"
  let ?p2 = "fmul f (fmul f colsample_bytree colsample_bylevel) (f_of_word f columns)"
  have n1: "is_nonneg ?p1"
    using assms(1) by (simp add: fmul_nonneg f_of_word_nonneg)
  have n2: "is_nonneg ?p2"
    using assms(1,2) by (simp add: fmul_nonneg f_of_word_nonneg)
  from assms(3) obtain k1 where k1: "f_to_int ?p1 = Some k1" by auto
  from assms(4) obtain k2 where k2: "f_to_int ?p2 = Some k2" by auto
  have f1: "f_floor ?p1 = Some k1" using n1 k1 by (rule f_to_int_floor)
  have f2: "f_floor ?p2 = Some k2" using n2 k2 by (rule f_to_int_floor)
  show "(InitGrowingTree f colsample_bytree colsample_bylevel columns
             = Inl ColsampleBytreeTooSmall
           \<or> InitGrowingTree f colsample_bytree colsample_bylevel columns
             = Inl ColsampleBylevelTooSmall)
          \<longleftrightarrow> (f_floor ?p1 = Some 0 \<or> f_floor ?p2 = Some 0)"
    using k1 k2 f1 f2 by (auto simp: InitGrowingTree_def)
next
  show "new_builder obj double_precision depth = Inl UnsupportedDepth
            \<longleftrightarrow> obj \<noteq> OtherObjective \<and> 64 < depth + 1"
    by (cases obj) (auto simp: new_builder_def CHAR_BIT_def)
next
  show "\<not> garden_init g \<and> new_builder obj double_precision depth = Inl e \<longrightarrow>
            Garden_GrowTree grants rows columns_sparse overlap_depth scratch
              obj double_precision depth labels_count f colsample_bytree
              colsample_bylevel columns grow_levels g = Inl e"
    by (simp add: Garden_GrowTree_def)
next
  show "\<not> garden_init g \<and> (\<exists>b. new_builder obj double_precision depth = Inr b)
            \<and> TaylorApproximationBuilder grants rows columns columns_sparse overlap_depth
                 scratch depth = Inl e \<longrightarrow>
            Garden_GrowTree grants rows columns_sparse overlap_depth scratch
              obj double_precision depth labels_count f colsample_bytree
              colsample_bylevel columns grow_levels g = Inl e"
    by (auto simp: Garden_GrowTree_def)
next
  show "(garden_init g
             \<or> ((\<exists>b. new_builder obj double_precision depth = Inr b)
                \<and> TaylorApproximationBuilder grants rows columns columns_sparse overlap_depth
                     scratch depth = Inr ()))
            \<and> 0 < labels_count
            \<and> InitGrowingTree f colsample_bytree colsample_bylevel columns = Inl e \<longrightarrow>
            Garden_GrowTree grants rows columns_sparse overlap_depth scratch
              obj double_precision depth labels_count f colsample_bytree
              colsample_bylevel columns grow_levels g = Inl e"
    by (auto simp: Garden_GrowTree_def builder_GrowTree_def grow_labels_first_error)
qed

lemma example_take1:
  "f_to_int (fmul Binary32 (Fin False (1 / 2)) (f_of_word Binary32 (3 :: 64 word))) = Some 1"
  by code_simp

lemma example_take2:
  "f_to_int (fmul Binary32 (fmul Binary32 (Fin False (1 / 2)) (Fin False (1 / 2)))
      (f_of_word Binary32 (3 :: 64 word))) = Some 0"
  by code_simp

lemma example_init:
  "InitGrowingTree Binary32 (Fin False (1 / 2)) (Fin False (1 / 2)) 3
     = Inl ColsampleBylevelTooSmall"
  by code_simp

lemma example_constructor:
  "TaylorApproximationBuilder (\<lambda>k size. True) 4 3 1 2 64 6 = Inr ()"
  "TaylorApproximationBuilder (\<lambda>k size. True) 4 3 1 2 64 33 = Inl LengthError"
  by code_simp+

text \<open>
  Three columns sampled at rate \<open>0.5\<close> by tree and by level: \<open>\<lfloor>1.5\<rfloor> = 1\<close> and
  \<open>\<lfloor>0.75\<rfloor> = 0\<close>.  Four rows, one sparse column and two slots, on a platform that
  grants every request.  Depth 64 is refused by the selection.  At depth 33 the
  constructor asks for a vector of \<^verbatim>\<open>INT_MIN\<close> counters and ends with
  \<^verbatim>\<open>std::length_error\<close>.  At depth 6 the builder is constructed and the sampling error
  ends the call.
\<close>

theorem initialisation_errors_witness:
  "is_nonneg (Fin False (1 / 2))
   \<and> f_to_int (fmul Binary32 (Fin False (1 / 2)) (f_of_word Binary32 (3 :: 64 word))) = Some 1
   \<and> f_to_int (fmul Binary32 (fmul Binary32 (Fin False (1 / 2)) (Fin False (1 / 2)))
        (f_of_word Binary32 (3 :: 64 word))) = Some 0
   \<and> InitGrowingTree Binary32 (Fin False (1 / 2)) (Fin False (1 / 2)) 3
       = Inl ColsampleBylevelTooSmall
   \<and> (f_floor (fmul Binary32 (Fin False (1 / 2)) (f_of_word Binary32 (3 :: 64 word))) = Some 0
      \<or> f_floor (fmul Binary32 (fmul Binary32 (Fin False (1 / 2)) (Fin False (1 / 2)))
           (f_of_word Binary32 (3 :: 64 word))) = Some 0)
   \<and> new_builder LinearRegression False 64 = Inl UnsupportedDepth
   \<and> Garden_GrowTree (\<lambda>k size. True) 4 1 2 64 LinearRegression False 64 1 Binary32
        (Fin False (1 / 2)) (Fin False (1 / 2)) 3 (\<lambda>label. Inr label)
        \<lparr> garden_init = False, garden_builder = None, garden_trees = [] \<rparr>
       = Inl UnsupportedDepth
   \<and> new_builder LinearRegression False 33 = Inr (UnsignedInt, Float, SumFloat)
   \<and> TaylorApproximationBuilder (\<lambda>k size. True) 4 3 1 2 64 33 = Inl LengthError
   \<and> Garden_GrowTree (\<lambda>k size. True) 4 1 2 64 LinearRegression False 33 1 Binary32
        (Fin False (1 / 2)) (Fin False (1 / 2)) 3 (\<lambda>label. Inr label)
        \<lparr> garden_init = False, garden_builder = None, garden_trees = [] \<rparr>
       = Inl LengthError
   \<and> new_builder LinearRegression False 6 = Inr (UnsignedChar, Float, SumFloat)
   \<and> TaylorApproximationBuilder (\<lambda>k size. True) 4 3 1 2 64 6 = Inr ()
   \<and> Garden_GrowTree (\<lambda>k size. True) 4 1 2 64 LinearRegression False 6 1 Binary32
        (Fin False (1 / 2)) (Fin False (1 / 2)) 3 (\<lambda>label. Inr label)
        \<lparr> garden_init = False, garden_builder = None, garden_trees = [] \<rparr>
       = Inl ColsampleBylevelTooSmall"
proof -
  let ?g = "\<lparr> garden_init = False, garden_builder = None, garden_trees = [] \<rparr>
              :: nat Garden"
  have d1: "f_to_int (fmul Binary32 (Fin False (1 / 2)) (f_of_word Binary32 (3 :: 64 word)))
              \<noteq> None"
    using example_take1 by simp
  have d2: "f_to_int (fmul Binary32 (fmul Binary32 (Fin False (1 / 2)) (Fin False (1 / 2)))
              (f_of_word Binary32 (3 :: 64 word))) \<noteq> None"
    using example_take2 by simp
  have nn: "is_nonneg (Fin False (1 / 2))"
    by simp
  note t = initialisation_errors [OF nn nn d1 d2,
      where obj = LinearRegression and double_precision = False and g = ?g
        and grants = "\<lambda>k size. True" and rows = 4 and columns_sparse = 1
        and overlap_depth = 2 and scratch = 64 and labels_count = 1
        and grow_levels = "\<lambda>label. Inr label"]
  note deep = t [where depth = 64 and e = UnsupportedDepth]
  note middle = t [where depth = 33 and e = LengthError]
  note shallow = t [where depth = 6 and e = ColsampleBylevelTooSmall]
  have b33: "new_builder LinearRegression False 33 = Inr (UnsignedInt, Float, SumFloat)"
    by (simp add: new_builder_def CHAR_BIT_def)
  have b6: "new_builder LinearRegression False 6 = Inr (UnsignedChar, Float, SumFloat)"
    by (simp add: new_builder_def CHAR_BIT_def)
  have fl: "f_floor (fmul Binary32 (Fin False (1 / 2)) (f_of_word Binary32 (3 :: 64 word)))
              = Some 0
      \<or> f_floor (fmul Binary32 (fmul Binary32 (Fin False (1 / 2)) (Fin False (1 / 2)))
           (f_of_word Binary32 (3 :: 64 word))) = Some 0"
    using deep example_init by blast
  have ud: "new_builder LinearRegression False 64 = Inl UnsupportedDepth"
    using deep by simp
  have g64: "Garden_GrowTree (\<lambda>k size. True) 4 1 2 64 LinearRegression False 64 1 Binary32
        (Fin False (1 / 2)) (Fin False (1 / 2)) 3 (\<lambda>label. Inr label) ?g
       = Inl UnsupportedDepth"
    using deep ud by simp
  have g33: "Garden_GrowTree (\<lambda>k size. True) 4 1 2 64 LinearRegression False 33 1 Binary32
        (Fin False (1 / 2)) (Fin False (1 / 2)) 3 (\<lambda>label. Inr label) ?g
       = Inl LengthError"
    using middle b33 example_constructor(2) by simp
  have g6: "Garden_GrowTree (\<lambda>k size. True) 4 1 2 64 LinearRegression False 6 1 Binary32
        (Fin False (1 / 2)) (Fin False (1 / 2)) 3 (\<lambda>label. Inr label) ?g
       = Inl ColsampleBylevelTooSmall"
    using shallow b6 example_constructor(1) example_init by simp
  show ?thesis
    by (intro conjI)
      (rule nn example_take1 example_take2 example_init fl ud g64 b33 b6
         example_constructor g33 g6)+
qed

subsection \<open>A level with an empty leaf\<close>

lemma example_empty_leaf_dense:
  "GetBestSplitForDenceFeature isnan_float (fsub Binary32) 0 example_slot
     [0, 2, 2] [Fin False 0, Fin False 0, Fin False 0] example_stats 2 example_unset
   = Some [\<lparr> fid = 0, gain = Fin False 2, split_value = Fin False (3 / 2), split_by_true = False,
        count = 1, sum_grad = Fin True 1 \<rparr>,
      \<lparr> fid = - 1, gain = Fin False 0, split_value = Fin False 0, split_by_true = False,
        count = 0, sum_grad = Fin False 0 \<rparr>]"
  by code_simp

lemma example_empty_leaf_level:
  "FindBestSplits isnan_float (fsub Binary32) (fadd Binary32) fzero
     (\<lambda>l t lc tc. gain_func_float l t lc tc example_params)
     Binary32 (Fin False 1) (Fin False 1) 1 2 1 [0, 1] (\<lambda>j. example_slot) [[1, 0]] example_stats
     [0, 0, 0] [Fin False 0, Fin False 0, Fin False 0] example_unset
   = Some [\<lparr> fid = 0, gain = Fin False 2, split_value = Fin False (3 / 2), split_by_true = False,
        count = 1, sum_grad = Fin True 1 \<rparr>,
      \<lparr> fid = 0, gain = Fin False 0, split_value = Inf False, split_by_true = False,
        count = 0, sum_grad = Fin False 0 \<rparr>]"
  by code_simp

text \<open>
  On the example level the record of the empty leaf \<open>1\<close> is left unset by the dense
  reduction, although its result cell reports a gain, and ends the level as the sentinel.
\<close>

theorem GetBestSplitForDenceFeature_skips_empty_leaf_witness:
  "1 < length example_unset
   \<and> stat_count (example_stats ! 1) \<le> 0
   \<and> fid (example_unset ! 1) < 0
   \<and> GetBestSplitForDenceFeature isnan_float (fsub Binary32) 0 example_slot
       [0, 2, 2] [Fin False 0, Fin False 0, Fin False 0] example_stats 2 example_unset
     = Some [\<lparr> fid = 0, gain = Fin False 2, split_value = Fin False (3 / 2),
          split_by_true = False, count = 1, sum_grad = Fin True 1 \<rparr>,
        \<lparr> fid = - 1, gain = Fin False 0, split_value = Fin False 0, split_by_true = False,
          count = 0, sum_grad = Fin False 0 \<rparr>]
   \<and> [\<lparr> fid = 0, gain = Fin False 2, split_value = Fin False (3 / 2),
          split_by_true = False, count = 1 :: 32 word, sum_grad = Fin True 1 \<rparr>,
        \<lparr> fid = - 1, gain = Fin False 0, split_value = Fin False 0, split_by_true = False,
          count = 0, sum_grad = Fin False 0 \<rparr>] ! 1
     = example_unset ! 1
   \<and> FindBestSplits isnan_float (fsub Binary32) (fadd Binary32) fzero
       (\<lambda>l t lc tc. gain_func_float l t lc tc example_params)
       Binary32 (Fin False 1) (Fin False 1) 1 2 1 [0, 1] (\<lambda>j. example_slot) [[1, 0]] example_stats
       [0, 0, 0] [Fin False 0, Fin False 0, Fin False 0] example_unset
     = Some [\<lparr> fid = 0, gain = Fin False 2, split_value = Fin False (3 / 2),
          split_by_true = False, count = 1, sum_grad = Fin True 1 \<rparr>,
        \<lparr> fid = 0, gain = Fin False 0, split_value = Inf False, split_by_true = False,
          count = 0, sum_grad = Fin False 0 \<rparr>]
   \<and> [\<lparr> fid = 0, gain = Fin False 2, split_value = Fin False (3 / 2),
          split_by_true = False, count = 1 :: 32 word, sum_grad = Fin True 1 \<rparr>,
        \<lparr> fid = 0, gain = Fin False 0, split_value = Inf False, split_by_true = False,
          count = 0, sum_grad = Fin False 0 \<rparr>] ! 1
     = degenerate_split (example_stats ! 1) (example_unset ! 1)"
proof -
  have h1: "1 < length example_unset"
    by (simp add: example_unset_def)
  have h2: "stat_count (example_stats ! 1) \<le> 0"
    by (simp add: example_stats_def)
  have h3: "fid (example_unset ! 1) < 0"
    by (simp add: example_unset_def)
  have h4: "\<forall>column \<in> set [[1, 0 :: 32 word]]. 1 < length column \<longrightarrow> column ! 1 = 0"
    by simp
  have h5: "(1 :: nat) < 2 ^ 1"
    by simp
  note t = GetBestSplitForDenceFeature_skips_empty_leaf [OF h1 h2,
      where isnan = isnan_float and sub_s = "fsub Binary32" and active_fid = 0
        and slot = example_slot and parent_node_count_h = "[0, 2, 2]"
        and parent_node_sum_h = "[Fin False 0, Fin False 0, Fin False 0]" and lenght = 2
        and add_s = "fadd Binary32" and zero_s = fzero
        and gain_fn = "\<lambda>l t lc tc. gain_func_float l t lc tc example_params"
        and f = Binary32
        and colsample_bylevel = "Fin False 1" and colsample_bytree = "Fin False 1"
        and level = 1 and columns = 2 and columns_dense = 1 and active_fids = "[0, 1]"
        and slots = "\<lambda>j. example_slot" and sparse_stat = "[[1, 0]]"
        and parent_count = "[0, 0, 0]"
        and parent_sum = "[Fin False 0, Fin False 0, Fin False 0]"]
  have a: "[\<lparr> fid = 0, gain = Fin False 2, split_value = Fin False (3 / 2),
          split_by_true = False, count = 1 :: 32 word, sum_grad = Fin True 1 \<rparr>,
        \<lparr> fid = - 1, gain = Fin False 0, split_value = Fin False 0, split_by_true = False,
          count = 0, sum_grad = Fin False 0 \<rparr>] ! 1
     = example_unset ! 1"
    using t example_empty_leaf_dense by blast
  have b: "[\<lparr> fid = 0, gain = Fin False 2, split_value = Fin False (3 / 2),
          split_by_true = False, count = 1 :: 32 word, sum_grad = Fin True 1 \<rparr>,
        \<lparr> fid = 0, gain = Fin False 0, split_value = Inf False, split_by_true = False,
          count = 0, sum_grad = Fin False 0 \<rparr>] ! 1
     = degenerate_split (example_stats ! 1) (example_unset ! 1)"
    using t example_empty_leaf_level h3 h4 h5 by blast
  show ?thesis
    using h1 h2 h3 example_empty_leaf_dense example_empty_leaf_level a b by blast
qed

text \<open>
  C10, as the claim states it, fails in its consequence: the reduction of a sparse
  feature does not look at the count of the leaf.  On the example level, with a sparse
  column that reports two true rows of sum \<open>3\<close> for the empty leaf \<open>1\<close> and with
  \<open>\<lambda> = 1\<close>, the leaf ends the level with a split by the true rows of gain \<open>3\<close>, not
  with the sentinel.
\<close>

theorem FindBestSplits_empty_leaf_split_by_true:
  "stat_count (example_stats ! 1) \<le> 0
   \<and> FindBestSplits isnan_float (fsub Binary32) (fadd Binary32) fzero
       (\<lambda>l t lc tc. gain_func_float l t lc tc
          \<lparr> min_leaf_size = 1, hess = Fin False 0, gamma = Fin False 0, lambda = Fin False 1,
            alpha = Fin False 0 \<rparr>)
       Binary32 (Fin False 1) (Fin False 1) 1 2 1 [0, 1]
       (\<lambda>j. if j = 0 then example_slot
            else \<lparr> results_h = [], slot_sum = [Fin False 0, Fin False 3], fvalue = [] \<rparr>)
       [[0, 2]] example_stats
       [0, 0, 0] [Fin False 0, Fin False 0, Fin False 0] example_unset
     = Some [\<lparr> fid = 0, gain = Fin False 2, split_value = Fin False (3 / 2),
          split_by_true = False, count = 1, sum_grad = Fin True 1 \<rparr>,
        \<lparr> fid = 1, gain = Fin False 3, split_value = Fin False 0, split_by_true = True,
          count = 2, sum_grad = Fin False 3 \<rparr>]
   \<and> degenerate_split (example_stats ! 1) (example_unset ! 1)
     = \<lparr> fid = 0, gain = Fin False 0, split_value = Inf False, split_by_true = False,
         count = 0, sum_grad = Fin False 0 \<rparr>"
  by code_simp

end
